theory Spec2Isabelle
  imports Complex_Main "HOL-Library.AList"
begin

section \<open>JavaScript values used by the server\<close>

text \<open>
  The server is TypeScript on Node. Dates are milliseconds since the epoch, and the value
  of \<^verbatim>\<open>new Date()\<close> is a parameter \<open>now\<close> of every function that reads the clock.
  A value that \<^verbatim>\<open>JSON.parse\<close> or \<^verbatim>\<open>express.json()\<close> returns is a \<open>json\<close>; an
  object is the list of its own properties, each key once. A number literal is parsed to
  the nearest double, \<open>JNum r\<close> with \<open>r\<close> that double's value; a literal beyond the range
  of doubles is parsed to \<^verbatim>\<open>Infinity\<close> or \<^verbatim>\<open>-Infinity\<close>.
\<close>

type_synonym date = int

datatype json =
    JNull
  | JBool bool
  | JNum real
  | JInfinity
  | JNegInfinity
  | JStr string
  | JArr "json list"
  | JObj "(string \<times> json) list"

text \<open>JavaScript truthiness: \<^verbatim>\<open>null\<close>, \<^verbatim>\<open>false\<close>, \<^verbatim>\<open>0\<close> and \<^verbatim>\<open>""\<close> are falsy.\<close>

fun truthy :: "json \<Rightarrow> bool" where
  "truthy JNull = False"
| "truthy (JBool b) = b"
| "truthy (JNum x) = (x \<noteq> 0)"
| "truthy JInfinity = True"
| "truthy JNegInfinity = True"
| "truthy (JStr s) = (s \<noteq> [])"
| "truthy (JArr _) = True"
| "truthy (JObj _) = True"

text \<open>
  The idiom \<^verbatim>\<open>x || null\<close> at each field type. \<open>None\<close> on the left is
  \<^verbatim>\<open>undefined\<close> (or \<^verbatim>\<open>null\<close>); \<open>None\<close> on the right is \<^verbatim>\<open>null\<close>.
\<close>

definition str_or_null :: "string option \<Rightarrow> string option" where
  "str_or_null x = (case x of None \<Rightarrow> None | Some s \<Rightarrow> if s = [] then None else Some s)"

definition num_or_null :: "real option \<Rightarrow> real option" where
  "num_or_null x = (case x of None \<Rightarrow> None | Some v \<Rightarrow> if v = 0 then None else Some v)"

definition json_or_null :: "json option \<Rightarrow> json" where
  "json_or_null x = (case x of None \<Rightarrow> JNull | Some v \<Rightarrow> if truthy v then v else JNull)"

text \<open>\<^verbatim>\<open>x || d\<close> with a default \<open>d\<close>.\<close>

definition str_or :: "string option \<Rightarrow> string \<Rightarrow> string" where
  "str_or x d = (case x of None \<Rightarrow> d | Some s \<Rightarrow> if s = [] then d else s)"

definition bool_or_false :: "bool option \<Rightarrow> bool" where
  "bool_or_false x = (case x of None \<Rightarrow> False | Some b \<Rightarrow> b)"

text \<open>
  \<^verbatim>\<open>x !== undefined ? x : d\<close>. Only \<^verbatim>\<open>undefined\<close> (\<open>None\<close>) takes the default:
  where the property may also be \<^verbatim>\<open>null\<close>, its type is an \<open>option\<close> of an
  \<open>option\<close>, \<open>Some None\<close> is \<^verbatim>\<open>null\<close>, and the \<^verbatim>\<open>null\<close> is kept.
\<close>

definition defined_or :: "'a option \<Rightarrow> 'a \<Rightarrow> 'a" where
  "defined_or x d = (case x of None \<Rightarrow> d | Some v \<Rightarrow> v)"

text \<open>The exceptions that the modelled code can throw.\<close>

datatype js_error = TypeError string | RangeError string


section \<open>Numbers\<close>

text \<open>
  A JavaScript number is a double: a finite value, one of the two infinities, or
  \<^verbatim>\<open>NaN\<close>. Every arithmetic operation returns the double nearest to the exact result.
  That rounding is the parameter \<open>fl\<close> of every function that computes: \<open>fl x\<close> is the
  nearest number with a 53-bit significand (ties to even, subnormals below the normal
  range), and a result whose rounding lies beyond the largest double is an infinity.
\<close>

datatype number = Finite real | PosInfinity | NegInfinity | NaN

definition max_double :: real where
  "max_double = 2 ^ 1024 - 2 ^ 971"

definition double_of :: "(real \<Rightarrow> real) \<Rightarrow> real \<Rightarrow> number" where
  "double_of fl x =
     (let y = fl x
      in if y > max_double then PosInfinity
         else if y < - max_double then NegInfinity
         else Finite y)"

text \<open>\<^verbatim>\<open>a + b\<close> and \<^verbatim>\<open>a * b\<close> on numbers.\<close>

fun num_add :: "(real \<Rightarrow> real) \<Rightarrow> number \<Rightarrow> number \<Rightarrow> number" where
  "num_add fl (Finite x) (Finite y) = double_of fl (x + y)"
| "num_add fl NaN b = NaN"
| "num_add fl a NaN = NaN"
| "num_add fl PosInfinity NegInfinity = NaN"
| "num_add fl NegInfinity PosInfinity = NaN"
| "num_add fl PosInfinity b = PosInfinity"
| "num_add fl a PosInfinity = PosInfinity"
| "num_add fl NegInfinity b = NegInfinity"
| "num_add fl a NegInfinity = NegInfinity"

fun sign_of :: "number \<Rightarrow> real" where
  "sign_of (Finite x) = sgn x"
| "sign_of PosInfinity = 1"
| "sign_of NegInfinity = - 1"
| "sign_of NaN = 0"

fun num_mul :: "(real \<Rightarrow> real) \<Rightarrow> number \<Rightarrow> number \<Rightarrow> number" where
  "num_mul fl (Finite x) (Finite y) = double_of fl (x * y)"
| "num_mul fl NaN b = NaN"
| "num_mul fl a NaN = NaN"
| "num_mul fl a b =
     (if sign_of a * sign_of b = 0 then NaN
      else if sign_of a * sign_of b > 0 then PosInfinity
      else NegInfinity)"

text \<open>\<^verbatim>\<open>Math.min(a, b)\<close> and \<^verbatim>\<open>Math.max(a, b)\<close>: \<^verbatim>\<open>NaN\<close> when an argument is.\<close>

fun Math_min :: "number \<Rightarrow> number \<Rightarrow> number" where
  "Math_min (Finite x) (Finite y) = Finite (min x y)"
| "Math_min NaN b = NaN"
| "Math_min a NaN = NaN"
| "Math_min NegInfinity b = NegInfinity"
| "Math_min a NegInfinity = NegInfinity"
| "Math_min PosInfinity b = b"
| "Math_min a PosInfinity = a"

text \<open>
  \<^verbatim>\<open>Math.round\<close> rounds to the nearest integer, a half towards \<open>+\<infinity>\<close>; the result is
  exact (a double that is no integer is below \<open>2^52\<close> in magnitude).
\<close>

definition Math_round :: "real \<Rightarrow> real" where
  "Math_round x = of_int \<lfloor>x + 1 / 2\<rfloor>"

fun Math_round_number :: "number \<Rightarrow> number" where
  "Math_round_number (Finite x) = Finite (Math_round x)"
| "Math_round_number a = a"

text \<open>\<^verbatim>\<open>a > b\<close> and \<^verbatim>\<open>a <= b\<close> on numbers; both are false when an operand is \<^verbatim>\<open>NaN\<close>.\<close>

fun num_gt :: "number \<Rightarrow> number \<Rightarrow> bool" where
  "num_gt (Finite x) (Finite y) = (x > y)"
| "num_gt NaN b = False"
| "num_gt a NaN = False"
| "num_gt NegInfinity b = False"
| "num_gt a PosInfinity = False"
| "num_gt PosInfinity b = True"
| "num_gt a NegInfinity = True"

fun num_le :: "number \<Rightarrow> number \<Rightarrow> bool" where
  "num_le (Finite x) (Finite y) = (x \<le> y)"
| "num_le NaN b = False"
| "num_le a NaN = False"
| "num_le NegInfinity b = True"
| "num_le a PosInfinity = True"
| "num_le PosInfinity b = False"
| "num_le a NegInfinity = False"

text \<open>
  What the theorems below use of the rounding, each a property of rounding to the nearest
  double: it is monotone; an integer up to \<open>2^53\<close> in magnitude, and a half of one, is a
  double; and \<^verbatim>\<open>Math.round\<close> of a double is a double.
\<close>

definition double_rounding :: "(real \<Rightarrow> real) \<Rightarrow> bool" where
  "double_rounding fl =
     ((\<forall>x y. x \<le> y \<longrightarrow> fl x \<le> fl y)
      \<and> (\<forall>k :: int. \<bar>k\<bar> \<le> 2 ^ 53 \<longrightarrow> fl (of_int k) = of_int k)
      \<and> (\<forall>k :: int. \<bar>k\<bar> \<le> 2 ^ 53 \<longrightarrow> fl (of_int k / 2) = of_int k / 2)
      \<and> (\<forall>x. fl (Math_round (fl x)) = Math_round (fl x)))"


section \<open>Authentication middleware (auth.ts, authBypass.ts)\<close>

text \<open>\<^verbatim>\<open>Express.User\<close>, the value of \<^verbatim>\<open>req.user\<close>.\<close>

record ExpressUser =
  eu_id :: int
  eu_username :: string
  eu_email :: string
  eu_name :: "string option"
  eu_department :: "string option"
  eu_role :: string

text \<open>
  What a middleware reads and writes of the request: the headers, the path and
  \<^verbatim>\<open>req.user\<close> (\<open>None\<close> is \<^verbatim>\<open>undefined\<close>).
\<close>

record request =
  headers :: "(string \<times> string) list"
  path :: string
  req_user :: "ExpressUser option"

text \<open>A middleware either calls \<^verbatim>\<open>next()\<close> or ends the request with a status.\<close>

datatype mw_result = Next | Rejected nat

type_synonym middleware = "request \<Rightarrow> request \<times> mw_result"

text \<open>\<^verbatim>\<open>enum UserRole { USER = 'user', ADMIN = 'admin' }\<close>\<close>

definition UserRole_USER :: string where
  "UserRole_USER = ''user''"

definition UserRole_ADMIN :: string where
  "UserRole_ADMIN = ''admin''"

definition defaultUser :: ExpressUser where
  "defaultUser = \<lparr> eu_id = 999, eu_username = ''Admin'', eu_email = ''admin@sentinel.local'',
     eu_name = Some ''System Administrator'', eu_department = Some ''SENTINEL Command'',
     eu_role = ''admin'' \<rparr>"

definition emergencyUser :: ExpressUser where
  "emergencyUser = \<lparr> eu_id = 999, eu_username = ''Emergency_Admin'',
     eu_email = ''override@sentinel.emergency'',
     eu_name = Some ''Emergency Override Active'', eu_department = Some ''SENTINEL Command'',
     eu_role = ''admin'' \<rparr>"

definition isAuthenticated :: middleware where
  "isAuthenticated req = (req\<lparr>req_user := Some defaultUser\<rparr>, Next)"

definition hasRole :: "string list \<Rightarrow> middleware" where
  "hasRole roles req = (req\<lparr>req_user := Some defaultUser\<rparr>, Next)"

definition hasSubscriptionAccess :: middleware where
  "hasSubscriptionAccess req = (req\<lparr>req_user := Some defaultUser\<rparr>, Next)"

definition hasMeshNetworkAccess :: middleware where
  "hasMeshNetworkAccess req = (req\<lparr>req_user := Some defaultUser\<rparr>, Next)"

definition forceEmergencyAuth :: middleware where
  "forceEmergencyAuth req = (req\<lparr>req_user := Some emergencyUser\<rparr>, Next)"

text \<open>
  \<^verbatim>\<open>emergencyAuthBypass\<close> is the one middleware of the two files that reads the
  request: it installs the emergency user only under the override headers, and calls
  \<^verbatim>\<open>next()\<close> either way. A header is truthy when present and non-empty.
\<close>

definition emergencyAuthBypass :: middleware where
  "emergencyAuthBypass req =
     (let overrideHeader = map_of (headers req) ''x-emergency-override'';
          overrideAuthority = map_of (headers req) ''x-override-authority''
      in if (case overrideHeader of None \<Rightarrow> False | Some v \<Rightarrow> v \<noteq> [])
            \<and> overrideAuthority = Some ''SENTINEL_EMERGENCY_PROTOCOL''
         then (req\<lparr>req_user := Some emergencyUser\<rparr>, Next)
         else (req, Next))"

text \<open>The user a request carries after a middleware, and whether the request went on.\<close>

definition admitted_as :: "middleware \<Rightarrow> request \<Rightarrow> (int \<times> string) option" where
  "admitted_as mw req =
     (case mw req of
        (req', Next) \<Rightarrow> map_option (\<lambda>u. (eu_id u, eu_role u)) (req_user req')
      | (req', Rejected _) \<Rightarrow> None)"


section \<open>The in-memory store (storage.ts, class MemStorage)\<close>

text \<open>
  The row types of \<^verbatim>\<open>shared/schema\<close> are read off the object literals the create
  methods build. Optional text is \<open>string option\<close> (\<open>None\<close> is \<^verbatim>\<open>null\<close>), a
  \<^verbatim>\<open>jsonb\<close> column is a \<open>json\<close> (\<open>JNull\<close> is \<^verbatim>\<open>null\<close>). In the insert
  types (\<^verbatim>\<open>NewUser\<close>, ...) an optional property is an \<open>option\<close> whose \<open>None\<close>
  is a property that is absent. The nullable flag of a mesh device, which its create
  method defaults with \<^verbatim>\<open>x !== undefined ? x : d\<close>, is an \<open>option\<close> in the row
  (\<open>None\<close> is \<^verbatim>\<open>null\<close>) and an \<open>option\<close> of that in the insert type (\<open>None\<close>
  absent, \<open>Some None\<close> \<^verbatim>\<open>null\<close>). A mobile device and a mobile alert reach their create
  methods from routes that pass the request body on unvalidated, and the tracking route
  writes body values into a stored device: the properties defaulted with
  \<^verbatim>\<open>x !== undefined ? x : d\<close>, and \<^verbatim>\<open>trackingPurpose\<close>, are JSON values as they came.
\<close>

record User =
  usr_username :: string
  usr_email :: string
  usr_password :: string
  usr_name :: "string option"
  usr_department :: "string option"
  usr_role :: string
  usr_id :: int
  usr_createdAt :: date
  usr_lastLogin :: "date option"

record NewUser =
  nusr_username :: string
  nusr_email :: string
  nusr_password :: string
  nusr_name :: "string option"
  nusr_department :: "string option"
  nusr_role :: "string option"

record Subscription =
  sub_userId :: int
  sub_plan :: string
  sub_status :: string
  sub_startDate :: date
  sub_endDate :: "date option"
  sub_paymentMethod :: "string option"
  sub_paymentId :: "string option"
  sub_features :: json
  sub_trialUsed :: bool
  sub_id :: int
  sub_createdAt :: date
  sub_updatedAt :: date

record NewSubscription =
  nsub_userId :: int
  nsub_plan :: string
  nsub_status :: string
  nsub_startDate :: date
  nsub_endDate :: "date option"
  nsub_paymentMethod :: "string option"
  nsub_paymentId :: "string option"
  nsub_features :: "json option"
  nsub_trialUsed :: "bool option"

record ForensicReport =
  rep_userId :: int
  rep_title :: string
  rep_description :: "string option"
  rep_frequencyData :: json
  rep_locationData :: json
  rep_deviceData :: json
  rep_mlClassification :: json
  rep_reportData :: json
  rep_id :: int
  rep_createdAt :: date
  rep_timestamp :: date

record NewForensicReport =
  nrep_userId :: int
  nrep_title :: string
  nrep_description :: "string option"
  nrep_frequencyData :: "json option"
  nrep_locationData :: "json option"
  nrep_deviceData :: "json option"
  nrep_mlClassification :: "json option"
  nrep_reportData :: "json option"
  nrep_timestamp :: "date option"

record BlockedFrequency =
  bf_userId :: int
  bf_frequency :: real
  bf_bandwidth :: real
  bf_name :: "string option"
  bf_description :: "string option"
  bf_isCustom :: bool
  bf_id :: int
  bf_createdAt :: date

record NewBlockedFrequency =
  nbf_userId :: int
  nbf_frequency :: real
  nbf_bandwidth :: real
  nbf_name :: "string option"
  nbf_description :: "string option"
  nbf_isCustom :: "bool option"

record MeshDevice =
  md_userId :: int
  md_deviceId :: string
  md_name :: string
  md_type :: string
  md_active :: "bool option"
  md_ipAddress :: "string option"
  md_macAddress :: "string option"
  md_batteryLevel :: "real option"
  md_firmwareVersion :: "string option"
  md_signalStrength :: "real option"
  md_capabilities :: json
  md_meshSettings :: json
  md_id :: int
  md_createdAt :: date
  md_updatedAt :: date
  md_lastSeen :: date

record NewMeshDevice =
  nmd_userId :: int
  nmd_deviceId :: string
  nmd_name :: string
  nmd_type :: string
  nmd_active :: "bool option option"
  nmd_ipAddress :: "string option"
  nmd_macAddress :: "string option"
  nmd_batteryLevel :: "real option"
  nmd_firmwareVersion :: "string option"
  nmd_signalStrength :: "real option"
  nmd_capabilities :: "json option"
  nmd_meshSettings :: "json option"
  nmd_lastSeen :: "date option"

record MobileDevice =
  mob_userId :: int
  mob_deviceId :: string
  mob_name :: string
  mob_type :: string
  mob_version :: "string option"
  mob_status :: string
  mob_batteryLevel :: "real option"
  mob_notifications :: json
  mob_locationSharing :: json
  mob_autoProtection :: json
  mob_settings :: json
  mob_protectionStatus :: json
  mob_lastLocation :: json
  mob_locationHistory :: json
  mob_trackingEnabled :: json
  mob_trackingInterval :: json
  mob_trackingPurpose :: json
  mob_id :: int
  mob_createdAt :: date
  mob_updatedAt :: date
  mob_lastConnected :: date

record NewMobileDevice =
  nmob_userId :: int
  nmob_deviceId :: string
  nmob_name :: string
  nmob_type :: string
  nmob_version :: "string option"
  nmob_status :: string
  nmob_batteryLevel :: "real option"
  nmob_notifications :: "json option"
  nmob_locationSharing :: "json option"
  nmob_autoProtection :: "json option"
  nmob_settings :: "json option"
  nmob_protectionStatus :: "json option"
  nmob_lastLocation :: "json option"
  nmob_locationHistory :: "json option"
  nmob_trackingEnabled :: "json option"
  nmob_trackingInterval :: "json option"
  nmob_trackingPurpose :: "json option"
  nmob_lastConnected :: "date option"

record MobileAlert =
  al_mobileDeviceId :: int
  al_title :: string
  al_description :: string
  al_type :: string
  al_severity :: string
  al_location :: json
  al_frequencyData :: json
  al_read :: json
  al_acknowledged :: json
  al_id :: int
  al_createdAt :: date
  al_timestamp :: date

record NewMobileAlert =
  nal_mobileDeviceId :: int
  nal_title :: string
  nal_description :: string
  nal_type :: string
  nal_severity :: string
  nal_location :: "json option"
  nal_frequencyData :: "json option"
  nal_read :: "json option"
  nal_acknowledged :: "json option"
  nal_timestamp :: "date option"

text \<open>
  The fields of \<^verbatim>\<open>MemStorage\<close>: one \<^verbatim>\<open>Map<number, Row>\<close> and one counter
  for each entity. The subscriptions are kept in the map's insertion order, which
  \<^verbatim>\<open>getUserSubscription\<close> searches: \<^verbatim>\<open>set\<close> replaces the value of a key that is
  present where it stands and appends a new key at the end (\<open>AList.update\<close>).
\<close>

record MemStorage =
  users :: "int \<rightharpoonup> User"
  subscriptions :: "(int \<times> Subscription) list"
  reports :: "int \<rightharpoonup> ForensicReport"
  blockedFrequencies :: "int \<rightharpoonup> BlockedFrequency"
  meshDevices :: "int \<rightharpoonup> MeshDevice"
  mobileDevices :: "int \<rightharpoonup> MobileDevice"
  mobileAlerts :: "int \<rightharpoonup> MobileAlert"
  userIdCounter :: int
  subscriptionIdCounter :: int
  reportIdCounter :: int
  blockedFrequencyIdCounter :: int
  meshDeviceIdCounter :: int
  mobileDeviceIdCounter :: int
  mobileAlertIdCounter :: int

text \<open>
  An argument of type \<^verbatim>\<open>Partial<NewRow>\<close> is only ever spread over the stored row
  (\<^verbatim>\<open>{ ...row, ...updateData }\<close>); it is modelled as the function that the spread
  applies to the row.
\<close>

type_synonym 'row partial = "'row \<Rightarrow> 'row"

text \<open>
  A counter is a double. The constructor sets it to 1 and only \<^verbatim>\<open>counter++\<close> changes
  it, so it holds an integer from 1 to \<open>2^53\<close>: below \<open>2^53\<close> adding 1 is exact, and
  \<open>2^53 + 1\<close> is no double and rounds (to even) back to \<open>2^53\<close>, where the counter
  stays. \<open>next_id c\<close> is the counter after \<^verbatim>\<open>counter++\<close> at \<open>c\<close>; the value of the
  expression is \<open>c\<close> itself.
\<close>

definition next_id :: "int \<Rightarrow> int" where
  "next_id c = (if c < 2 ^ 53 then c + 1 else c)"

subsection \<open>Users\<close>

definition getUser :: "MemStorage \<Rightarrow> int \<Rightarrow> User option" where
  "getUser st i = users st i"

definition createUser :: "date \<Rightarrow> MemStorage \<Rightarrow> NewUser \<Rightarrow> MemStorage \<times> User" where
  "createUser now st insertUser =
     (let i = userIdCounter st;
          st1 = st\<lparr>userIdCounter := next_id i\<rparr>;
          createdAt = now;
          user = \<lparr> usr_username = nusr_username insertUser,
                   usr_email = nusr_email insertUser,
                   usr_password = nusr_password insertUser,
                   usr_name = str_or_null (nusr_name insertUser),
                   usr_department = str_or_null (nusr_department insertUser),
                   usr_role = str_or (nusr_role insertUser) ''user'',
                   usr_id = i,
                   usr_createdAt = createdAt,
                   usr_lastLogin = None \<rparr>
      in (st1\<lparr>users := (users st1)(i \<mapsto> user)\<rparr>, user))"

definition updateUser :: "MemStorage \<Rightarrow> int \<Rightarrow> User partial \<Rightarrow> MemStorage \<times> User option" where
  "updateUser st i updateData =
     (case users st i of
        None \<Rightarrow> (st, None)
      | Some user \<Rightarrow>
          (let updatedUser = updateData user
           in (st\<lparr>users := (users st)(i \<mapsto> updatedUser)\<rparr>, Some updatedUser)))"

subsection \<open>Subscriptions\<close>

definition createSubscription ::
  "date \<Rightarrow> MemStorage \<Rightarrow> NewSubscription \<Rightarrow> MemStorage \<times> Subscription" where
  "createSubscription now st subscription =
     (let i = subscriptionIdCounter st;
          st1 = st\<lparr>subscriptionIdCounter := next_id i\<rparr>;
          createdAt = now;
          updatedAt = now;
          newSubscription = \<lparr> sub_userId = nsub_userId subscription,
                   sub_plan = nsub_plan subscription,
                   sub_status = nsub_status subscription,
                   sub_startDate = nsub_startDate subscription,
                   sub_endDate = nsub_endDate subscription,
                   sub_paymentMethod = str_or_null (nsub_paymentMethod subscription),
                   sub_paymentId = str_or_null (nsub_paymentId subscription),
                   sub_features = json_or_null (nsub_features subscription),
                   sub_trialUsed = bool_or_false (nsub_trialUsed subscription),
                   sub_id = i,
                   sub_createdAt = createdAt,
                   sub_updatedAt = updatedAt \<rparr>
      in (st1\<lparr>subscriptions := AList.update i newSubscription (subscriptions st1)\<rparr>,
          newSubscription))"

definition updateSubscription ::
  "date \<Rightarrow> MemStorage \<Rightarrow> int \<Rightarrow> Subscription partial \<Rightarrow> MemStorage \<times> Subscription option" where
  "updateSubscription now st i updateData =
     (case map_of (subscriptions st) i of
        None \<Rightarrow> (st, None)
      | Some subscription \<Rightarrow>
          (let updatedSubscription = (updateData subscription)\<lparr>sub_updatedAt := now\<rparr>
           in (st\<lparr>subscriptions := AList.update i updatedSubscription (subscriptions st)\<rparr>,
               Some updatedSubscription)))"

text \<open>
  \<^verbatim>\<open>getUserSubscription\<close> returns the first subscription, in insertion order, of the
  user. \<^verbatim>\<open>updateUserStripeInfo\<close> rewrites that subscription under the key
  \<^verbatim>\<open>subscription.id\<close>, the row's \<^verbatim>\<open>id\<close> field.
\<close>

definition getUserSubscription :: "MemStorage \<Rightarrow> int \<Rightarrow> Subscription option" where
  "getUserSubscription st userId =
     find (\<lambda>sub. sub_userId sub = userId) (map snd (subscriptions st))"

definition updateUserStripeInfo ::
  "date \<Rightarrow> MemStorage \<Rightarrow> int \<Rightarrow> string \<Rightarrow> MemStorage \<times> Subscription option" where
  "updateUserStripeInfo now st userId stripeSubscriptionId =
     (case getUserSubscription st userId of
        Some subscription \<Rightarrow>
          (let updatedSubscription =
                 subscription\<lparr>sub_paymentId := Some stripeSubscriptionId, sub_updatedAt := now\<rparr>
           in (st\<lparr>subscriptions :=
                     AList.update (sub_id subscription) updatedSubscription (subscriptions st)\<rparr>,
               Some updatedSubscription))
      | None \<Rightarrow> (st, None))"

subsection \<open>Forensic reports\<close>

definition getReport :: "MemStorage \<Rightarrow> int \<Rightarrow> ForensicReport option" where
  "getReport st i = reports st i"

definition createReport ::
  "date \<Rightarrow> MemStorage \<Rightarrow> NewForensicReport \<Rightarrow> MemStorage \<times> ForensicReport" where
  "createReport now st report =
     (let i = reportIdCounter st;
          st1 = st\<lparr>reportIdCounter := next_id i\<rparr>;
          createdAt = now;
          timestamp = (case nrep_timestamp report of Some t \<Rightarrow> t | None \<Rightarrow> now);
          newReport = \<lparr> rep_userId = nrep_userId report,
                   rep_title = nrep_title report,
                   rep_description = str_or_null (nrep_description report),
                   rep_frequencyData = json_or_null (nrep_frequencyData report),
                   rep_locationData = json_or_null (nrep_locationData report),
                   rep_deviceData = json_or_null (nrep_deviceData report),
                   rep_mlClassification = json_or_null (nrep_mlClassification report),
                   rep_reportData = json_or_null (nrep_reportData report),
                   rep_id = i,
                   rep_createdAt = createdAt,
                   rep_timestamp = timestamp \<rparr>
      in (st1\<lparr>reports := (reports st1)(i \<mapsto> newReport)\<rparr>, newReport))"

definition updateReport ::
  "MemStorage \<Rightarrow> int \<Rightarrow> ForensicReport partial \<Rightarrow> MemStorage \<times> ForensicReport option" where
  "updateReport st i updateData =
     (case reports st i of
        None \<Rightarrow> (st, None)
      | Some report \<Rightarrow>
          (let updatedReport = updateData report
           in (st\<lparr>reports := (reports st)(i \<mapsto> updatedReport)\<rparr>, Some updatedReport)))"

text \<open>\<^verbatim>\<open>Map.prototype.delete\<close> returns whether the key was present.\<close>

definition deleteReport :: "MemStorage \<Rightarrow> int \<Rightarrow> MemStorage \<times> bool" where
  "deleteReport st i = (st\<lparr>reports := (reports st)(i := None)\<rparr>, reports st i \<noteq> None)"

subsection \<open>Blocked frequencies\<close>

definition getBlockedFrequency :: "MemStorage \<Rightarrow> int \<Rightarrow> BlockedFrequency option" where
  "getBlockedFrequency st i = blockedFrequencies st i"

definition createBlockedFrequency ::
  "date \<Rightarrow> MemStorage \<Rightarrow> NewBlockedFrequency \<Rightarrow> MemStorage \<times> BlockedFrequency" where
  "createBlockedFrequency now st frequency =
     (let i = blockedFrequencyIdCounter st;
          st1 = st\<lparr>blockedFrequencyIdCounter := next_id i\<rparr>;
          createdAt = now;
          newFrequency = \<lparr> bf_userId = nbf_userId frequency,
                   bf_frequency = nbf_frequency frequency,
                   bf_bandwidth = nbf_bandwidth frequency,
                   bf_name = str_or_null (nbf_name frequency),
                   bf_description = str_or_null (nbf_description frequency),
                   bf_isCustom = bool_or_false (nbf_isCustom frequency),
                   bf_id = i,
                   bf_createdAt = createdAt \<rparr>
      in (st1\<lparr>blockedFrequencies := (blockedFrequencies st1)(i \<mapsto> newFrequency)\<rparr>,
          newFrequency))"

definition updateBlockedFrequency ::
  "MemStorage \<Rightarrow> int \<Rightarrow> BlockedFrequency partial \<Rightarrow> MemStorage \<times> BlockedFrequency option" where
  "updateBlockedFrequency st i updateData =
     (case blockedFrequencies st i of
        None \<Rightarrow> (st, None)
      | Some frequency \<Rightarrow>
          (let updatedFrequency = updateData frequency
           in (st\<lparr>blockedFrequencies := (blockedFrequencies st)(i \<mapsto> updatedFrequency)\<rparr>,
               Some updatedFrequency)))"

definition deleteBlockedFrequency :: "MemStorage \<Rightarrow> int \<Rightarrow> MemStorage \<times> bool" where
  "deleteBlockedFrequency st i =
     (st\<lparr>blockedFrequencies := (blockedFrequencies st)(i := None)\<rparr>,
      blockedFrequencies st i \<noteq> None)"

subsection \<open>Mesh devices\<close>

definition getMeshDevice :: "MemStorage \<Rightarrow> int \<Rightarrow> MeshDevice option" where
  "getMeshDevice st i = meshDevices st i"

definition createMeshDevice ::
  "date \<Rightarrow> MemStorage \<Rightarrow> NewMeshDevice \<Rightarrow> MemStorage \<times> MeshDevice" where
  "createMeshDevice now st device =
     (let i = meshDeviceIdCounter st;
          st1 = st\<lparr>meshDeviceIdCounter := next_id i\<rparr>;
          createdAt = now;
          updatedAt = now;
          lastSeen = (case nmd_lastSeen device of Some t \<Rightarrow> t | None \<Rightarrow> now);
          newDevice = \<lparr> md_userId = nmd_userId device,
                   md_deviceId = nmd_deviceId device,
                   md_name = nmd_name device,
                   md_type = nmd_type device,
                   md_active = defined_or (nmd_active device) (Some True),
                   md_ipAddress = str_or_null (nmd_ipAddress device),
                   md_macAddress = str_or_null (nmd_macAddress device),
                   md_batteryLevel = num_or_null (nmd_batteryLevel device),
                   md_firmwareVersion = str_or_null (nmd_firmwareVersion device),
                   md_signalStrength = num_or_null (nmd_signalStrength device),
                   md_capabilities = json_or_null (nmd_capabilities device),
                   md_meshSettings = json_or_null (nmd_meshSettings device),
                   md_id = i,
                   md_createdAt = createdAt,
                   md_updatedAt = updatedAt,
                   md_lastSeen = lastSeen \<rparr>
      in (st1\<lparr>meshDevices := (meshDevices st1)(i \<mapsto> newDevice)\<rparr>, newDevice))"

definition updateMeshDevice ::
  "date \<Rightarrow> MemStorage \<Rightarrow> int \<Rightarrow> MeshDevice partial \<Rightarrow> MemStorage \<times> MeshDevice option" where
  "updateMeshDevice now st i updateData =
     (case meshDevices st i of
        None \<Rightarrow> (st, None)
      | Some device \<Rightarrow>
          (let updatedDevice = (updateData device)\<lparr>md_updatedAt := now\<rparr>
           in (st\<lparr>meshDevices := (meshDevices st)(i \<mapsto> updatedDevice)\<rparr>,
               Some updatedDevice)))"

definition deleteMeshDevice :: "MemStorage \<Rightarrow> int \<Rightarrow> MemStorage \<times> bool" where
  "deleteMeshDevice st i =
     (st\<lparr>meshDevices := (meshDevices st)(i := None)\<rparr>, meshDevices st i \<noteq> None)"

subsection \<open>Mobile devices\<close>

definition getMobileDevice :: "MemStorage \<Rightarrow> int \<Rightarrow> MobileDevice option" where
  "getMobileDevice st i = mobileDevices st i"

definition createMobileDevice ::
  "date \<Rightarrow> MemStorage \<Rightarrow> NewMobileDevice \<Rightarrow> MemStorage \<times> MobileDevice" where
  "createMobileDevice now st device =
     (let i = mobileDeviceIdCounter st;
          st1 = st\<lparr>mobileDeviceIdCounter := next_id i\<rparr>;
          createdAt = now;
          updatedAt = now;
          lastConnected = (case nmob_lastConnected device of Some t \<Rightarrow> t | None \<Rightarrow> now);
          newDevice = \<lparr> mob_userId = nmob_userId device,
                   mob_deviceId = nmob_deviceId device,
                   mob_name = nmob_name device,
                   mob_type = nmob_type device,
                   mob_version = str_or_null (nmob_version device),
                   mob_status = nmob_status device,
                   mob_batteryLevel = num_or_null (nmob_batteryLevel device),
                   mob_notifications = defined_or (nmob_notifications device) (JBool True),
                   mob_locationSharing = defined_or (nmob_locationSharing device) (JBool False),
                   mob_autoProtection = defined_or (nmob_autoProtection device) (JBool True),
                   mob_settings = json_or_null (nmob_settings device),
                   mob_protectionStatus = json_or_null (nmob_protectionStatus device),
                   mob_lastLocation = json_or_null (nmob_lastLocation device),
                   mob_locationHistory = json_or_null (nmob_locationHistory device),
                   mob_trackingEnabled = defined_or (nmob_trackingEnabled device) (JBool False),
                   mob_trackingInterval = defined_or (nmob_trackingInterval device) (JNum 60),
                   mob_trackingPurpose = json_or_null (nmob_trackingPurpose device),
                   mob_id = i,
                   mob_createdAt = createdAt,
                   mob_updatedAt = updatedAt,
                   mob_lastConnected = lastConnected \<rparr>
      in (st1\<lparr>mobileDevices := (mobileDevices st1)(i \<mapsto> newDevice)\<rparr>, newDevice))"

definition updateMobileDevice ::
  "date \<Rightarrow> MemStorage \<Rightarrow> int \<Rightarrow> MobileDevice partial \<Rightarrow> MemStorage \<times> MobileDevice option" where
  "updateMobileDevice now st i updateData =
     (case mobileDevices st i of
        None \<Rightarrow> (st, None)
      | Some device \<Rightarrow>
          (let updatedDevice = (updateData device)\<lparr>mob_updatedAt := now\<rparr>
           in (st\<lparr>mobileDevices := (mobileDevices st)(i \<mapsto> updatedDevice)\<rparr>,
               Some updatedDevice)))"

definition deleteMobileDevice :: "MemStorage \<Rightarrow> int \<Rightarrow> MemStorage \<times> bool" where
  "deleteMobileDevice st i =
     (st\<lparr>mobileDevices := (mobileDevices st)(i := None)\<rparr>, mobileDevices st i \<noteq> None)"

subsection \<open>Mobile alerts\<close>

definition createMobileAlert ::
  "date \<Rightarrow> MemStorage \<Rightarrow> NewMobileAlert \<Rightarrow> MemStorage \<times> MobileAlert" where
  "createMobileAlert now st alert =
     (let i = mobileAlertIdCounter st;
          st1 = st\<lparr>mobileAlertIdCounter := next_id i\<rparr>;
          createdAt = now;
          timestamp = (case nal_timestamp alert of Some t \<Rightarrow> t | None \<Rightarrow> now);
          newAlert = \<lparr> al_mobileDeviceId = nal_mobileDeviceId alert,
                   al_title = nal_title alert,
                   al_description = nal_description alert,
                   al_type = nal_type alert,
                   al_severity = nal_severity alert,
                   al_location = json_or_null (nal_location alert),
                   al_frequencyData = json_or_null (nal_frequencyData alert),
                   al_read = defined_or (nal_read alert) (JBool False),
                   al_acknowledged = defined_or (nal_acknowledged alert) (JBool False),
                   al_id = i,
                   al_createdAt = createdAt,
                   al_timestamp = timestamp \<rparr>
      in (st1\<lparr>mobileAlerts := (mobileAlerts st1)(i \<mapsto> newAlert)\<rparr>, newAlert))"

definition updateMobileAlert ::
  "MemStorage \<Rightarrow> int \<Rightarrow> MobileAlert partial \<Rightarrow> MemStorage \<times> MobileAlert option" where
  "updateMobileAlert st i updateData =
     (case mobileAlerts st i of
        None \<Rightarrow> (st, None)
      | Some alert \<Rightarrow>
          (let updatedAlert = updateData alert
           in (st\<lparr>mobileAlerts := (mobileAlerts st)(i \<mapsto> updatedAlert)\<rparr>,
               Some updatedAlert)))"

definition deleteMobileAlert :: "MemStorage \<Rightarrow> int \<Rightarrow> MemStorage \<times> bool" where
  "deleteMobileAlert st i =
     (st\<lparr>mobileAlerts := (mobileAlerts st)(i := None)\<rparr>, mobileAlerts st i \<noteq> None)"

definition markMobileAlertAsRead :: "MemStorage \<Rightarrow> int \<Rightarrow> MemStorage \<times> MobileAlert option" where
  "markMobileAlertAsRead st i = updateMobileAlert st i (\<lambda>a. a\<lparr>al_read := JBool True\<rparr>)"

subsection \<open>The constructor\<close>

definition emptyStorage :: MemStorage where
  "emptyStorage = \<lparr> users = Map.empty, subscriptions = [], reports = Map.empty,
     blockedFrequencies = Map.empty, meshDevices = Map.empty, mobileDevices = Map.empty,
     mobileAlerts = Map.empty,
     userIdCounter = 1, subscriptionIdCounter = 1, reportIdCounter = 1,
     blockedFrequencyIdCounter = 1, meshDeviceIdCounter = 1, mobileDeviceIdCounter = 1,
     mobileAlertIdCounter = 1 \<rparr>"

definition demoUser :: NewUser where
  "demoUser = \<lparr> nusr_username = ''demo'',
     nusr_email = ''demo@example.com'',
     nusr_password = ''$2b$10$YVS3Bk5RBvCcKJmYymF2DeRWH.QzoNmF0N6hsU1v1pvfk2TpSTgHu'',
     nusr_name = Some ''Demo User'', nusr_department = Some ''Law Enforcement'',
     nusr_role = Some ''user'' \<rparr>"

definition adminUser :: NewUser where
  "adminUser = \<lparr> nusr_username = ''admin'',
     nusr_email = ''admin@example.com'',
     nusr_password = ''$2b$10$zGcBGU3zgYm5BRQnEP.J7OmwVJFdJG62qW3Qh/zCGX.vMH3IbcAZ2'',
     nusr_name = Some ''System Administrator'', nusr_department = Some ''IT'',
     nusr_role = Some ''admin'' \<rparr>"

text \<open>
  \<^verbatim>\<open>new MemStorage()\<close>: the two \<^verbatim>\<open>createUser\<close> calls are not awaited, but the
  method has no \<^verbatim>\<open>await\<close> of its own and so runs to its end within the call.
\<close>

definition newMemStorage :: "date \<Rightarrow> MemStorage" where
  "newMemStorage now =
     (let st1 = fst (createUser now emptyStorage demoUser);
          st2 = fst (createUser now st1 adminUser)
      in st2)"


subsection \<open>Runs of the store\<close>

text \<open>
  To speak about all entities at once: the entity kinds, a store's row of a kind under a
  key, its counter of a kind, the mutating calls as a datatype, and their effect.
\<close>

datatype entity =
    E_user | E_subscription | E_report | E_blockedFrequency
  | E_meshDevice | E_mobileDevice | E_mobileAlert

datatype row =
    R_user User
  | R_subscription Subscription
  | R_report ForensicReport
  | R_blockedFrequency BlockedFrequency
  | R_meshDevice MeshDevice
  | R_mobileDevice MobileDevice
  | R_mobileAlert MobileAlert

fun row_of :: "entity \<Rightarrow> MemStorage \<Rightarrow> int \<Rightarrow> row option" where
  "row_of E_user st k = map_option R_user (users st k)"
| "row_of E_subscription st k = map_option R_subscription (map_of (subscriptions st) k)"
| "row_of E_report st k = map_option R_report (reports st k)"
| "row_of E_blockedFrequency st k = map_option R_blockedFrequency (blockedFrequencies st k)"
| "row_of E_meshDevice st k = map_option R_meshDevice (meshDevices st k)"
| "row_of E_mobileDevice st k = map_option R_mobileDevice (mobileDevices st k)"
| "row_of E_mobileAlert st k = map_option R_mobileAlert (mobileAlerts st k)"

fun counter_of :: "entity \<Rightarrow> MemStorage \<Rightarrow> int" where
  "counter_of E_user st = userIdCounter st"
| "counter_of E_subscription st = subscriptionIdCounter st"
| "counter_of E_report st = reportIdCounter st"
| "counter_of E_blockedFrequency st = blockedFrequencyIdCounter st"
| "counter_of E_meshDevice st = meshDeviceIdCounter st"
| "counter_of E_mobileDevice st = mobileDeviceIdCounter st"
| "counter_of E_mobileAlert st = mobileAlertIdCounter st"

datatype op =
    CreateUser NewUser
  | UpdateUser int "User partial"
  | CreateSubscription NewSubscription
  | UpdateSubscription int "Subscription partial"
  | UpdateUserStripeInfo int string
  | CreateReport NewForensicReport
  | UpdateReport int "ForensicReport partial"
  | DeleteReport int
  | CreateBlockedFrequency NewBlockedFrequency
  | UpdateBlockedFrequency int "BlockedFrequency partial"
  | DeleteBlockedFrequency int
  | CreateMeshDevice NewMeshDevice
  | UpdateMeshDevice int "MeshDevice partial"
  | DeleteMeshDevice int
  | CreateMobileDevice NewMobileDevice
  | UpdateMobileDevice int "MobileDevice partial"
  | DeleteMobileDevice int
  | CreateMobileAlert NewMobileAlert
  | UpdateMobileAlert int "MobileAlert partial"
  | DeleteMobileAlert int
  | MarkMobileAlertAsRead int

fun exec :: "date \<Rightarrow> MemStorage \<Rightarrow> op \<Rightarrow> MemStorage" where
  "exec now st (CreateUser n) = fst (createUser now st n)"
| "exec now st (UpdateUser i u) = fst (updateUser st i u)"
| "exec now st (CreateSubscription n) = fst (createSubscription now st n)"
| "exec now st (UpdateSubscription i u) = fst (updateSubscription now st i u)"
| "exec now st (UpdateUserStripeInfo userId s) = fst (updateUserStripeInfo now st userId s)"
| "exec now st (CreateReport n) = fst (createReport now st n)"
| "exec now st (UpdateReport i u) = fst (updateReport st i u)"
| "exec now st (DeleteReport i) = fst (deleteReport st i)"
| "exec now st (CreateBlockedFrequency n) = fst (createBlockedFrequency now st n)"
| "exec now st (UpdateBlockedFrequency i u) = fst (updateBlockedFrequency st i u)"
| "exec now st (DeleteBlockedFrequency i) = fst (deleteBlockedFrequency st i)"
| "exec now st (CreateMeshDevice n) = fst (createMeshDevice now st n)"
| "exec now st (UpdateMeshDevice i u) = fst (updateMeshDevice now st i u)"
| "exec now st (DeleteMeshDevice i) = fst (deleteMeshDevice st i)"
| "exec now st (CreateMobileDevice n) = fst (createMobileDevice now st n)"
| "exec now st (UpdateMobileDevice i u) = fst (updateMobileDevice now st i u)"
| "exec now st (DeleteMobileDevice i) = fst (deleteMobileDevice st i)"
| "exec now st (CreateMobileAlert n) = fst (createMobileAlert now st n)"
| "exec now st (UpdateMobileAlert i u) = fst (updateMobileAlert st i u)"
| "exec now st (DeleteMobileAlert i) = fst (deleteMobileAlert st i)"
| "exec now st (MarkMobileAlertAsRead i) = fst (markMobileAlertAsRead st i)"

text \<open>The kind and the id of the row a create call returns.\<close>

fun created :: "date \<Rightarrow> MemStorage \<Rightarrow> op \<Rightarrow> (entity \<times> int) option" where
  "created now st (CreateUser n) = Some (E_user, usr_id (snd (createUser now st n)))"
| "created now st (CreateSubscription n) =
     Some (E_subscription, sub_id (snd (createSubscription now st n)))"
| "created now st (CreateReport n) = Some (E_report, rep_id (snd (createReport now st n)))"
| "created now st (CreateBlockedFrequency n) =
     Some (E_blockedFrequency, bf_id (snd (createBlockedFrequency now st n)))"
| "created now st (CreateMeshDevice n) =
     Some (E_meshDevice, md_id (snd (createMeshDevice now st n)))"
| "created now st (CreateMobileDevice n) =
     Some (E_mobileDevice, mob_id (snd (createMobileDevice now st n)))"
| "created now st (CreateMobileAlert n) =
     Some (E_mobileAlert, al_id (snd (createMobileAlert now st n)))"
| "created now st _ = None"

text \<open>
  The kind and the id an update or delete call is given. \<^verbatim>\<open>updateUserStripeInfo\<close>
  is given a user id and no row id.
\<close>

fun target :: "op \<Rightarrow> (entity \<times> int) option" where
  "target (UpdateUser i _) = Some (E_user, i)"
| "target (UpdateSubscription i _) = Some (E_subscription, i)"
| "target (UpdateReport i _) = Some (E_report, i)"
| "target (DeleteReport i) = Some (E_report, i)"
| "target (UpdateBlockedFrequency i _) = Some (E_blockedFrequency, i)"
| "target (DeleteBlockedFrequency i) = Some (E_blockedFrequency, i)"
| "target (UpdateMeshDevice i _) = Some (E_meshDevice, i)"
| "target (DeleteMeshDevice i) = Some (E_meshDevice, i)"
| "target (UpdateMobileDevice i _) = Some (E_mobileDevice, i)"
| "target (DeleteMobileDevice i) = Some (E_mobileDevice, i)"
| "target (UpdateMobileAlert i _) = Some (E_mobileAlert, i)"
| "target (DeleteMobileAlert i) = Some (E_mobileAlert, i)"
| "target (MarkMobileAlertAsRead i) = Some (E_mobileAlert, i)"
| "target _ = None"

text \<open>A run of calls: the final store and the ids the creates returned, in order.\<close>

fun run :: "date \<Rightarrow> MemStorage \<Rightarrow> op list \<Rightarrow> MemStorage \<times> (entity \<times> int) list" where
  "run now st [] = (st, [])"
| "run now st (c # cs) =
     (case run now (exec now st c) cs of
        (st', ids) \<Rightarrow>
          (st', (case created now st c of None \<Rightarrow> ids | Some x \<Rightarrow> x # ids)))"

text \<open>Every key of every map is below that map's counter.\<close>

definition storage_inv :: "MemStorage \<Rightarrow> bool" where
  "storage_inv st =
     ((\<forall>k \<in> dom (users st). k < userIdCounter st)
      \<and> (\<forall>k \<in> dom (map_of (subscriptions st)). k < subscriptionIdCounter st)
      \<and> (\<forall>k \<in> dom (reports st). k < reportIdCounter st)
      \<and> (\<forall>k \<in> dom (blockedFrequencies st). k < blockedFrequencyIdCounter st)
      \<and> (\<forall>k \<in> dom (meshDevices st). k < meshDeviceIdCounter st)
      \<and> (\<forall>k \<in> dom (mobileDevices st). k < mobileDeviceIdCounter st)
      \<and> (\<forall>k \<in> dom (mobileAlerts st). k < mobileAlertIdCounter st))"

text \<open>
  Every stored subscription's \<^verbatim>\<open>id\<close> field is its key. The creates establish this;
  an update whose argument carries an \<^verbatim>\<open>id\<close> breaks it. \<open>keeps_id\<close> holds of every
  call but an \<^verbatim>\<open>updateSubscription\<close> whose spread changes the \<^verbatim>\<open>id\<close> field.
\<close>

definition sub_ids_ok :: "MemStorage \<Rightarrow> bool" where
  "sub_ids_ok st = (\<forall>(k, sub) \<in> set (subscriptions st). sub_id sub = k)"

fun keeps_id :: "op \<Rightarrow> bool" where
  "keeps_id (UpdateSubscription i u) = (\<forall>sub. sub_id (u sub) = sub_id sub)"
| "keeps_id _ = True"

fun is_stripe :: "op \<Rightarrow> bool" where
  "is_stripe (UpdateUserStripeInfo userId s) = True"
| "is_stripe _ = False"

text \<open>A bound on all seven counters.\<close>

definition counters_below :: "int \<Rightarrow> MemStorage \<Rightarrow> bool" where
  "counters_below b st =
     (userIdCounter st \<le> b \<and> subscriptionIdCounter st \<le> b \<and> reportIdCounter st \<le> b
      \<and> blockedFrequencyIdCounter st \<le> b \<and> meshDeviceIdCounter st \<le> b
      \<and> mobileDeviceIdCounter st \<le> b \<and> mobileAlertIdCounter st \<le> b)"


section \<open>REST handlers (routes.ts)\<close>

text \<open>
  A response is a status and a JSON payload. \<^verbatim>\<open>res.json(x)\<close> without
  \<^verbatim>\<open>res.status\<close> answers 200.
\<close>

record UserWithoutPassword =
  uwp_username :: string
  uwp_email :: string
  uwp_name :: "string option"
  uwp_department :: "string option"
  uwp_role :: string
  uwp_id :: int
  uwp_createdAt :: date
  uwp_lastLogin :: "date option"

text \<open>
  A row of \<^verbatim>\<open>lawEnforcementReports\<close>: its id, its owner and its other columns.
\<close>

record LawEnforcementReport =
  ler_id :: int
  ler_userId :: int
  ler_columns :: json

datatype payload =
    P_message string
  | P_error string
  | P_error_needsPermission string bool
  | P_report ForensicReport
  | P_frequency BlockedFrequency
  | P_user UserWithoutPassword
  | P_mesh_device MeshDevice
  | P_mobile_device MobileDevice
  | P_law_report "LawEnforcementReport option"
  | P_location json json json
  | P_location_update json
  | P_tracking json json json json
  | P_empty

record response =
  status :: nat
  payload :: payload

text \<open>
  \<^verbatim>\<open>req.body\<close> after \<^verbatim>\<open>express.json()\<close> is a JSON object, the list of its
  properties. \<^verbatim>\<open>{ ...req.body, userId: id }\<close> overrides or adds \<^verbatim>\<open>userId\<close>.
\<close>

type_synonym body = "(string \<times> json) list"

definition with_userId :: "body \<Rightarrow> int \<Rightarrow> body" where
  "with_userId b i = AList.update ''userId'' (JNum (real_of_int i)) b"

text \<open>
  The zod schemas of \<^verbatim>\<open>shared/schema\<close> are parameters of the handlers that use
  them: \<open>Inl m\<close> is a \<^verbatim>\<open>ZodError\<close> whose \<^verbatim>\<open>fromZodError\<close> message is \<open>m\<close>,
  \<open>Inr v\<close> the validated value.
\<close>

type_synonym 'a schema = "body \<Rightarrow> string + 'a"

text \<open>
  The argument \<open>idp\<close> of a handler is \<^verbatim>\<open>parseInt(req.params.id)\<close>; \<open>None\<close> is
  \<^verbatim>\<open>NaN\<close>. Reading \<^verbatim>\<open>req.user!.role\<close> of an absent user throws a TypeError,
  which the handler's \<^verbatim>\<open>catch\<close> turns into the 500 response \<open>failed\<close>.
\<close>

definition respond :: "nat \<Rightarrow> payload \<Rightarrow> response" where
  "respond s p = \<lparr> status = s, payload = p \<rparr>"

text \<open>
  The ownership check
  \<^verbatim>\<open>req.user!.role !== UserRole.ADMIN && row.userId !== req.user!.id\<close>.
\<close>

definition denied :: "ExpressUser \<Rightarrow> int \<Rightarrow> bool" where
  "denied u owner = (eu_role u \<noteq> UserRole_ADMIN \<and> owner \<noteq> eu_id u)"

text \<open>Running a route's middlewares in order; the first that does not call next() ends the request.\<close>

fun through :: "middleware list \<Rightarrow> request \<Rightarrow> request \<times> mw_result" where
  "through [] req = (req, Next)"
| "through (m # ms) req =
     (case m req of
        (req', Next) \<Rightarrow> through ms req'
      | (req', Rejected s) \<Rightarrow> (req', Rejected s))"

definition route ::
  "middleware list \<Rightarrow> (MemStorage \<Rightarrow> request \<Rightarrow> MemStorage \<times> response)
     \<Rightarrow> MemStorage \<Rightarrow> request \<Rightarrow> MemStorage \<times> response" where
  "route mws handler st req =
     (case through mws req of
        (req', Next) \<Rightarrow> handler st req'
      | (req', Rejected s) \<Rightarrow> (st, respond s P_empty))"

subsection \<open>/api/user/:id\<close>

definition withoutPassword :: "User \<Rightarrow> UserWithoutPassword" where
  "withoutPassword u = \<lparr> uwp_username = usr_username u, uwp_email = usr_email u,
     uwp_name = usr_name u, uwp_department = usr_department u, uwp_role = usr_role u,
     uwp_id = usr_id u, uwp_createdAt = usr_createdAt u, uwp_lastLogin = usr_lastLogin u \<rparr>"

text \<open>
  Here the check is written with optional chaining,
  \<^verbatim>\<open>req.user?.role !== UserRole.ADMIN && req.user?.id !== userId\<close>, so an absent
  user is denied rather than a TypeError.
\<close>

definition get_user_handler :: "int option \<Rightarrow> MemStorage \<Rightarrow> request \<Rightarrow> MemStorage \<times> response" where
  "get_user_handler idp st req =
     (case idp of
        None \<Rightarrow> (st, respond 400 (P_message ''Invalid user ID''))
      | Some userId \<Rightarrow>
          if (case req_user req of None \<Rightarrow> True
              | Some u \<Rightarrow> eu_role u \<noteq> UserRole_ADMIN \<and> eu_id u \<noteq> userId)
          then (st, respond 403 (P_message ''Access denied''))
          else (case getUser st userId of
                  None \<Rightarrow> (st, respond 404 (P_message ''User not found''))
                | Some user \<Rightarrow> (st, respond 200 (P_user (withoutPassword user)))))"

definition GET_user_id :: "int option \<Rightarrow> MemStorage \<Rightarrow> request \<Rightarrow> MemStorage \<times> response" where
  "GET_user_id idp = route [forceEmergencyAuth] (get_user_handler idp)"

subsection \<open>/api/blocked-frequencies\<close>

definition post_blocked_frequencies_handler ::
  "NewBlockedFrequency schema \<Rightarrow> date \<Rightarrow> body \<Rightarrow> MemStorage \<Rightarrow> request \<Rightarrow> MemStorage \<times> response" where
  "post_blocked_frequencies_handler insertBlockedFrequencySchema now b st req =
     (case req_user req of
        None \<Rightarrow> (st, respond 500 (P_message ''Failed to create blocked frequency''))
      | Some u \<Rightarrow>
          (let frequencyData = with_userId b (eu_id u)
           in case insertBlockedFrequencySchema frequencyData of
                Inl m \<Rightarrow> (st, respond 400 (P_message m))
              | Inr validatedData \<Rightarrow>
                  (case createBlockedFrequency now st validatedData of
                     (st', blockedFrequency) \<Rightarrow> (st', respond 201 (P_frequency blockedFrequency)))))"

definition POST_blocked_frequencies ::
  "NewBlockedFrequency schema \<Rightarrow> date \<Rightarrow> body \<Rightarrow> MemStorage \<Rightarrow> request \<Rightarrow> MemStorage \<times> response" where
  "POST_blocked_frequencies sch now b =
     route [isAuthenticated, hasSubscriptionAccess] (post_blocked_frequencies_handler sch now b)"

definition put_blocked_frequency_handler ::
  "BlockedFrequency partial schema \<Rightarrow> int option \<Rightarrow> body \<Rightarrow> MemStorage \<Rightarrow> request
     \<Rightarrow> MemStorage \<times> response" where
  "put_blocked_frequency_handler partialSchema idp b st req =
     (case idp of
        None \<Rightarrow> (st, respond 400 (P_message ''Invalid ID''))
      | Some i \<Rightarrow>
          (case getBlockedFrequency st i of
             None \<Rightarrow> (st, respond 404 (P_message ''Blocked frequency not found''))
           | Some frequency \<Rightarrow>
               (case req_user req of
                  None \<Rightarrow> (st, respond 500 (P_message ''Failed to update blocked frequency''))
                | Some u \<Rightarrow>
                    if denied u (bf_userId frequency)
                    then (st, respond 403 (P_message ''Access denied''))
                    else (case partialSchema b of
                            Inl m \<Rightarrow> (st, respond 400 (P_message m))
                          | Inr validatedData \<Rightarrow>
                              (case updateBlockedFrequency st i validatedData of
                                 (st', None) \<Rightarrow>
                                   (st', respond 404 (P_message ''Blocked frequency not found''))
                               | (st', Some updatedFrequency) \<Rightarrow>
                                   (st', respond 200 (P_frequency updatedFrequency)))))))"

definition PUT_blocked_frequencies_id ::
  "BlockedFrequency partial schema \<Rightarrow> int option \<Rightarrow> body \<Rightarrow> MemStorage \<Rightarrow> request
     \<Rightarrow> MemStorage \<times> response" where
  "PUT_blocked_frequencies_id sch idp b =
     route [isAuthenticated] (put_blocked_frequency_handler sch idp b)"

definition delete_blocked_frequency_handler ::
  "int option \<Rightarrow> MemStorage \<Rightarrow> request \<Rightarrow> MemStorage \<times> response" where
  "delete_blocked_frequency_handler idp st req =
     (case idp of
        None \<Rightarrow> (st, respond 400 (P_message ''Invalid ID''))
      | Some i \<Rightarrow>
          (case getBlockedFrequency st i of
             None \<Rightarrow> (st, respond 404 (P_message ''Blocked frequency not found''))
           | Some frequency \<Rightarrow>
               (case req_user req of
                  None \<Rightarrow> (st, respond 500 (P_message ''Failed to delete blocked frequency''))
                | Some u \<Rightarrow>
                    if denied u (bf_userId frequency)
                    then (st, respond 403 (P_message ''Access denied''))
                    else (case deleteBlockedFrequency st i of
                            (st', False) \<Rightarrow>
                              (st', respond 404 (P_message ''Blocked frequency not found''))
                          | (st', True) \<Rightarrow> (st', respond 204 P_empty)))))"

definition DELETE_blocked_frequencies_id ::
  "int option \<Rightarrow> MemStorage \<Rightarrow> request \<Rightarrow> MemStorage \<times> response" where
  "DELETE_blocked_frequencies_id idp = route [isAuthenticated] (delete_blocked_frequency_handler idp)"

subsection \<open>/api/reports\<close>

definition get_report_handler :: "int option \<Rightarrow> MemStorage \<Rightarrow> request \<Rightarrow> MemStorage \<times> response" where
  "get_report_handler idp st req =
     (case idp of
        None \<Rightarrow> (st, respond 400 (P_message ''Invalid ID''))
      | Some i \<Rightarrow>
          (case getReport st i of
             None \<Rightarrow> (st, respond 404 (P_message ''Report not found''))
           | Some report \<Rightarrow>
               (case req_user req of
                  None \<Rightarrow> (st, respond 500 (P_message ''Failed to get report''))
                | Some u \<Rightarrow>
                    if denied u (rep_userId report)
                    then (st, respond 403 (P_message ''Access denied''))
                    else (st, respond 200 (P_report report)))))"

definition GET_reports_id :: "int option \<Rightarrow> MemStorage \<Rightarrow> request \<Rightarrow> MemStorage \<times> response" where
  "GET_reports_id idp = route [isAuthenticated] (get_report_handler idp)"

definition post_reports_handler ::
  "NewForensicReport schema \<Rightarrow> date \<Rightarrow> body \<Rightarrow> MemStorage \<Rightarrow> request \<Rightarrow> MemStorage \<times> response" where
  "post_reports_handler insertForensicReportSchema now b st req =
     (case req_user req of
        None \<Rightarrow> (st, respond 500 (P_message ''Failed to create report''))
      | Some u \<Rightarrow>
          (let reportData = with_userId b (eu_id u)
           in case insertForensicReportSchema reportData of
                Inl m \<Rightarrow> (st, respond 400 (P_message m))
              | Inr validatedData \<Rightarrow>
                  (case createReport now st validatedData of
                     (st', report) \<Rightarrow> (st', respond 201 (P_report report)))))"

definition POST_reports ::
  "NewForensicReport schema \<Rightarrow> date \<Rightarrow> body \<Rightarrow> MemStorage \<Rightarrow> request \<Rightarrow> MemStorage \<times> response" where
  "POST_reports sch now b =
     route [isAuthenticated, hasSubscriptionAccess] (post_reports_handler sch now b)"

definition delete_report_handler :: "int option \<Rightarrow> MemStorage \<Rightarrow> request \<Rightarrow> MemStorage \<times> response" where
  "delete_report_handler idp st req =
     (case idp of
        None \<Rightarrow> (st, respond 400 (P_message ''Invalid ID''))
      | Some i \<Rightarrow>
          (case getReport st i of
             None \<Rightarrow> (st, respond 404 (P_message ''Report not found''))
           | Some report \<Rightarrow>
               (case req_user req of
                  None \<Rightarrow> (st, respond 500 (P_message ''Failed to delete report''))
                | Some u \<Rightarrow>
                    if denied u (rep_userId report)
                    then (st, respond 403 (P_message ''Access denied''))
                    else (case deleteReport st i of
                            (st', False) \<Rightarrow> (st', respond 404 (P_message ''Report not found''))
                          | (st', True) \<Rightarrow> (st', respond 204 P_empty)))))"

definition DELETE_reports_id :: "int option \<Rightarrow> MemStorage \<Rightarrow> request \<Rightarrow> MemStorage \<times> response" where
  "DELETE_reports_id idp = route [isAuthenticated] (delete_report_handler idp)"

subsection \<open>/api/mesh-devices/:id\<close>

definition get_mesh_device_handler ::
  "int option \<Rightarrow> MemStorage \<Rightarrow> request \<Rightarrow> MemStorage \<times> response" where
  "get_mesh_device_handler idp st req =
     (case idp of
        None \<Rightarrow> (st, respond 400 (P_message ''Invalid device ID''))
      | Some i \<Rightarrow>
          (case getMeshDevice st i of
             None \<Rightarrow> (st, respond 404 (P_message ''Device not found''))
           | Some device \<Rightarrow>
               (case req_user req of
                  None \<Rightarrow> (st, respond 500 (P_message ''Failed to get device''))
                | Some u \<Rightarrow>
                    if denied u (md_userId device)
                    then (st, respond 403 (P_message ''Access denied''))
                    else (st, respond 200 (P_mesh_device device)))))"

definition GET_mesh_devices_id ::
  "int option \<Rightarrow> MemStorage \<Rightarrow> request \<Rightarrow> MemStorage \<times> response" where
  "GET_mesh_devices_id idp = route [isAuthenticated] (get_mesh_device_handler idp)"

definition patch_mesh_device_handler ::
  "MeshDevice partial schema \<Rightarrow> date \<Rightarrow> int option \<Rightarrow> body \<Rightarrow> MemStorage \<Rightarrow> request
     \<Rightarrow> MemStorage \<times> response" where
  "patch_mesh_device_handler partialSchema now idp b st req =
     (case idp of
        None \<Rightarrow> (st, respond 400 (P_message ''Invalid device ID''))
      | Some i \<Rightarrow>
          (case getMeshDevice st i of
             None \<Rightarrow> (st, respond 404 (P_message ''Device not found''))
           | Some device \<Rightarrow>
               (case req_user req of
                  None \<Rightarrow> (st, respond 500 (P_message ''Failed to update device''))
                | Some u \<Rightarrow>
                    if denied u (md_userId device)
                    then (st, respond 403 (P_message ''Access denied''))
                    else (case partialSchema b of
                            Inl m \<Rightarrow> (st, respond 400 (P_message m))
                          | Inr validatedData \<Rightarrow>
                              (case updateMeshDevice now st i validatedData of
                                 (st', None) \<Rightarrow> (st', respond 404 (P_message ''Device not found''))
                               | (st', Some updatedDevice) \<Rightarrow>
                                   (st', respond 200 (P_mesh_device updatedDevice)))))))"

definition PATCH_mesh_devices_id ::
  "MeshDevice partial schema \<Rightarrow> date \<Rightarrow> int option \<Rightarrow> body \<Rightarrow> MemStorage \<Rightarrow> request
     \<Rightarrow> MemStorage \<times> response" where
  "PATCH_mesh_devices_id sch now idp b =
     route [isAuthenticated] (patch_mesh_device_handler sch now idp b)"

definition delete_mesh_device_handler ::
  "int option \<Rightarrow> MemStorage \<Rightarrow> request \<Rightarrow> MemStorage \<times> response" where
  "delete_mesh_device_handler idp st req =
     (case idp of
        None \<Rightarrow> (st, respond 400 (P_message ''Invalid device ID''))
      | Some i \<Rightarrow>
          (case getMeshDevice st i of
             None \<Rightarrow> (st, respond 404 (P_message ''Device not found''))
           | Some device \<Rightarrow>
               (case req_user req of
                  None \<Rightarrow> (st, respond 500 (P_message ''Failed to delete device''))
                | Some u \<Rightarrow>
                    if denied u (md_userId device)
                    then (st, respond 403 (P_message ''Access denied''))
                    else (case deleteMeshDevice st i of
                            (st', False) \<Rightarrow> (st', respond 404 (P_message ''Device not found''))
                          | (st', True) \<Rightarrow> (st', respond 204 P_empty)))))"

definition DELETE_mesh_devices_id ::
  "int option \<Rightarrow> MemStorage \<Rightarrow> request \<Rightarrow> MemStorage \<times> response" where
  "DELETE_mesh_devices_id idp = route [isAuthenticated] (delete_mesh_device_handler idp)"

text \<open>
  The refresh endpoint. \<open>drain\<close> is the value of
  \<^verbatim>\<open>Math.floor(Math.random() * 5)\<close>, an integer from 0 to 4;
  \<^verbatim>\<open>device.batteryLevel ?? 100\<close> replaces \<^verbatim>\<open>null\<close> by 100, and
  \<^verbatim>\<open>Math.max(1, Math.min(100, x))\<close> brings an infinite difference to 100 or 1.
\<close>

definition refreshed_batteryLevel :: "(real \<Rightarrow> real) \<Rightarrow> real \<Rightarrow> MeshDevice \<Rightarrow> real" where
  "refreshed_batteryLevel fl drain device =
     (let currentBatteryLevel = (case md_batteryLevel device of None \<Rightarrow> 100 | Some l \<Rightarrow> l)
      in case double_of fl (currentBatteryLevel - drain) of
           Finite x \<Rightarrow> max 1 (min 100 x)
         | PosInfinity \<Rightarrow> 100
         | NegInfinity \<Rightarrow> 1
         | NaN \<Rightarrow> 1)"

definition refresh_mesh_device_handler ::
  "(real \<Rightarrow> real) \<Rightarrow> real \<Rightarrow> date \<Rightarrow> int option \<Rightarrow> MemStorage \<Rightarrow> request
     \<Rightarrow> MemStorage \<times> response" where
  "refresh_mesh_device_handler fl drain now idp st req =
     (case idp of
        None \<Rightarrow> (st, respond 400 (P_message ''Invalid device ID''))
      | Some i \<Rightarrow>
          (case getMeshDevice st i of
             None \<Rightarrow> (st, respond 404 (P_message ''Device not found''))
           | Some device \<Rightarrow>
               (case req_user req of
                  None \<Rightarrow> (st, respond 500 (P_message ''Failed to refresh device''))
                | Some u \<Rightarrow>
                    if denied u (md_userId device)
                    then (st, respond 403 (P_message ''Access denied''))
                    else (let batteryLevel = refreshed_batteryLevel fl drain device
                          in case updateMeshDevice now st i
                                    (\<lambda>d. d\<lparr>md_lastSeen := now,
                                            md_batteryLevel := Some batteryLevel,
                                            md_active := Some (batteryLevel \<ge> 15)\<rparr>) of
                               (st', None) \<Rightarrow> (st', respond 404 (P_message ''Device not found''))
                             | (st', Some updatedDevice) \<Rightarrow>
                                 (st', respond 200 (P_mesh_device updatedDevice))))))"

definition POST_mesh_devices_id_refresh ::
  "(real \<Rightarrow> real) \<Rightarrow> real \<Rightarrow> date \<Rightarrow> int option \<Rightarrow> MemStorage \<Rightarrow> request
     \<Rightarrow> MemStorage \<times> response" where
  "POST_mesh_devices_id_refresh fl drain now idp =
     route [isAuthenticated] (refresh_mesh_device_handler fl drain now idp)"

subsection \<open>/api/law-enforcement-reports/:id\<close>

text \<open>
  The two handlers call \<^verbatim>\<open>storage.getLawEnforcementReport\<close> and
  \<^verbatim>\<open>storage.updateLawEnforcementReport\<close>. What these calls do is a parameter of the
  handlers, \<open>Inl\<close> the exception of a call that throws: \<^verbatim>\<open>DatabaseStorage\<close>
  queries the database, and the exported \<^verbatim>\<open>MemStorage\<close> has neither method, so that
  with it each call throws a TypeError. The id is \<^verbatim>\<open>Number(req.params.id)\<close> and goes
  to the storage as it is. Here the ownership check is written
  \<^verbatim>\<open>report.userId !== userId && userRole !== UserRole.ADMIN\<close>.
\<close>

fun message_of :: "js_error \<Rightarrow> string" where
  "message_of (TypeError m) = m"
| "message_of (RangeError m) = m"

definition MemStorage_getLawEnforcementReport :: "js_error + LawEnforcementReport option" where
  "MemStorage_getLawEnforcementReport =
     Inl (TypeError ''storage.getLawEnforcementReport is not a function'')"

definition get_law_enforcement_report_handler ::
  "js_error + LawEnforcementReport option \<Rightarrow> MemStorage \<Rightarrow> request \<Rightarrow> MemStorage \<times> response" where
  "get_law_enforcement_report_handler found st req =
     (case found of
        Inl e \<Rightarrow>
          (st, respond 500 (P_message (''Failed to get law enforcement report: '' @ message_of e)))
      | Inr None \<Rightarrow> (st, respond 404 (P_message ''Law enforcement report not found''))
      | Inr (Some report) \<Rightarrow>
          (case req_user req of
             None \<Rightarrow>
               (st, respond 500
                  (P_message (''Failed to get law enforcement report: ''
                     @ ''Cannot read properties of undefined (reading 'id')'')))
           | Some u \<Rightarrow>
               if ler_userId report \<noteq> eu_id u \<and> eu_role u \<noteq> UserRole_ADMIN
               then (st, respond 403
                      (P_message ''You do not have permission to view this report''))
               else (st, respond 200 (P_law_report (Some report)))))"

definition GET_law_enforcement_reports_id ::
  "js_error + LawEnforcementReport option \<Rightarrow> MemStorage \<Rightarrow> request \<Rightarrow> MemStorage \<times> response" where
  "GET_law_enforcement_reports_id found =
     route [isAuthenticated] (get_law_enforcement_report_handler found)"

text \<open>
  The update data is the whole body for an admin and five of its properties otherwise;
  \<open>update\<close> is what \<^verbatim>\<open>storage.updateLawEnforcementReport(id, updateData)\<close> does with
  it, and its result is sent as it is, also when it is \<^verbatim>\<open>undefined\<close>.
\<close>

definition user_fields :: "body \<Rightarrow> body" where
  "user_fields b =
     filter (\<lambda>(k, v). k \<in> set [''userNotes'', ''includesAudio'', ''includesLocation'',
                                  ''includesDeviceInfo'', ''includesFrequencyData'']) b"

definition put_law_enforcement_report_handler ::
  "js_error + LawEnforcementReport option \<Rightarrow> (body \<Rightarrow> js_error + LawEnforcementReport option)
     \<Rightarrow> body \<Rightarrow> MemStorage \<Rightarrow> request \<Rightarrow> MemStorage \<times> response" where
  "put_law_enforcement_report_handler found update b st req =
     (case found of
        Inl e \<Rightarrow>
          (st, respond 500
             (P_message (''Failed to update law enforcement report: '' @ message_of e)))
      | Inr None \<Rightarrow> (st, respond 404 (P_message ''Law enforcement report not found''))
      | Inr (Some report) \<Rightarrow>
          (case req_user req of
             None \<Rightarrow>
               (st, respond 500
                  (P_message (''Failed to update law enforcement report: ''
                     @ ''Cannot read properties of undefined (reading 'id')'')))
           | Some u \<Rightarrow>
               if ler_userId report \<noteq> eu_id u \<and> eu_role u \<noteq> UserRole_ADMIN
               then (st, respond 403
                      (P_message ''You do not have permission to update this report''))
               else (let updateData = (if eu_role u = UserRole_ADMIN then b else user_fields b)
                     in case update updateData of
                          Inl e \<Rightarrow>
                            (st, respond 500
                               (P_message (''Failed to update law enforcement report: ''
                                  @ message_of e)))
                        | Inr updatedReport \<Rightarrow> (st, respond 200 (P_law_report updatedReport)))))"

definition PUT_law_enforcement_reports_id ::
  "js_error + LawEnforcementReport option \<Rightarrow> (body \<Rightarrow> js_error + LawEnforcementReport option)
     \<Rightarrow> body \<Rightarrow> MemStorage \<Rightarrow> request \<Rightarrow> MemStorage \<times> response" where
  "PUT_law_enforcement_reports_id found update b =
     route [isAuthenticated] (put_law_enforcement_report_handler found update b)"

subsection \<open>/api/mobile-devices/:id\<close>

definition get_mobile_device_handler ::
  "int option \<Rightarrow> MemStorage \<Rightarrow> request \<Rightarrow> MemStorage \<times> response" where
  "get_mobile_device_handler idp st req =
     (case idp of
        None \<Rightarrow> (st, respond 400 (P_error ''Invalid device ID''))
      | Some i \<Rightarrow>
          (case getMobileDevice st i of
             None \<Rightarrow> (st, respond 404 (P_error ''Mobile device not found''))
           | Some device \<Rightarrow>
               (case req_user req of
                  None \<Rightarrow> (st, respond 500 (P_error ''Failed to fetch mobile device''))
                | Some u \<Rightarrow>
                    if denied u (mob_userId device)
                    then (st, respond 403 (P_error ''Access denied''))
                    else (st, respond 200 (P_mobile_device device)))))"

definition GET_mobile_devices_id ::
  "int option \<Rightarrow> MemStorage \<Rightarrow> request \<Rightarrow> MemStorage \<times> response" where
  "GET_mobile_devices_id idp = route [isAuthenticated] (get_mobile_device_handler idp)"

text \<open>
  PUT passes \<^verbatim>\<open>req.body\<close> to \<^verbatim>\<open>updateMobileDevice\<close> unvalidated; \<open>spread\<close> is
  how the properties of a body overwrite those of a row.
\<close>

definition put_mobile_device_handler ::
  "(body \<Rightarrow> MobileDevice partial) \<Rightarrow> date \<Rightarrow> int option \<Rightarrow> body \<Rightarrow> MemStorage \<Rightarrow> request
     \<Rightarrow> MemStorage \<times> response" where
  "put_mobile_device_handler spread now idp b st req =
     (case idp of
        None \<Rightarrow> (st, respond 400 (P_error ''Invalid device ID''))
      | Some i \<Rightarrow>
          (case getMobileDevice st i of
             None \<Rightarrow> (st, respond 404 (P_error ''Mobile device not found''))
           | Some device \<Rightarrow>
               (case req_user req of
                  None \<Rightarrow> (st, respond 500 (P_error ''Failed to update mobile device''))
                | Some u \<Rightarrow>
                    if denied u (mob_userId device)
                    then (st, respond 403 (P_error ''Access denied''))
                    else (case updateMobileDevice now st i (spread b) of
                            (st', None) \<Rightarrow> (st', respond 404 (P_error ''Mobile device not found''))
                          | (st', Some updatedDevice) \<Rightarrow>
                              (st', respond 200 (P_mobile_device updatedDevice))))))"

definition PUT_mobile_devices_id ::
  "(body \<Rightarrow> MobileDevice partial) \<Rightarrow> date \<Rightarrow> int option \<Rightarrow> body \<Rightarrow> MemStorage \<Rightarrow> request
     \<Rightarrow> MemStorage \<times> response" where
  "PUT_mobile_devices_id spread now idp b =
     route [isAuthenticated] (put_mobile_device_handler spread now idp b)"

definition delete_mobile_device_handler ::
  "int option \<Rightarrow> MemStorage \<Rightarrow> request \<Rightarrow> MemStorage \<times> response" where
  "delete_mobile_device_handler idp st req =
     (case idp of
        None \<Rightarrow> (st, respond 400 (P_error ''Invalid device ID''))
      | Some i \<Rightarrow>
          (case getMobileDevice st i of
             None \<Rightarrow> (st, respond 404 (P_error ''Mobile device not found''))
           | Some device \<Rightarrow>
               (case req_user req of
                  None \<Rightarrow> (st, respond 500 (P_error ''Failed to delete mobile device''))
                | Some u \<Rightarrow>
                    if denied u (mob_userId device)
                    then (st, respond 403 (P_error ''Access denied''))
                    else (case deleteMobileDevice st i of
                            (st', False) \<Rightarrow> (st', respond 404 (P_error ''Mobile device not found''))
                          | (st', True) \<Rightarrow> (st', respond 204 P_empty)))))"

definition DELETE_mobile_devices_id ::
  "int option \<Rightarrow> MemStorage \<Rightarrow> request \<Rightarrow> MemStorage \<times> response" where
  "DELETE_mobile_devices_id idp = route [isAuthenticated] (delete_mobile_device_handler idp)"

subsection \<open>/api/mobile-devices/:id/location\<close>

text \<open>
  After the ownership check the GET handler has a second 403, for a device whose
  \<^verbatim>\<open>locationSharing\<close> is falsy. \<^verbatim>\<open>device.trackingEnabled || false\<close> and
  \<^verbatim>\<open>device.trackingInterval || 60\<close> replace a falsy value.
\<close>

definition get_mobile_device_location_handler ::
  "int option \<Rightarrow> MemStorage \<Rightarrow> request \<Rightarrow> MemStorage \<times> response" where
  "get_mobile_device_location_handler idp st req =
     (case idp of
        None \<Rightarrow> (st, respond 400 (P_error ''Invalid device ID''))
      | Some i \<Rightarrow>
          (case getMobileDevice st i of
             None \<Rightarrow> (st, respond 404 (P_error ''Mobile device not found''))
           | Some device \<Rightarrow>
               (case req_user req of
                  None \<Rightarrow> (st, respond 500 (P_error ''Failed to fetch device location''))
                | Some u \<Rightarrow>
                    if denied u (mob_userId device)
                    then (st, respond 403 (P_error ''Access denied''))
                    else if \<not> truthy (mob_locationSharing device)
                    then (st, respond 403
                           (P_error_needsPermission
                              ''Location sharing is disabled for this device'' True))
                    else (st, respond 200
                           (P_location
                              (if truthy (mob_lastLocation device)
                               then mob_lastLocation device else JNull)
                              (if truthy (mob_trackingEnabled device)
                               then mob_trackingEnabled device else JBool False)
                              (if truthy (mob_trackingInterval device)
                               then mob_trackingInterval device else JNum 60))))))"

definition GET_mobile_devices_id_location ::
  "int option \<Rightarrow> MemStorage \<Rightarrow> request \<Rightarrow> MemStorage \<times> response" where
  "GET_mobile_devices_id_location idp =
     route [isAuthenticated] (get_mobile_device_location_handler idp)"

text \<open>
  POST records a location. \<^verbatim>\<open>typeof x === 'number'\<close> holds of the numbers, the
  infinities included; \<open>toISOString\<close> formats the clock's time. The location is built
  once latitude and longitude are known to be numbers (so neither is \<^verbatim>\<open>undefined\<close>).
  The new entry goes to the front of the history, of which the first 99 entries are kept
  when it is an array.
\<close>

fun is_number :: "json option \<Rightarrow> bool" where
  "is_number (Some (JNum x)) = True"
| "is_number (Some JInfinity) = True"
| "is_number (Some JNegInfinity) = True"
| "is_number _ = False"

definition location_of :: "(date \<Rightarrow> string) \<Rightarrow> date \<Rightarrow> body \<Rightarrow> json" where
  "location_of toISOString now b =
     JObj [(''latitude'', defined_or (map_of b ''latitude'') JNull),
           (''longitude'', defined_or (map_of b ''longitude'') JNull),
           (''accuracy'', json_or_null (map_of b ''accuracy'')),
           (''timestamp'', (case map_of b ''timestamp'' of
                              None \<Rightarrow> JStr (toISOString now)
                            | Some t \<Rightarrow> if truthy t then t else JStr (toISOString now))),
           (''altitude'', json_or_null (map_of b ''altitude'')),
           (''speed'', json_or_null (map_of b ''speed'')),
           (''heading'', json_or_null (map_of b ''heading''))]"

definition post_mobile_device_location_handler ::
  "(date \<Rightarrow> string) \<Rightarrow> date \<Rightarrow> int option \<Rightarrow> body \<Rightarrow> MemStorage \<Rightarrow> request
     \<Rightarrow> MemStorage \<times> response" where
  "post_mobile_device_location_handler toISOString now idp b st req =
     (case idp of
        None \<Rightarrow> (st, respond 400 (P_error ''Invalid device ID''))
      | Some i \<Rightarrow>
          (case getMobileDevice st i of
             None \<Rightarrow> (st, respond 404 (P_error ''Mobile device not found''))
           | Some device \<Rightarrow>
               (case req_user req of
                  None \<Rightarrow> (st, respond 500 (P_error ''Failed to update device location''))
                | Some u \<Rightarrow>
                    if denied u (mob_userId device)
                    then (st, respond 403 (P_error ''Access denied''))
                    else if \<not> is_number (map_of b ''latitude'')
                            \<or> \<not> is_number (map_of b ''longitude'')
                    then (st, respond 400 (P_error ''Invalid location data''))
                    else (let locationData = location_of toISOString now b;
                              locationHistory =
                                (if truthy (mob_locationHistory device)
                                 then JArr (locationData
                                            # (case mob_locationHistory device of
                                                 JArr entries \<Rightarrow> take 99 entries
                                               | _ \<Rightarrow> []))
                                 else JArr [locationData])
                          in (fst (updateMobileDevice now st i
                                     (\<lambda>d. d\<lparr>mob_lastLocation := locationData,
                                             mob_locationHistory := locationHistory\<rparr>)),
                              respond 200 (P_location_update locationData))))))"

definition POST_mobile_devices_id_location ::
  "(date \<Rightarrow> string) \<Rightarrow> date \<Rightarrow> int option \<Rightarrow> body \<Rightarrow> MemStorage \<Rightarrow> request
     \<Rightarrow> MemStorage \<times> response" where
  "POST_mobile_devices_id_location toISOString now idp b =
     route [isAuthenticated] (post_mobile_device_location_handler toISOString now idp b)"

subsection \<open>/api/mobile-devices/:id/tracking\<close>

text \<open>
  The update is put together from the three body properties that are not
  \<^verbatim>\<open>undefined\<close>; \<open>parseInt\<close> is the language's \<^verbatim>\<open>parseInt\<close> on a body value,
  \<open>None\<close> where it gives \<^verbatim>\<open>NaN\<close>.
\<close>

definition tracking_enabled_update :: "MobileDevice \<Rightarrow> json option \<Rightarrow> MobileDevice partial" where
  "tracking_enabled_update device trackingEnabled =
     (case trackingEnabled of
        None \<Rightarrow> (\<lambda>d. d)
      | Some v \<Rightarrow>
          if truthy v \<and> \<not> truthy (mob_locationSharing device)
          then (\<lambda>d. d\<lparr>mob_trackingEnabled := v, mob_locationSharing := JBool True\<rparr>)
          else (\<lambda>d. d\<lparr>mob_trackingEnabled := v\<rparr>))"

definition tracking_purpose_update :: "json option \<Rightarrow> MobileDevice partial" where
  "tracking_purpose_update trackingPurpose =
     (case trackingPurpose of
        None \<Rightarrow> (\<lambda>d. d)
      | Some v \<Rightarrow> (\<lambda>d. d\<lparr>mob_trackingPurpose := v\<rparr>))"

definition put_mobile_device_tracking_handler ::
  "(json \<Rightarrow> int option) \<Rightarrow> date \<Rightarrow> int option \<Rightarrow> body \<Rightarrow> MemStorage \<Rightarrow> request
     \<Rightarrow> MemStorage \<times> response" where
  "put_mobile_device_tracking_handler parseInt now idp b st req =
     (case idp of
        None \<Rightarrow> (st, respond 400 (P_error ''Invalid device ID''))
      | Some i \<Rightarrow>
          (case getMobileDevice st i of
             None \<Rightarrow> (st, respond 404 (P_error ''Mobile device not found''))
           | Some device \<Rightarrow>
               (case req_user req of
                  None \<Rightarrow> (st, respond 500 (P_error ''Failed to update tracking settings''))
                | Some u \<Rightarrow>
                    if denied u (mob_userId device)
                    then (st, respond 403 (P_error ''Access denied''))
                    else
                      (case (case map_of b ''trackingInterval'' of
                               None \<Rightarrow> Some (\<lambda>d. d)
                             | Some v \<Rightarrow>
                                 (case parseInt v of
                                    None \<Rightarrow> None
                                  | Some interval \<Rightarrow>
                                      if interval < 10 \<or> interval > 600 then None
                                      else Some (\<lambda>d. d\<lparr>mob_trackingInterval :=
                                                          JNum (real_of_int interval)\<rparr>))) of
                         None \<Rightarrow>
                           (st, respond 400
                              (P_error ''Tracking interval must be between 10 and 600 seconds''))
                       | Some interval_update \<Rightarrow>
                           (let updateData =
                                  tracking_purpose_update (map_of b ''trackingPurpose'')
                                  \<circ> interval_update
                                  \<circ> tracking_enabled_update device (map_of b ''trackingEnabled'')
                            in case updateMobileDevice now st i updateData of
                                 (st', None) \<Rightarrow> (st', respond 404 (P_error ''Device not found''))
                               | (st', Some updatedDevice) \<Rightarrow>
                                   (st', respond 200
                                      (P_tracking (mob_trackingEnabled updatedDevice)
                                         (mob_trackingInterval updatedDevice)
                                         (mob_trackingPurpose updatedDevice)
                                         (mob_locationSharing updatedDevice))))))))"

definition PUT_mobile_devices_id_tracking ::
  "(json \<Rightarrow> int option) \<Rightarrow> date \<Rightarrow> int option \<Rightarrow> body \<Rightarrow> MemStorage \<Rightarrow> request
     \<Rightarrow> MemStorage \<times> response" where
  "PUT_mobile_devices_id_tracking parseInt now idp b =
     route [isAuthenticated] (put_mobile_device_tracking_handler parseInt now idp b)"


section \<open>The WebSocket relay (routes.ts, meshController.ts)\<close>

subsection \<open>Reading a parsed message\<close>

text \<open>
  A value read from the message is a \<open>json option\<close> whose \<open>None\<close> is
  \<^verbatim>\<open>undefined\<close>. \<open>get\<close> reads a property of a value that is not \<^verbatim>\<open>null\<close>:
  of an object its own property, of anything else \<^verbatim>\<open>undefined\<close> (none of the names
  the handler reads exists on a boolean, number, string or array).
\<close>

definition get :: "json \<Rightarrow> string \<Rightarrow> json option" where
  "get v k = (case v of JObj ps \<Rightarrow> map_of ps k | _ \<Rightarrow> None)"

definition truthy_opt :: "json option \<Rightarrow> bool" where
  "truthy_opt x = (case x of None \<Rightarrow> False | Some v \<Rightarrow> truthy v)"

text \<open>\<^verbatim>\<open>a || b\<close>\<close>

definition or_else :: "json option \<Rightarrow> json option \<Rightarrow> json option" where
  "or_else a b = (if truthy_opt a then a else b)"

text \<open>\<^verbatim>\<open>a?.k\<close>: \<^verbatim>\<open>undefined\<close> when \<open>a\<close> is \<^verbatim>\<open>undefined\<close> or \<^verbatim>\<open>null\<close>.\<close>

definition get_opt :: "json option \<Rightarrow> string \<Rightarrow> json option" where
  "get_opt a k = (case a of None \<Rightarrow> None | Some JNull \<Rightarrow> None | Some v \<Rightarrow> get v k)"

text \<open>\<^verbatim>\<open>x.length\<close> of a value that is not \<^verbatim>\<open>null\<close>.\<close>

definition length_of :: "json \<Rightarrow> json option" where
  "length_of v =
     (case v of
        JArr xs \<Rightarrow> Some (JNum (real (length xs)))
      | JStr cs \<Rightarrow> Some (JNum (real (length cs)))
      | JObj ps \<Rightarrow> map_of ps ''length''
      | _ \<Rightarrow> None)"

subsection \<open>Conversions\<close>

text \<open>
  A template literal converts each value to a string, arithmetic and comparison convert
  their operands to numbers. Either conversion of an object first looks for a callable
  \<^verbatim>\<open>toString\<close> or \<^verbatim>\<open>valueOf\<close> that returns a primitive. A parsed object inherits
  \<^verbatim>\<open>Object.prototype.toString\<close>, which serves, unless it has a property
  \<^verbatim>\<open>toString\<close> of its own: that is a JSON value and not callable, the inherited
  \<^verbatim>\<open>valueOf\<close> returns the object itself, and the conversion throws a TypeError. An
  array is joined, which converts each element that is not \<^verbatim>\<open>null\<close>, and throws
  when one of them does. No other value throws.
\<close>

fun unprintable :: "json \<Rightarrow> bool" where
  "unprintable (JObj ps) = (map_of ps ''toString'' \<noteq> None)"
| "unprintable (JArr xs) = list_ex unprintable xs"
| "unprintable _ = False"

definition throws :: "json option \<Rightarrow> bool" where
  "throws x = (case x of None \<Rightarrow> False | Some v \<Rightarrow> unprintable v)"

text \<open>
  The number a value that does not throw converts to: \<^verbatim>\<open>undefined\<close> to
  \<^verbatim>\<open>NaN\<close>, \<^verbatim>\<open>null\<close> to 0, an object (through \<^verbatim>\<open>"[object Object]"\<close>) to
  \<^verbatim>\<open>NaN\<close>. What the language reads from a string, and from the string an array is
  joined to, is the parameter \<open>tn\<close>.
\<close>

definition to_number :: "(json \<Rightarrow> number) \<Rightarrow> json option \<Rightarrow> number" where
  "to_number tn x =
     (case x of
        None \<Rightarrow> NaN
      | Some JNull \<Rightarrow> Finite 0
      | Some (JBool b) \<Rightarrow> Finite (if b then 1 else 0)
      | Some (JNum r) \<Rightarrow> Finite r
      | Some JInfinity \<Rightarrow> PosInfinity
      | Some JNegInfinity \<Rightarrow> NegInfinity
      | Some (JObj ps) \<Rightarrow> NaN
      | Some v \<Rightarrow> tn v)"

subsection \<open>The effectiveness scores\<close>

text \<open>
  \<^verbatim>\<open>Math.round(Math.min(100, 50 + (intensity * 0.5) + (aiAssisted ? 15 : 0)))\<close>;
  the intensity is the operand after its conversion to a number.
\<close>

definition effectivenessScore_of :: "(real \<Rightarrow> real) \<Rightarrow> number \<Rightarrow> bool \<Rightarrow> number" where
  "effectivenessScore_of fl intensity aiAssisted =
     Math_round_number
       (Math_min (Finite 100)
          (num_add fl (num_add fl (Finite 50) (num_mul fl intensity (Finite (1 / 2))))
             (Finite (if aiAssisted then 15 else 0))))"

text \<open>
  \<^verbatim>\<open>deviceIds && deviceIds.length > 1 ? Math.min(20, deviceIds.length * 2) : 0\<close>
\<close>

definition meshEffectivenessBoost_of ::
  "(real \<Rightarrow> real) \<Rightarrow> (json \<Rightarrow> number) \<Rightarrow> json option \<Rightarrow> number" where
  "meshEffectivenessBoost_of fl tn deviceIds =
     (case deviceIds of
        None \<Rightarrow> Finite 0
      | Some v \<Rightarrow>
          if truthy v \<and> num_gt (to_number tn (length_of v)) (Finite 1)
          then Math_min (Finite 20) (num_mul fl (to_number tn (length_of v)) (Finite 2))
          else Finite 0)"

text \<open>
  The comparison \<^verbatim>\<open>deviceIds.length > 1\<close> converts the length to a number, and
  throws when that conversion does; then no boost is computed, and the value of
  \<open>meshEffectivenessBoost_of\<close> stands for nothing.
\<close>

definition boost_throws :: "json option \<Rightarrow> bool" where
  "boost_throws deviceIds =
     (case deviceIds of None \<Rightarrow> False | Some v \<Rightarrow> truthy v \<and> throws (length_of v))"

text \<open>\<^verbatim>\<open>Math.min(100, baseEffectivenessScore + meshEffectivenessBoost)\<close>\<close>

definition meshEffectivenessScore_of :: "(real \<Rightarrow> real) \<Rightarrow> number \<Rightarrow> number \<Rightarrow> number" where
  "meshEffectivenessScore_of fl baseEffectivenessScore meshEffectivenessBoost =
     Math_min (Finite 100) (num_add fl baseEffectivenessScore meshEffectivenessBoost)"

subsection \<open>Sockets and outgoing messages\<close>

type_synonym sock = nat

datatype readyState = CONNECTING | OPEN | CLOSING | CLOSED

record clientInfo =
  ci_id :: string
  ci_connectedAt :: date
  ci_lastActive :: date
  ci_role :: string
  ci_name :: "string option"
  ci_deviceType :: "string option"
  ci_location :: "json option"

text \<open>
  The \<^verbatim>\<open>data\<close> of a \<^verbatim>\<open>frequency_neutralized\<close> message; the one that the mesh
  case sends has \<^verbatim>\<open>meshEnhanced: true\<close> and no \<^verbatim>\<open>location\<close>.
\<close>

record neutralized =
  n_frequency :: "json option"
  n_bandwidth :: "json option"
  n_effectivenessScore :: number
  n_signalType :: "json option"
  n_location :: "json option"
  n_timestamp :: date
  n_aiAssisted :: "json option"
  n_meshEnhanced :: bool

record mesh_neutralized =
  mn_frequency :: "json option"
  mn_bandwidth :: "json option"
  mn_effectivenessScore :: number
  mn_signalType :: "json option"
  mn_timestamp :: date
  mn_aiAssisted :: "json option"
  mn_deviceCount :: "json option"
  mn_radius :: real
  mn_globalProtection :: "json option"

text \<open>
  The messages the server sends. The ones the properties below speak about carry their
  fields; of the others only the \<^verbatim>\<open>type\<close> tag is kept.
\<close>

datatype out_message =
    M_pong date
  | M_error string
  | M_frequency_alert "json option" "json option" date
  | M_frequency_neutralized neutralized
  | M_mesh_frequency_neutralized mesh_neutralized
  | M_threat_alert string "json option"
  | M_other string

text \<open>
  The server's state: \<^verbatim>\<open>wss.clients\<close> in insertion order, each socket's
  \<^verbatim>\<open>readyState\<close>, the \<^verbatim>\<open>connectedClients\<close> map in insertion order, every call
  of \<^verbatim>\<open>send\<close> so far (socket and message), and the broadcasts scheduled with
  \<^verbatim>\<open>setTimeout\<close> (delay in milliseconds and message).
\<close>

record ws_state =
  clients :: "sock list"
  ready :: "sock \<Rightarrow> readyState"
  connectedClients :: "(sock \<times> clientInfo) list"
  sent :: "(sock \<times> out_message) list"
  timers :: "(nat \<times> out_message) list"

definition send :: "sock \<Rightarrow> out_message \<Rightarrow> ws_state \<Rightarrow> ws_state" where
  "send ws m st = st\<lparr>sent := sent st @ [(ws, m)]\<rparr>"

text \<open>
  \<^verbatim>\<open>wss.clients.forEach(client => { if (client.readyState === WebSocket.OPEN)
  client.send(...) })\<close>, which is also the body of \<^verbatim>\<open>broadcastMessage\<close>.
\<close>

definition broadcastMessage :: "out_message \<Rightarrow> ws_state \<Rightarrow> ws_state" where
  "broadcastMessage m st =
     st\<lparr>sent := sent st @ map (\<lambda>client. (client, m)) (filter (\<lambda>client. ready st client = OPEN) (clients st))\<rparr>"

definition setTimeout :: "out_message \<Rightarrow> nat \<Rightarrow> ws_state \<Rightarrow> ws_state" where
  "setTimeout m delay st = st\<lparr>timers := timers st @ [(delay, m)]\<rparr>"

text \<open>The first lines of the handler: the sender's entry gets the time and, when the
  message has a truthy \<^verbatim>\<open>location\<close>, the location.\<close>

definition touch :: "date \<Rightarrow> sock \<Rightarrow> json option \<Rightarrow> ws_state \<Rightarrow> ws_state" where
  "touch now ws location st =
     st\<lparr>connectedClients :=
          map (\<lambda>(s, info).
                 if s = ws
                 then (s, (if truthy_opt location
                           then info\<lparr>ci_lastActive := now, ci_location := location\<rparr>
                           else info\<lparr>ci_lastActive := now\<rparr>))
                 else (s, info))
              (connectedClients st)\<rparr>"

text \<open>The direct branch of \<^verbatim>\<open>mesh_message\<close>: the first entry of
  \<^verbatim>\<open>connectedClients\<close> with the receiver's id and an open socket.\<close>

fun find_receiver :: "(sock \<Rightarrow> readyState) \<Rightarrow> json \<Rightarrow> (sock \<times> clientInfo) list \<Rightarrow> sock option" where
  "find_receiver rd receiver [] = None"
| "find_receiver rd receiver ((client, info) # rest) =
     (if JStr (ci_id info) = receiver \<and> rd client = OPEN then Some client
      else find_receiver rd receiver rest)"

subsection \<open>The connection handler\<close>

text \<open>
  \<^verbatim>\<open>wss.on('connection', ...)\<close>: the library has added the open socket to
  \<^verbatim>\<open>wss.clients\<close>; the handler records it and greets it. The generated client id
  and device name are parameters. The \<^verbatim>\<open>close\<close> handler only writes a log line.
\<close>

definition on_connection :: "date \<Rightarrow> string \<Rightarrow> string \<Rightarrow> sock \<Rightarrow> ws_state \<Rightarrow> ws_state" where
  "on_connection now clientId deviceName ws st =
     (let st1 = st\<lparr>clients := (if ws \<in> set (clients st) then clients st else clients st @ [ws]),
                   ready := (ready st)(ws := OPEN)\<rparr>;
          st2 = st1\<lparr>connectedClients :=
                   AList.update ws
                     \<lparr> ci_id = clientId, ci_connectedAt = now, ci_lastActive = now,
                       ci_role = ''user'', ci_name = Some deviceName,
                       ci_deviceType = Some ''unknown'', ci_location = None \<rparr>
                     (connectedClients st1)\<rparr>
      in send ws (M_other ''system_status'') (send ws (M_other ''connection'') st2))"

definition initial_ws_state :: ws_state where
  "initial_ws_state = \<lparr> clients = [], ready = (\<lambda>_. CLOSED), connectedClients = [],
     sent = [], timers = [] \<rparr>"

subsection \<open>The message handler\<close>

text \<open>
  The whole handler runs in one \<^verbatim>\<open>try\<close>. Whatever throws in it, the
  \<^verbatim>\<open>catch\<close> sends the sender an error and the handler ends; what was sent before
  stays sent. Besides \<^verbatim>\<open>JSON.parse\<close> and a property read of \<^verbatim>\<open>null\<close>, what can
  throw is a conversion: in the template literal of a \<^verbatim>\<open>log\<close> call, which most
  cases evaluate before they send anything, and in the arithmetic of the scores.
\<close>

definition invalid :: "sock \<Rightarrow> ws_state \<Rightarrow> ws_state" where
  "invalid ws st = send ws (M_error ''Invalid message format'') st"

text \<open>
  The case \<^verbatim>\<open>neutralize_frequency\<close>. Its condition is
  \<^verbatim>\<open>data.frequency || (data.data && data.data.frequency)\<close>; the six constants it
  declares are the functions \<open>nf_frequency\<close> to \<open>nf_aiAssisted\<close> of the message. The
  \<^verbatim>\<open>log\<close> template converts frequency, bandwidth and intensity.
\<close>

definition nf_condition :: "json \<Rightarrow> bool" where
  "nf_condition data =
     (truthy_opt (get data ''frequency'')
      \<or> (truthy_opt (get data ''data'') \<and> truthy_opt (get_opt (get data ''data'') ''frequency'')))"

definition nf_frequency :: "json \<Rightarrow> json option" where
  "nf_frequency data = or_else (get data ''frequency'') (get_opt (get data ''data'') ''frequency'')"

definition nf_bandwidth :: "json \<Rightarrow> json option" where
  "nf_bandwidth data =
     or_else (get data ''bandwidth'')
       (or_else (get_opt (get data ''data'') ''bandwidth'') (Some (JNum 2000)))"

definition nf_intensity :: "json \<Rightarrow> json option" where
  "nf_intensity data =
     or_else (get data ''intensity'')
       (or_else (get_opt (get data ''data'') ''intensity'') (Some (JNum 75)))"

definition nf_targetLocation :: "json \<Rightarrow> json option" where
  "nf_targetLocation data =
     or_else (get data ''targetLocation'') (get_opt (get data ''data'') ''targetLocation'')"

definition nf_signalType :: "json \<Rightarrow> json option" where
  "nf_signalType data =
     or_else (get data ''type'')
       (or_else (get_opt (get data ''data'') ''type'') (Some (JStr ''unknown'')))"

definition nf_aiAssisted :: "json \<Rightarrow> json option" where
  "nf_aiAssisted data =
     or_else (get data ''aiAssisted'')
       (or_else (get_opt (get data ''data'') ''aiAssisted'') (Some (JBool False)))"

definition nf_throws :: "json \<Rightarrow> bool" where
  "nf_throws data =
     (throws (nf_frequency data) \<or> throws (nf_bandwidth data) \<or> throws (nf_intensity data))"

definition nf_message :: "(real \<Rightarrow> real) \<Rightarrow> (json \<Rightarrow> number) \<Rightarrow> date \<Rightarrow> json \<Rightarrow> out_message" where
  "nf_message fl tn now data =
     M_frequency_neutralized
       \<lparr> n_frequency = nf_frequency data, n_bandwidth = nf_bandwidth data,
         n_effectivenessScore =
           effectivenessScore_of fl (to_number tn (nf_intensity data))
             (truthy_opt (nf_aiAssisted data)),
         n_signalType = nf_signalType data, n_location = nf_targetLocation data,
         n_timestamp = now, n_aiAssisted = nf_aiAssisted data, n_meshEnhanced = False \<rparr>"

definition on_neutralize_frequency ::
  "(real \<Rightarrow> real) \<Rightarrow> (json \<Rightarrow> number) \<Rightarrow> date \<Rightarrow> sock \<Rightarrow> json \<Rightarrow> ws_state \<Rightarrow> ws_state" where
  "on_neutralize_frequency fl tn now ws data st =
     (if nf_condition data
      then (if nf_throws data then invalid ws st
            else broadcastMessage (nf_message fl tn now data) st)
      else st)"

text \<open>
  The case \<^verbatim>\<open>mesh_neutralize_frequency\<close>. Its condition is
  \<^verbatim>\<open>data.data && data.data.frequency\<close>, and it reads everything from
  \<^verbatim>\<open>data.data\<close>, with no default. The \<^verbatim>\<open>log\<close> template converts the frequency
  and \<^verbatim>\<open>deviceIds?.length || 0\<close>; the base score then converts the intensity. Two
  broadcasts follow, with the same score.
\<close>

definition mnf_condition :: "json \<Rightarrow> bool" where
  "mnf_condition data =
     (truthy_opt (get data ''data'') \<and> truthy_opt (get_opt (get data ''data'') ''frequency''))"

definition mnf_field :: "json \<Rightarrow> string \<Rightarrow> json option" where
  "mnf_field data k = get_opt (get data ''data'') k"

text \<open>\<^verbatim>\<open>deviceIds?.length\<close>\<close>

definition mnf_length :: "json \<Rightarrow> json option" where
  "mnf_length data =
     (case mnf_field data ''deviceIds'' of
        None \<Rightarrow> None
      | Some JNull \<Rightarrow> None
      | Some v \<Rightarrow> length_of v)"

definition mnf_throws :: "json \<Rightarrow> bool" where
  "mnf_throws data =
     (throws (mnf_field data ''frequency'')
      \<or> throws (or_else (mnf_length data) (Some (JNum 0)))
      \<or> throws (mnf_field data ''intensity''))"

text \<open>
  The three lines that compute the mesh score, as a function of the intensity as a number,
  of whether \<^verbatim>\<open>aiAssisted\<close> is truthy, and of \<^verbatim>\<open>deviceIds\<close>.
\<close>

definition mesh_score ::
  "(real \<Rightarrow> real) \<Rightarrow> (json \<Rightarrow> number) \<Rightarrow> number \<Rightarrow> bool \<Rightarrow> json option \<Rightarrow> number" where
  "mesh_score fl tn intensity aiAssisted deviceIds =
     (let baseEffectivenessScore = effectivenessScore_of fl intensity aiAssisted;
          meshEffectivenessBoost = meshEffectivenessBoost_of fl tn deviceIds
      in meshEffectivenessScore_of fl baseEffectivenessScore meshEffectivenessBoost)"

definition mnf_score :: "(real \<Rightarrow> real) \<Rightarrow> (json \<Rightarrow> number) \<Rightarrow> json \<Rightarrow> number" where
  "mnf_score fl tn data =
     mesh_score fl tn (to_number tn (mnf_field data ''intensity''))
       (truthy_opt (mnf_field data ''aiAssisted'')) (mnf_field data ''deviceIds'')"

definition mnf_mesh_message ::
  "(real \<Rightarrow> real) \<Rightarrow> (json \<Rightarrow> number) \<Rightarrow> date \<Rightarrow> json \<Rightarrow> out_message" where
  "mnf_mesh_message fl tn now data =
     M_mesh_frequency_neutralized
       \<lparr> mn_frequency = mnf_field data ''frequency'', mn_bandwidth = mnf_field data ''bandwidth'',
         mn_effectivenessScore = mnf_score fl tn data, mn_signalType = mnf_field data ''type'',
         mn_timestamp = now, mn_aiAssisted = mnf_field data ''aiAssisted'',
         mn_deviceCount = or_else (mnf_length data) (Some (JNum 1)),
         mn_radius = (if truthy_opt (mnf_field data ''applyGlobalCountermeasures'')
                      then 6436 else 1000),
         mn_globalProtection = mnf_field data ''applyGlobalCountermeasures'' \<rparr>"

definition mnf_standard_message ::
  "(real \<Rightarrow> real) \<Rightarrow> (json \<Rightarrow> number) \<Rightarrow> date \<Rightarrow> json \<Rightarrow> out_message" where
  "mnf_standard_message fl tn now data =
     M_frequency_neutralized
       \<lparr> n_frequency = mnf_field data ''frequency'', n_bandwidth = mnf_field data ''bandwidth'',
         n_effectivenessScore = mnf_score fl tn data, n_signalType = mnf_field data ''type'',
         n_location = None, n_timestamp = now, n_aiAssisted = mnf_field data ''aiAssisted'',
         n_meshEnhanced = True \<rparr>"

definition on_mesh_neutralize_frequency ::
  "(real \<Rightarrow> real) \<Rightarrow> (json \<Rightarrow> number) \<Rightarrow> date \<Rightarrow> sock \<Rightarrow> json \<Rightarrow> ws_state \<Rightarrow> ws_state" where
  "on_mesh_neutralize_frequency fl tn now ws data st =
     (if mnf_condition data
      then (if mnf_throws data then invalid ws st
            else broadcastMessage (mnf_standard_message fl tn now data)
                   (broadcastMessage (mnf_mesh_message fl tn now data) st))
      else st)"

text \<open>
  The case \<^verbatim>\<open>mesh_message\<close>; its \<^verbatim>\<open>log\<close> template converts a truthy receiver.
\<close>

definition on_mesh_message :: "sock \<Rightarrow> json \<Rightarrow> ws_state \<Rightarrow> ws_state" where
  "on_mesh_message ws data st =
     (if truthy_opt (get data ''message'')
      then (case get_opt (get data ''message'') ''receiver'' of
              None \<Rightarrow> broadcastMessage (M_other ''mesh_message'') st
            | Some receiver \<Rightarrow>
                if truthy receiver
                then (if unprintable receiver then invalid ws st
                      else (case find_receiver (ready st) receiver (connectedClients st) of
                              None \<Rightarrow> st
                            | Some client \<Rightarrow> send client (M_other ''mesh_message'') st))
                else broadcastMessage (M_other ''mesh_message'') st)
      else st)"

text \<open>
  \<^verbatim>\<open>ws.on('message', ...)\<close> for the socket \<open>ws\<close>. The argument \<open>parsed\<close> is the
  result of \<^verbatim>\<open>JSON.parse(message.toString())\<close>: \<open>None\<close> when it throws. Reading a
  property of \<^verbatim>\<open>null\<close> throws as well; both land in the \<^verbatim>\<open>catch\<close>. A
  \<^verbatim>\<open>case\<close> label written twice is served by its first occurrence. The
  \<^verbatim>\<open>log\<close> templates of the cases convert \<^verbatim>\<open>data.frequency\<close> and
  \<^verbatim>\<open>data.confidence\<close>, \<^verbatim>\<open>data.userId || 'unknown user'\<close>,
  \<^verbatim>\<open>data.username || 'unknown'\<close>, \<^verbatim>\<open>data.volume\<close>, \<^verbatim>\<open>data.lockDuration\<close> and
  \<^verbatim>\<open>data.preventMute\<close>, and \<^verbatim>\<open>data.configId\<close>. In \<^verbatim>\<open>alert_config_update\<close>
  it is \<^verbatim>\<open>alertConfig.id\<close> that throws, after the broadcast, when the message has no
  \<^verbatim>\<open>config\<close>.
\<close>

definition dispatch ::
  "(real \<Rightarrow> real) \<Rightarrow> (json \<Rightarrow> number) \<Rightarrow> date \<Rightarrow> sock \<Rightarrow> json \<Rightarrow> ws_state \<Rightarrow> ws_state" where
  "dispatch fl tn now ws data st =
     (case get data ''type'' of
        Some (JStr t) \<Rightarrow>
          if t = ''ping'' then send ws (M_pong now) st
          else if t = ''frequency_detected'' then
            (if throws (get data ''frequency'') \<or> throws (get data ''confidence'')
             then invalid ws st
             else broadcastMessage
                    (M_frequency_alert (get data ''frequency'') (get data ''confidence'') now) st)
          else if t = ''emergency_anti_laser_sonic'' then
            (if throws (get data ''userId'') then invalid ws st
             else broadcastMessage (M_other ''emergency_defense_activated'') st)
          else if t = ''extreme_neutralizer_deployed'' then
            (if throws (get data ''userId'') then invalid ws st
             else broadcastMessage (M_other ''extreme_neutralizer_activated'') st)
          else if t = ''grudge_message'' then
            (if throws (get data ''username'') then invalid ws st
             else broadcastMessage (M_other ''grudge_network_message'') st)
          else if t = ''neutralize_frequency'' then on_neutralize_frequency fl tn now ws data st
          else if t = ''mesh_message'' then on_mesh_message ws data st
          else if t = ''mesh_neutralize_frequency'' then
            on_mesh_neutralize_frequency fl tn now ws data st
          else if t = ''set_attacker_volume'' then
            (if throws (get data ''volume'') \<or> throws (get data ''lockDuration'')
                \<or> throws (get data ''preventMute'')
             then invalid ws st
             else send ws (M_other ''attacker_volume_confirmation'')
                    (broadcastMessage (M_other ''attacker_volume_override'') st))
          else if t = ''deploy_todrick_hall'' then
            (if throws (get data ''userId'') then invalid ws st
             else setTimeout (M_other ''countermeasure_result'') 3000
                    (broadcastMessage (M_other ''todrick_hall_deployed'') st))
          else if t = ''alert_config_update'' then
            (let st1 = broadcastMessage (M_other ''alert_config_updated'') st
             in case get data ''config'' of
                  None \<Rightarrow> invalid ws st1
                | Some JNull \<Rightarrow> invalid ws st1
                | Some _ \<Rightarrow> send ws (M_other ''alert_config_confirmation'') st1)
          else if t = ''alert_config_delete'' then
            (if throws (get data ''configId'') then invalid ws st
             else broadcastMessage (M_other ''alert_config_deleted'') st)
          else if t = ''extreme_neutralizer_activated'' then
            (if throws (get data ''userId'') then invalid ws st
             else setTimeout (M_other ''neutralizer_result'') 5000
                    (broadcastMessage (M_other ''extreme_neutralizer_active'') st))
          else send ws (M_error ''Unknown message type'') st
      | _ \<Rightarrow> send ws (M_error ''Unknown message type'') st)"

definition on_message ::
  "(real \<Rightarrow> real) \<Rightarrow> (json \<Rightarrow> number) \<Rightarrow> date \<Rightarrow> sock \<Rightarrow> json option \<Rightarrow> ws_state \<Rightarrow> ws_state" where
  "on_message fl tn now ws parsed st =
     (case parsed of
        None \<Rightarrow> invalid ws st
      | Some JNull \<Rightarrow> invalid ws (touch now ws None st)
      | Some data \<Rightarrow> dispatch fl tn now ws data (touch now ws (get data ''location'') st))"

text \<open>The sends a handler run added, and the score a neutralization message carries.\<close>

definition new_sends :: "ws_state \<Rightarrow> ws_state \<Rightarrow> (sock \<times> out_message) list" where
  "new_sends st st' = drop (length (sent st)) (sent st')"

definition score_in :: "out_message \<Rightarrow> number option" where
  "score_in m =
     (case m of
        M_frequency_neutralized p \<Rightarrow> Some (n_effectivenessScore p)
      | M_mesh_frequency_neutralized p \<Rightarrow> Some (mn_effectivenessScore p)
      | _ \<Rightarrow> None)"

definition open_clients :: "ws_state \<Rightarrow> sock list" where
  "open_clients st = filter (\<lambda>client. ready st client = OPEN) (clients st)"

subsection \<open>MeshController (meshController.ts)\<close>

text \<open>
  \<^verbatim>\<open>broadcastThreat\<close> walks the \<^verbatim>\<open>devices\<close> map (device id to socket, in
  insertion order) and returns the sends it makes.
\<close>

definition broadcastThreat ::
  "(string \<times> sock) list \<Rightarrow> (sock \<Rightarrow> readyState) \<Rightarrow> string \<Rightarrow> json option
     \<Rightarrow> (sock \<times> out_message) list" where
  "broadcastThreat devices rd sourceId threat =
     map (\<lambda>(deviceId, ws). (ws, M_threat_alert sourceId threat))
       (filter (\<lambda>(deviceId, ws). deviceId \<noteq> sourceId \<and> rd ws = OPEN) devices)"


section \<open>Forensic analysis (forensicsAnalyzer.ts)\<close>

text \<open>
  A \<^verbatim>\<open>Date\<close> object holds a time value: a whole number of milliseconds, at most
  \<open>8.64 \<times> 10^15\<close> in magnitude, or \<^verbatim>\<open>NaN\<close>, and then the object is an
  \<^verbatim>\<open>Invalid Date\<close>. Here it is a \<open>date option\<close>, \<open>None\<close> the invalid one.
  \<^verbatim>\<open>getTime()\<close> returns the time value. \<^verbatim>\<open>new Date(v)\<close> of a number makes the
  invalid date of a \<open>v\<close> that is not finite or beyond the range, and drops the fraction
  of any other, towards zero. \<^verbatim>\<open>toISOString()\<close> throws a RangeError on the invalid
  date; what it prints for a valid one is the parameter \<open>toISOString\<close>.
\<close>

definition getTime :: "date option \<Rightarrow> number" where
  "getTime d = (case d of None \<Rightarrow> NaN | Some t \<Rightarrow> Finite (of_int t))"

definition whole_ms :: "real \<Rightarrow> int" where
  "whole_ms x = (if 0 \<le> x then \<lfloor>x\<rfloor> else \<lceil>x\<rceil>)"

definition new_Date :: "number \<Rightarrow> date option" where
  "new_Date v =
     (case v of
        Finite x \<Rightarrow> if \<bar>x\<bar> \<le> 8640000000000000 then Some (whole_ms x) else None
      | _ \<Rightarrow> None)"

definition Date_toISOString :: "(date \<Rightarrow> string) \<Rightarrow> date option \<Rightarrow> js_error + string" where
  "Date_toISOString toISOString d =
     (case d of
        None \<Rightarrow> Inl (RangeError ''Invalid time value'')
      | Some t \<Rightarrow> Inr (toISOString t))"

text \<open>
  The fields of \<^verbatim>\<open>ForensicRecording\<close> that \<^verbatim>\<open>analyzeRecording\<close> reads: the
  timestamp is a \<^verbatim>\<open>Date\<close>, the duration a number. The last four describe the
  audio: how long it is, where, how large, in what format.
\<close>

record ForensicRecording =
  recordingId :: string
  rec_timestamp :: "date option"
  rec_duration :: number
  audioFileUrl :: string
  fileSize :: number
  format :: string

record AudioData =
  blobUrl :: string
  ad_size :: number
  ad_type :: string
  durationSeconds :: number

record RecordingWindow =
  startTime :: string
  endTime :: string
  sampleRate :: nat
  bitsPerSample :: nat
  channels :: nat

record AttackMetadata =
  detectedFrequencies :: "real list"
  primaryFrequency :: "real option"
  attackerDirections :: "string list"
  attackerPrimaryDirection :: string
  attackerDistances :: "real list"
  attackerAverageDistance :: real
  attackIntensity :: real
  deviceStatus :: string
  environmentalFactors :: "string list"
  am_recording :: RecordingWindow

record CountersystemStatus =
  protectionActive :: bool
  countermeasuresDeployed :: bool
  cs_blockedFrequencies :: "real list"
  systemEffectiveness :: real

record CustodyEntry =
  ce_timestamp :: string
  ce_action :: string
  ce_operator :: string
  checksumSHA256 :: string

record LegalEvidence =
  chainOfCustody :: "CustodyEntry list"
  certificationStatement :: string
  dataIntegrityVerification :: bool

text \<open>
  The report, without its two blocks of constants \<^verbatim>\<open>locationData\<close> and
  \<^verbatim>\<open>deviceData\<close>, which read nothing.
\<close>

record AnalysisReport =
  ar_id :: string
  ar_timestamp :: string
  ar_duration :: number
  audioData :: AudioData
  attackMetadata :: AttackMetadata
  countersystemStatus :: CountersystemStatus
  legalEvidence :: LegalEvidence

text \<open>
  What the platform supplies is a parameter: \<open>sha256_hex\<close> is the hex digest of the bytes
  fed to \<^verbatim>\<open>crypto.createHash('sha256')\<close> (two \<^verbatim>\<open>update\<close> calls feed the
  concatenation), \<open>uuid\<close> is the value of \<^verbatim>\<open>crypto.randomUUID()\<close>, and
  \<open>now_report\<close> and \<open>now_custody\<close> are the clock at the two \<^verbatim>\<open>new Date()\<close>. A
  function that can throw returns a sum, \<open>Inl\<close> the error thrown.
\<close>

definition generateChecksum ::
  "(string \<Rightarrow> string) \<Rightarrow> (date \<Rightarrow> string) \<Rightarrow> ForensicRecording \<Rightarrow> js_error + string" where
  "generateChecksum sha256_hex toISOString recording =
     (case Date_toISOString toISOString (rec_timestamp recording) of
        Inl e \<Rightarrow> Inl e
      | Inr stamp \<Rightarrow> Inr (sha256_hex (recordingId recording @ stamp)))"

definition analyzeFrequencies :: "ForensicRecording \<Rightarrow> real list" where
  "analyzeFrequencies recording = [3500, 5100, 8400, 12200]"

text \<open>\<^verbatim>\<open>xs[0]\<close> is \<^verbatim>\<open>undefined\<close> on an empty array.\<close>

definition determinePrimaryFrequency :: "ForensicRecording \<Rightarrow> real option" where
  "determinePrimaryFrequency recording =
     (case analyzeFrequencies recording of [] \<Rightarrow> None | f # _ \<Rightarrow> Some f)"

text \<open>
  \<^verbatim>\<open>new Date(recording.timestamp.getTime() + recording.duration * 1000)\<close>, in double
  arithmetic.
\<close>

definition end_of_recording :: "(real \<Rightarrow> real) \<Rightarrow> ForensicRecording \<Rightarrow> date option" where
  "end_of_recording fl recording =
     new_Date (num_add fl (getTime (rec_timestamp recording))
                 (num_mul fl (rec_duration recording) (Finite 1000)))"

text \<open>
  \<^verbatim>\<open>analyzeRecording\<close> is \<^verbatim>\<open>async\<close>: \<open>Inr\<close> is the report its promise is
  fulfilled with, \<open>Inl\<close> the error it is rejected with. The checksum is computed first,
  then the properties of the report in the order they are written.
\<close>

definition analyzeRecording ::
  "(real \<Rightarrow> real) \<Rightarrow> (string \<Rightarrow> string) \<Rightarrow> (date \<Rightarrow> string) \<Rightarrow> string \<Rightarrow> date \<Rightarrow> date
     \<Rightarrow> ForensicRecording \<Rightarrow> js_error + AnalysisReport" where
  "analyzeRecording fl sha256_hex toISOString uuid now_report now_custody recording =
     (case generateChecksum sha256_hex toISOString recording of
        Inl e \<Rightarrow> Inl e
      | Inr checksum \<Rightarrow>
     (case Date_toISOString toISOString (rec_timestamp recording) of
        Inl e \<Rightarrow> Inl e
      | Inr start_iso \<Rightarrow>
     (case Date_toISOString toISOString (end_of_recording fl recording) of
        Inl e \<Rightarrow> Inl e
      | Inr end_iso \<Rightarrow>
          Inr \<lparr> ar_id = uuid,
                ar_timestamp = toISOString now_report,
                ar_duration = rec_duration recording,
                audioData = \<lparr> blobUrl = audioFileUrl recording, ad_size = fileSize recording,
                              ad_type = format recording,
                              durationSeconds = rec_duration recording \<rparr>,
                attackMetadata =
                  \<lparr> detectedFrequencies = analyzeFrequencies recording,
                    primaryFrequency = determinePrimaryFrequency recording,
                    attackerDirections = [''NW'', ''N''],
                    attackerPrimaryDirection = ''NW'',
                    attackerDistances = [153 / 10, 182 / 10],
                    attackerAverageDistance = 1675 / 100,
                    attackIntensity = 85,
                    deviceStatus = ''ACTIVE_DEFENSE'',
                    environmentalFactors = [''URBAN'', ''HIGH_DENSITY''],
                    am_recording =
                      \<lparr> startTime = start_iso, endTime = end_iso,
                        sampleRate = 48000, bitsPerSample = 24, channels = 2 \<rparr> \<rparr>,
                countersystemStatus =
                  \<lparr> protectionActive = True, countermeasuresDeployed = True,
                    cs_blockedFrequencies = [3500, 5100, 8400], systemEffectiveness = 92 \<rparr>,
                legalEvidence =
                  \<lparr> chainOfCustody =
                      [\<lparr> ce_timestamp = toISOString now_custody,
                         ce_action = ''RECORDING_CREATED'',
                         ce_operator = ''SENTINEL_SYSTEM'', checksumSHA256 = checksum \<rparr>],
                    certificationStatement =
                      ''This recording was automatically captured and analyzed by the SENTINEL system.'',
                    dataIntegrityVerification = True \<rparr> \<rparr>)))"

text \<open>The detection part of a report: everything in \<^verbatim>\<open>attackMetadata\<close> but the
  recording window, and the countersystem status.\<close>

definition detection ::
  "AnalysisReport \<Rightarrow> real list \<times> real option \<times> string list \<times> string \<times> real list \<times> real \<times> real
     \<times> string \<times> string list \<times> CountersystemStatus" where
  "detection r =
     (let m = attackMetadata r
      in (detectedFrequencies m, primaryFrequency m, attackerDirections m,
          attackerPrimaryDirection m, attackerDistances m, attackerAverageDistance m,
          attackIntensity m, deviceStatus m, environmentalFactors m, countersystemStatus r))"

definition custody_checksums :: "AnalysisReport \<Rightarrow> string list" where
  "custody_checksums r = map checksumSHA256 (chainOfCustody (legalEvidence r))"


section \<open>The ADS controller (adsDestroyerController.ts)\<close>

subsection \<open>Promises and child processes\<close>

text \<open>
  A promise is pending, resolved or rejected, and settles once: \<^verbatim>\<open>resolve\<close> on a
  settled promise does nothing. A spawned child and the timer set beside it deliver
  events to the listeners, one at a time; a run of the method is the list of the events
  in the order of their delivery. No timer is ever cleared, so each one fires.
\<close>

datatype 'a promise = Pending | Resolved 'a | Rejected js_error

definition resolve :: "'a \<Rightarrow> 'a promise \<Rightarrow> 'a promise" where
  "resolve v p = (case p of Pending \<Rightarrow> Resolved v | _ \<Rightarrow> p)"

datatype proc_event =
    Stdout string
  | Stderr string
  | Close "int option"
  | SpawnError
  | TimerFired

fun availability_on :: "bool promise \<Rightarrow> proc_event \<Rightarrow> bool promise" where
  "availability_on p (Close code) = resolve (code = Some 0) p"
| "availability_on p SpawnError = resolve False p"
| "availability_on p TimerFired = resolve False p"
| "availability_on p (Stdout _) = p"
| "availability_on p (Stderr _) = p"

definition checkJuliaAvailability :: "proc_event list \<Rightarrow> bool promise" where
  "checkJuliaAvailability evs = foldl availability_on Pending evs"

subsection \<open>Countermeasure deployment\<close>

record ADSCountermeasureDeployment =
  threat_type :: string
  countermeasure_frequencies :: "real list"
  deployment_locations :: "(real \<times> real) list"
  power_levels :: "real list"
  effectiveness :: real
  dep_status :: string
  dep_timestamp :: date

datatype deployment = Parsed_deployment json | Native_deployment ADSCountermeasureDeployment

text \<open>The two fields of the controller that deployment writes.\<close>

record ADSDestroyerController =
  isActive :: bool
  activeDeployments :: "(string \<times> deployment) list"

definition baseFrequencies :: "(string \<times> real list) list" where
  "baseFrequencies =
     [(''95GHz_ADS'', [945 / 10, 95, 955 / 10]),
      (''W_Band'', [75, 77, 81, 86, 94]),
      (''Millimeter_Wave'', [348 / 10, 35, 352 / 10]),
      (''Directed_Energy'', [10, 35, 60, 95])]"

text \<open>
  \<^verbatim>\<open>baseFrequencies\<close> is an object literal, so reading
  \<^verbatim>\<open>baseFrequencies[threatType]\<close> under a key it does not own goes on to
  \<^verbatim>\<open>Object.prototype\<close>, whose members are functions (and, under
  \<^verbatim>\<open>__proto__\<close>, the prototype object itself): truthy values without a
  \<^verbatim>\<open>flatMap\<close>.
\<close>

definition Object_prototype_keys :: "string list" where
  "Object_prototype_keys =
     [''constructor'', ''__defineGetter__'', ''__defineSetter__'', ''hasOwnProperty'',
      ''__lookupGetter__'', ''__lookupSetter__'', ''isPrototypeOf'', ''propertyIsEnumerable'',
      ''toString'', ''valueOf'', ''__proto__'', ''toLocaleString'']"

datatype 'a member = Own 'a | Inherited | Missing

definition member_of :: "(string \<times> 'a) list \<Rightarrow> string \<Rightarrow> 'a member" where
  "member_of obj k =
     (case map_of obj k of
        Some v \<Rightarrow> Own v
      | None \<Rightarrow> if k \<in> set Object_prototype_keys then Inherited else Missing)"

text \<open>
  \<^verbatim>\<open>fallbackDeployment\<close>: \<open>Inl\<close> is the exception it throws. \<open>rnd\<close> is the value
  of its \<^verbatim>\<open>Math.random()\<close>, \<open>now\<close> the clock.
\<close>

definition fallbackDeployment ::
  "real \<Rightarrow> date \<Rightarrow> ADSDestroyerController \<Rightarrow> string
     \<Rightarrow> js_error + (ADSDestroyerController \<times> ADSCountermeasureDeployment)" where
  "fallbackDeployment rnd now this threatType =
     (case (case member_of baseFrequencies threatType of
              Own fs \<Rightarrow> Inr fs
            | Missing \<Rightarrow> Inr [95]
            | Inherited \<Rightarrow> Inl (TypeError ''frequencies.flatMap is not a function'')) of
        Inl e \<Rightarrow> Inl e
      | Inr frequencies \<Rightarrow>
          (let interferenceFreqs = concat (map (\<lambda>f. [f - 1 / 10, f, f + 1 / 10]) frequencies);
               deployment =
                 \<lparr> threat_type = threatType,
                   countermeasure_frequencies = interferenceFreqs,
                   deployment_locations = [(0, 0), (100, 0), (- 100, 0), (0, 100), (0, - 100)],
                   power_levels = replicate (length interferenceFreqs) 100,
                   effectiveness = 75 / 100 + rnd * (2 / 10),
                   dep_status = ''DEPLOYED'',
                   dep_timestamp = now \<rparr>
           in Inr (this\<lparr> activeDeployments :=
                          AList.update threatType (Native_deployment deployment)
                            (activeDeployments this),
                        isActive := True \<rparr>,
                   deployment)))"

text \<open>
  A run of the deployment script: the controller, what the script wrote, the promise,
  and the exception that left a listener uncaught, after which the process is gone and
  no further event is delivered.
\<close>

record deploy_run =
  dr_this :: ADSDestroyerController
  dr_stdout :: string
  dr_stderr :: string
  dr_promise :: "deployment promise"
  dr_uncaught :: "js_error option"

definition resolve_with_fallback ::
  "real \<Rightarrow> date \<Rightarrow> string \<Rightarrow> deploy_run \<Rightarrow> deploy_run" where
  "resolve_with_fallback rnd now threatType r =
     (case fallbackDeployment rnd now (dr_this r) threatType of
        Inl e \<Rightarrow> r\<lparr>dr_uncaught := Some e\<rparr>
      | Inr (this', d) \<Rightarrow>
          r\<lparr>dr_this := this', dr_promise := resolve (Native_deployment d) (dr_promise r)\<rparr>)"

fun deploy_on ::
  "(string \<Rightarrow> json option) \<Rightarrow> real \<Rightarrow> date \<Rightarrow> string \<Rightarrow> deploy_run \<Rightarrow> proc_event
     \<Rightarrow> deploy_run" where
  "deploy_on JSON_parse rnd now threatType r ev =
     (if dr_uncaught r \<noteq> None then r
      else (case ev of
              Stdout d \<Rightarrow> r\<lparr>dr_stdout := dr_stdout r @ d\<rparr>
            | Stderr d \<Rightarrow> r\<lparr>dr_stderr := dr_stderr r @ d\<rparr>
            | Close code \<Rightarrow>
                if code = Some 0
                then (case JSON_parse (dr_stdout r) of
                        Some result \<Rightarrow>
                          r\<lparr>dr_this := (dr_this r)
                                \<lparr> activeDeployments :=
                                    AList.update threatType (Parsed_deployment result)
                                      (activeDeployments (dr_this r)),
                                  isActive := True \<rparr>,
                            dr_promise := resolve (Parsed_deployment result) (dr_promise r)\<rparr>
                      | None \<Rightarrow> resolve_with_fallback rnd now threatType r)
                else resolve_with_fallback rnd now threatType r
            | SpawnError \<Rightarrow> resolve_with_fallback rnd now threatType r
            | TimerFired \<Rightarrow> resolve_with_fallback rnd now threatType r))"

text \<open>
  \<^verbatim>\<open>deployCountermeasures\<close>. Without Julia the fallback is called inside the
  \<^verbatim>\<open>try\<close>; when it throws, the \<^verbatim>\<open>catch\<close> calls it again, and what that call
  throws rejects the promise.
\<close>

definition deployCountermeasures ::
  "(string \<Rightarrow> json option) \<Rightarrow> real \<Rightarrow> date \<Rightarrow> ADSDestroyerController \<Rightarrow> string
     \<Rightarrow> proc_event list \<Rightarrow> proc_event list \<Rightarrow> deploy_run" where
  "deployCountermeasures JSON_parse rnd now this threatType check_events run_events =
     (let start = \<lparr> dr_this = this, dr_stdout = [], dr_stderr = [], dr_promise = Pending,
                    dr_uncaught = None \<rparr>;
          in_catch =
            (case fallbackDeployment rnd now this threatType of
               Inl e \<Rightarrow> start\<lparr>dr_promise := Rejected e\<rparr>
             | Inr (this', d) \<Rightarrow>
                 start\<lparr>dr_this := this', dr_promise := Resolved (Native_deployment d)\<rparr>)
      in case checkJuliaAvailability check_events of
           Pending \<Rightarrow> start
         | Rejected e \<Rightarrow> in_catch
         | Resolved juliaAvailable \<Rightarrow>
             if \<not> juliaAvailable
             then (case fallbackDeployment rnd now this threatType of
                     Inl e \<Rightarrow> in_catch
                   | Inr (this', d) \<Rightarrow>
                       start\<lparr>dr_this := this', dr_promise := Resolved (Native_deployment d)\<rparr>)
             else foldl (deploy_on JSON_parse rnd now threatType) start run_events)"

definition newADSDestroyerController :: ADSDestroyerController where
  "newADSDestroyerController = \<lparr> isActive = False, activeDeployments = [] \<rparr>"


section \<open>Example inputs\<close>

definition example_request :: request where
  "example_request = \<lparr> headers = [], path = ''/api/reports'', req_user = None \<rparr>"

definition example_report :: NewForensicReport where
  "example_report = \<lparr> nrep_userId = 999, nrep_title = ''Incident'',
     nrep_description = Some ''tone near 3.5 kHz'',
     nrep_frequencyData = Some (JObj [(''hz'', JNum 3500)]),
     nrep_locationData = None, nrep_deviceData = None, nrep_mlClassification = None,
     nrep_reportData = None, nrep_timestamp = None \<rparr>"

definition example_report_blank :: NewForensicReport where
  "example_report_blank = example_report\<lparr>nrep_description := Some []\<rparr>"

definition example_subscription :: NewSubscription where
  "example_subscription = \<lparr> nsub_userId = 999, nsub_plan = ''pro'', nsub_status = ''active'',
     nsub_startDate = 0, nsub_endDate = None, nsub_paymentMethod = None, nsub_paymentId = None,
     nsub_features = None, nsub_trialUsed = None \<rparr>"

text \<open>A store whose report counter has reached \<open>2^53\<close>.\<close>

definition example_full_storage :: MemStorage where
  "example_full_storage = (newMemStorage 0)\<lparr>reportIdCounter := 2 ^ 53\<rparr>"


definition example_frequency :: NewBlockedFrequency where
  "example_frequency = \<lparr> nbf_userId = 999, nbf_frequency = 3500, nbf_bandwidth = 200,
     nbf_name = Some ''hum'', nbf_description = None, nbf_isCustom = None \<rparr>"

definition example_device :: NewMobileDevice where
  "example_device = \<lparr> nmob_userId = 999, nmob_deviceId = ''phone-1'', nmob_name = ''Phone'',
     nmob_type = ''android'', nmob_version = None, nmob_status = ''online'',
     nmob_batteryLevel = None, nmob_notifications = None, nmob_locationSharing = None,
     nmob_autoProtection = None, nmob_settings = None, nmob_protectionStatus = None,
     nmob_lastLocation = None, nmob_locationHistory = None, nmob_trackingEnabled = None,
     nmob_trackingInterval = None, nmob_trackingPurpose = None, nmob_lastConnected = None \<rparr>"

text \<open>A device of user 1 with location sharing on.\<close>

definition example_foreign_device :: NewMobileDevice where
  "example_foreign_device =
     example_device\<lparr> nmob_userId := 1, nmob_locationSharing := Some (JBool True) \<rparr>"



text \<open>Two connected clients, sockets 1 and 2, both open.\<close>

definition example_ws_state :: ws_state where
  "example_ws_state =
     on_connection 0 ''client_b'' ''Device 2'' 2
       (on_connection 0 ''client_a'' ''Device 1'' 1 initial_ws_state)"

definition example_frequency_detected :: json where
  "example_frequency_detected =
     JObj [(''type'', JStr ''frequency_detected''), (''frequency'', JNum 3500),
           (''confidence'', JNum 90)]"

text \<open>The message \<^verbatim>\<open>{"type":"frequency_detected","frequency":{"toString":1}}\<close>.\<close>

definition example_frequency_unprintable :: json where
  "example_frequency_unprintable =
     JObj [(''type'', JStr ''frequency_detected''),
           (''frequency'', JObj [(''toString'', JNum 1)])]"

text \<open>\<^verbatim>\<open>neutralize_frequency\<close> messages with frequency 3500 and the given intensity.\<close>

definition example_neutralize :: "json \<Rightarrow> json" where
  "example_neutralize intensity =
     JObj [(''type'', JStr ''neutralize_frequency''), (''frequency'', JNum 3500),
           (''intensity'', intensity)]"

definition example_neutralize_default :: json where
  "example_neutralize_default =
     JObj [(''type'', JStr ''neutralize_frequency''), (''frequency'', JNum 3500),
           (''aiAssisted'', JBool True)]"

definition example_neutralize_no_frequency :: json where
  "example_neutralize_no_frequency =
     JObj [(''type'', JStr ''neutralize_frequency''), (''intensity'', JNum 60)]"

text \<open>
  \<^verbatim>\<open>mesh_neutralize_frequency\<close> messages with frequency 3500, the given intensity and
  \<open>n\<close> device ids; the last one has no intensity.
\<close>

definition example_mesh_data :: "json \<Rightarrow> nat \<Rightarrow> (string \<times> json) list" where
  "example_mesh_data intensity n =
     [(''frequency'', JNum 3500), (''intensity'', intensity),
      (''deviceIds'', JArr (replicate n (JStr ''node'')))]"

definition example_mesh_neutralize :: "json \<Rightarrow> nat \<Rightarrow> json" where
  "example_mesh_neutralize intensity n =
     JObj [(''type'', JStr ''mesh_neutralize_frequency''),
           (''data'', JObj (example_mesh_data intensity n))]"

definition example_mesh_neutralize_absent :: json where
  "example_mesh_neutralize_absent =
     JObj [(''type'', JStr ''mesh_neutralize_frequency''),
           (''data'', JObj [(''frequency'', JNum 3500),
                            (''deviceIds'', JArr (replicate 3 (JStr ''node'')))])]"


definition example_mesh_neutralize_no_data :: json where
  "example_mesh_neutralize_no_data =
     JObj [(''type'', JStr ''mesh_neutralize_frequency''), (''frequency'', JNum 3500)]"

text \<open>
  A recording of twelve seconds; the same recording id and time with other audio; a
  recording whose timestamp is the invalid date; and recordings whose duration is
  \<open>10^13\<close> seconds, or infinite.
\<close>

definition example_recording :: ForensicRecording where
  "example_recording = \<lparr> recordingId = ''rec-001'', rec_timestamp = Some 1700000000000,
     rec_duration = Finite 12, audioFileUrl = ''/audio/a.wav'', fileSize = Finite 2304000,
     format = ''audio/wav'' \<rparr>"

definition example_recording_other_audio :: ForensicRecording where
  "example_recording_other_audio = example_recording\<lparr> rec_duration := Finite 600,
     audioFileUrl := ''/audio/b.ogg'', fileSize := Finite 17, format := ''audio/ogg'' \<rparr>"

definition example_recording_invalid_date :: ForensicRecording where
  "example_recording_invalid_date = example_recording\<lparr> rec_timestamp := None \<rparr>"

definition example_recording_long :: ForensicRecording where
  "example_recording_long = example_recording\<lparr> rec_duration := Finite 10000000000000 \<rparr>"

definition example_recording_endless :: ForensicRecording where
  "example_recording_endless = example_recording\<lparr> rec_duration := PosInfinity \<rparr>"

text \<open>A stand-in for \<^verbatim>\<open>toISOString\<close> that tells two dates apart by their sign.\<close>

definition example_iso :: "date \<Rightarrow> string" where
  "example_iso t = (if 0 \<le> t then ''T+'' else ''T-'')"

section \<open>Theorems\<close>

text \<open>
  C1. For every request, whatever its headers, path or previous user, each of
  isAuthenticated, hasRole (for any role list), hasSubscriptionAccess,
  hasMeshNetworkAccess and forceEmergencyAuth calls next() with req.user set to a
  hardcoded user of id 999 and role 'admin'; the four middlewares of auth.ts install
  exactly defaultUser, and none of the five ever rejects.
\<close>

theorem C1_middlewares_admit_everyone_as_admin:
  "admitted_as isAuthenticated req = Some (999, ''admin'')
   \<and> admitted_as (hasRole roles) req = Some (999, ''admin'')
   \<and> admitted_as hasSubscriptionAccess req = Some (999, ''admin'')
   \<and> admitted_as hasMeshNetworkAccess req = Some (999, ''admin'')
   \<and> admitted_as forceEmergencyAuth req = Some (999, ''admin'')
   \<and> snd (isAuthenticated req) = Next \<and> snd (hasRole roles req) = Next
   \<and> snd (hasSubscriptionAccess req) = Next \<and> snd (hasMeshNetworkAccess req) = Next
   \<and> snd (forceEmergencyAuth req) = Next
   \<and> req_user (fst (isAuthenticated req)) = Some defaultUser
   \<and> req_user (fst (hasRole roles req)) = Some defaultUser
   \<and> req_user (fst (hasSubscriptionAccess req)) = Some defaultUser
   \<and> req_user (fst (hasMeshNetworkAccess req)) = Some defaultUser"
  by (simp add: admitted_as_def isAuthenticated_def hasRole_def hasSubscriptionAccess_def
        hasMeshNetworkAccess_def forceEmergencyAuth_def defaultUser_def emergencyUser_def)

subsection \<open>The store\<close>

lemmas create_defs = createUser_def createSubscription_def createReport_def
  createBlockedFrequency_def createMeshDevice_def createMobileDevice_def createMobileAlert_def

lemmas update_defs = updateUser_def updateSubscription_def updateReport_def
  updateBlockedFrequency_def updateMeshDevice_def updateMobileDevice_def updateMobileAlert_def
  markMobileAlertAsRead_def

lemmas delete_defs = deleteReport_def deleteBlockedFrequency_def deleteMeshDevice_def
  deleteMobileDevice_def deleteMobileAlert_def

lemmas example_defs = example_request_def example_report_def example_report_blank_def
  example_frequency_def example_device_def

lemmas newMemStorage_defs = newMemStorage_def emptyStorage_def demoUser_def adminUser_def
  str_or_null_def str_or_def

lemma counters_below_iff: "counters_below b st = (\<forall>e. counter_of e st \<le> b)"
proof
  assume a: "counters_below b st"
  show "\<forall>e. counter_of e st \<le> b"
  proof
    fix e show "counter_of e st \<le> b" using a by (cases e) (simp_all add: counters_below_def)
  qed
next
  assume a: "\<forall>e. counter_of e st \<le> b"
  from a [rule_format, of E_user] a [rule_format, of E_subscription] a [rule_format, of E_report]
    a [rule_format, of E_blockedFrequency] a [rule_format, of E_meshDevice]
    a [rule_format, of E_mobileDevice] a [rule_format, of E_mobileAlert]
  show "counters_below b st" by (simp add: counters_below_def)
qed

lemma set_update_subset: "set (AList.update k v xs) \<subseteq> insert (k, v) (set xs)"
  by (induction xs) auto

lemma found_subscription:
  "getUserSubscription st userId = Some sub \<Longrightarrow> \<exists>k. (k, sub) \<in> set (subscriptions st)"
proof -
  assume "getUserSubscription st userId = Some sub"
  then have "sub \<in> set (map snd (subscriptions st))"
    unfolding getUserSubscription_def find_Some_iff by (metis nth_mem)
  then show ?thesis by auto
qed

lemma inv_new: "storage_inv (newMemStorage now)"
  by (simp add: storage_inv_def newMemStorage_def createUser_def emptyStorage_def Let_def
        next_id_def)

lemma ids_new: "sub_ids_ok (newMemStorage now)"
  by (simp add: sub_ids_ok_def newMemStorage_def createUser_def emptyStorage_def Let_def)

lemma inv_exec:
  assumes "storage_inv st" and "\<forall>e i. created now st c = Some (e, i) \<longrightarrow> i < 2 ^ 53"
    and "\<not> is_stripe c"
  shows "storage_inv (exec now st c)"
  using assms
  by (cases c)
     (auto simp: storage_inv_def create_defs update_defs delete_defs Let_def dom_def next_id_def
           update_conv' split: option.splits)

lemma inv_stripe:
  assumes "storage_inv st" and "sub_ids_ok st"
  shows "storage_inv (exec now st (UpdateUserStripeInfo userId sid))"
proof (cases "getUserSubscription st userId")
  case None
  with assms(1) show ?thesis by (simp add: updateUserStripeInfo_def)
next
  case (Some sub)
  from found_subscription [OF Some] obtain k where k: "(k, sub) \<in> set (subscriptions st)" ..
  with assms(2) have id: "sub_id sub = k" by (auto simp: sub_ids_ok_def)
  from k have "k \<in> dom (map_of (subscriptions st))"
    by (metis domIff image_eqI map_of_eq_None_iff fst_conv)
  with assms(1) have "k < subscriptionIdCounter st" by (simp add: storage_inv_def)
  with assms(1) Some id show ?thesis
    by (auto simp: storage_inv_def updateUserStripeInfo_def Let_def update_conv')
qed

lemma ids_exec:
  assumes "sub_ids_ok st" and "keeps_id c"
  shows "sub_ids_ok (exec now st c)"
proof (cases c)
  case (CreateSubscription n)
  with assms(1) show ?thesis
    using set_update_subset [of "subscriptionIdCounter st" _ "subscriptions st"]
    by (fastforce simp: sub_ids_ok_def createSubscription_def Let_def)
next
  case (UpdateSubscription i u)
  show ?thesis
  proof (cases "map_of (subscriptions st) i")
    case None
    with assms(1) UpdateSubscription show ?thesis by (simp add: updateSubscription_def)
  next
    case (Some sub)
    then have "(i, sub) \<in> set (subscriptions st)" by (rule map_of_SomeD)
    with assms(1) have "sub_id sub = i" by (auto simp: sub_ids_ok_def)
    with assms UpdateSubscription Some show ?thesis
      using set_update_subset [of i "(u sub)\<lparr>sub_updatedAt := now\<rparr>" "subscriptions st"]
      by (fastforce simp: sub_ids_ok_def updateSubscription_def Let_def)
  qed
next
  case (UpdateUserStripeInfo userId sid)
  show ?thesis
  proof (cases "getUserSubscription st userId")
    case None
    with assms(1) UpdateUserStripeInfo show ?thesis by (simp add: updateUserStripeInfo_def)
  next
    case (Some sub)
    with assms(1) UpdateUserStripeInfo show ?thesis
      using set_update_subset [of "sub_id sub"
          "sub\<lparr>sub_paymentId := Some sid, sub_updatedAt := now\<rparr>" "subscriptions st"]
      by (fastforce simp: sub_ids_ok_def updateUserStripeInfo_def Let_def)
  qed
qed (use assms(1) in \<open>simp_all add: sub_ids_ok_def create_defs update_defs delete_defs Let_def
        split: option.splits\<close>)

lemma created_counter:
  "created now st c = Some (e, i) \<Longrightarrow>
     i = counter_of e st \<and> counter_of e (exec now st c) = next_id i
     \<and> row_of e (exec now st c) i \<noteq> None"
  by (cases c) (auto simp: create_defs Let_def update_conv')

lemma created_fresh:
  "storage_inv st \<Longrightarrow> created now st c = Some (e, i) \<Longrightarrow> row_of e st i = None"
  by (cases c) (auto simp: create_defs Let_def storage_inv_def dom_def)

lemma created_frame:
  "created now st c = Some (e, i) \<Longrightarrow> (e', k) \<noteq> (e, i) \<Longrightarrow>
     row_of e' (exec now st c) k = row_of e' st k"
  by (cases c; cases e') (auto simp: create_defs Let_def update_conv')

lemma target_frame:
  "target c = Some (e, i) \<Longrightarrow> (e', k) \<noteq> (e, i) \<Longrightarrow>
     row_of e' (exec now st c) k = row_of e' st k"
  by (cases c; cases e')
     (auto simp: update_defs delete_defs Let_def update_conv' split: option.splits)

lemma stripe_frame:
  "getUserSubscription st userId = Some sub \<Longrightarrow> (e', k) \<noteq> (E_subscription, sub_id sub) \<Longrightarrow>
     row_of e' (exec now st (UpdateUserStripeInfo userId sid)) k = row_of e' st k"
  by (cases e') (auto simp: updateUserStripeInfo_def Let_def update_conv')

lemma stripe_none:
  "getUserSubscription st userId = None \<Longrightarrow> exec now st (UpdateUserStripeInfo userId sid) = st"
  by (simp add: updateUserStripeInfo_def)

lemma counter_mono: "counter_of e st \<le> counter_of e (exec now st c)"
  by (cases c; cases e)
     (auto simp: create_defs update_defs delete_defs updateUserStripeInfo_def Let_def
           next_id_def split: option.splits)

lemma counter_step: "counter_of e (exec now st c) \<le> counter_of e st + 1"
  by (cases c; cases e)
     (auto simp: create_defs update_defs delete_defs updateUserStripeInfo_def Let_def
           next_id_def split: option.splits)

lemma counters_below_exec:
  "counters_below b st \<Longrightarrow> counters_below (b + 1) (exec now st c)"
  unfolding counters_below_iff
proof
  fix e assume "\<forall>e. counter_of e st \<le> b"
  then have "counter_of e st \<le> b" ..
  with counter_step [of e now st c] show "counter_of e (exec now st c) \<le> b + 1" by linarith
qed

lemma run_ids_ge:
  "(e, i) \<in> set (snd (run now st cs)) \<Longrightarrow> counter_of e st \<le> i"
proof (induction cs arbitrary: st)
  case Nil
  then show ?case by simp
next
  case (Cons c cs)
  obtain st' ids where r: "run now (exec now st c) cs = (st', ids)"
    by (cases "run now (exec now st c) cs")
  from Cons.prems r have "(e, i) \<in> set ids \<or> created now st c = Some (e, i)"
    by (auto split: option.splits)
  then show ?case
  proof
    assume "(e, i) \<in> set ids"
    with r have "(e, i) \<in> set (snd (run now (exec now st c) cs))" by simp
    from Cons.IH [OF this] counter_mono [of e st now c] show ?thesis by linarith
  next
    assume "created now st c = Some (e, i)"
    from created_counter [OF this] show ?thesis by simp
  qed
qed

lemma run_distinct:
  "counters_below (2 ^ 53 - int (length cs)) st \<Longrightarrow> distinct (snd (run now st cs))"
proof (induction cs arbitrary: st)
  case Nil
  then show ?case by simp
next
  case (Cons c cs)
  obtain st' ids where r: "run now (exec now st c) cs = (st', ids)"
    by (cases "run now (exec now st c) cs")
  from Cons.prems have b: "counters_below (2 ^ 53 - int (length cs) - 1) st" by (simp add: algebra_simps)
  from counters_below_exec [OF b, of now c]
  have "counters_below (2 ^ 53 - int (length cs)) (exec now st c)" by simp
  from Cons.IH [OF this] r have d: "distinct ids" by simp
  show ?case
  proof (cases "created now st c")
    case None
    with r d show ?thesis by simp
  next
    case (Some x)
    obtain e i where x: "x = (e, i)" by (cases x)
    from created_counter [of now st c e i] Some x
    have i: "i = counter_of e st" and n: "counter_of e (exec now st c) = next_id i" by simp_all
    from b have "counter_of e st \<le> 2 ^ 53 - int (length cs) - 1"
      unfolding counters_below_iff ..
    with i have "i < 2 ^ 53" by linarith
    with n have n': "counter_of e (exec now st c) = i + 1" by (simp add: next_id_def)
    have "(e, i) \<notin> set ids"
    proof
      assume "(e, i) \<in> set ids"
      with r have "(e, i) \<in> set (snd (run now (exec now st c) cs))" by simp
      from run_ids_ge [OF this] n' show False by simp
    qed
    with r d Some x show ?thesis by simp
  qed
qed

lemma inv_run:
  "storage_inv st \<Longrightarrow> sub_ids_ok st \<Longrightarrow> list_all keeps_id cs \<Longrightarrow>
   counters_below (2 ^ 53 - int (length cs)) st \<Longrightarrow>
   storage_inv (fst (run now st cs)) \<and> sub_ids_ok (fst (run now st cs))"
proof (induction cs arbitrary: st)
  case Nil
  then show ?case by simp
next
  case (Cons c cs)
  from Cons.prems(4) have b: "counters_below (2 ^ 53 - int (length cs) - 1) st"
    by (simp add: algebra_simps)
  have lim: "\<forall>e i. created now st c = Some (e, i) \<longrightarrow> i < 2 ^ 53"
  proof (intro allI impI)
    fix e i assume "created now st c = Some (e, i)"
    from created_counter [OF this] have "i = counter_of e st" by simp
    moreover from b have "counter_of e st \<le> 2 ^ 53 - int (length cs) - 1"
      unfolding counters_below_iff ..
    ultimately show "i < 2 ^ 53" by linarith
  qed
  have i1: "storage_inv (exec now st c)"
  proof (cases "is_stripe c")
    case True
    then obtain userId sid where "c = UpdateUserStripeInfo userId sid" by (cases c) simp_all
    with inv_stripe [OF Cons.prems(1) Cons.prems(2)] show ?thesis by simp
  next
    case False
    from inv_exec [OF Cons.prems(1) lim False] show ?thesis .
  qed
  from Cons.prems(3) have k: "keeps_id c" and ks: "list_all keeps_id cs" by simp_all
  from ids_exec [OF Cons.prems(2) k] have i2: "sub_ids_ok (exec now st c)" .
  from counters_below_exec [OF b, of now c]
  have b': "counters_below (2 ^ 53 - int (length cs)) (exec now st c)" by simp
  from Cons.IH [OF i1 i2 ks b'] show ?case
    by (cases "run now (exec now st c) cs") simp
qed

text \<open>
  C10. The constructor establishes that each key of a map is below that map's counter.
  A create returns the counter's value as the id, writes the row under it and leaves the
  counter at \<open>next_id\<close> of it: one more below \<open>2^53\<close>, the same from \<open>2^53\<close> on. So every
  create, update and delete call preserves the invariant provided the counter of a create
  is below \<open>2^53\<close>, and updateUserStripeInfo, which writes under the id field of the
  subscription it found, preserves it provided every stored subscription's id field is
  its key (which every call keeps but an updateSubscription that changes the id field).
  Under the invariant the id of a create was unused, and every other row of every map
  stays as it was; an update or delete given an id, and updateUserStripeInfo on the
  subscription it found, leave every row under another key or of another kind as it
  was. Along a run of calls that keeps the counters below \<open>2^53\<close> the invariant holds at
  the end and the ids returned by the creates are pairwise distinct.
\<close>

theorem C10_keys_below_counter:
  "storage_inv (newMemStorage now0) \<and> sub_ids_ok (newMemStorage now0)
   \<and> (storage_inv st \<and> (\<forall>e i. created now st c = Some (e, i) \<longrightarrow> i < 2 ^ 53) \<and> \<not> is_stripe c
        \<longrightarrow> storage_inv (exec now st c))
   \<and> (storage_inv st \<and> sub_ids_ok st
        \<longrightarrow> storage_inv (exec now st (UpdateUserStripeInfo userId sid)))
   \<and> (sub_ids_ok st \<and> keeps_id c \<longrightarrow> sub_ids_ok (exec now st c))
   \<and> (storage_inv st \<and> sub_ids_ok st \<and> list_all keeps_id cs
        \<and> counters_below (2 ^ 53 - int (length cs)) st
        \<longrightarrow> storage_inv (fst (run now st cs)) \<and> sub_ids_ok (fst (run now st cs)))
   \<and> (counters_below (2 ^ 53 - int (length cs)) st \<longrightarrow> distinct (snd (run now st cs)))
   \<and> (created now st c = Some (e, i) \<longrightarrow>
        i = counter_of e st \<and> counter_of e (exec now st c) = next_id i
        \<and> (i < 2 ^ 53 \<longrightarrow> counter_of e (exec now st c) = i + 1)
        \<and> row_of e (exec now st c) i \<noteq> None
        \<and> (storage_inv st \<longrightarrow> row_of e st i = None)
        \<and> (\<forall>e' k. (e', k) \<noteq> (e, i) \<longrightarrow> row_of e' (exec now st c) k = row_of e' st k))
   \<and> (target c = Some (e, i) \<longrightarrow>
        (\<forall>e' k. (e', k) \<noteq> (e, i) \<longrightarrow> row_of e' (exec now st c) k = row_of e' st k))
   \<and> (getUserSubscription st userId = Some sub \<longrightarrow>
        (\<forall>e' k. (e', k) \<noteq> (E_subscription, sub_id sub) \<longrightarrow>
           row_of e' (exec now st (UpdateUserStripeInfo userId sid)) k = row_of e' st k))
   \<and> (getUserSubscription st userId = None \<longrightarrow>
        exec now st (UpdateUserStripeInfo userId sid) = st)"
proof (intro conjI impI allI)
  show "storage_inv (newMemStorage now0)" by (rule inv_new)
  show "sub_ids_ok (newMemStorage now0)" by (rule ids_new)
  show "storage_inv (exec now st c)"
    if "storage_inv st \<and> (\<forall>e i. created now st c = Some (e, i) \<longrightarrow> i < 2 ^ 53) \<and> \<not> is_stripe c"
    using that inv_exec [of st now c] by blast
  show "storage_inv (exec now st (UpdateUserStripeInfo userId sid))"
    if "storage_inv st \<and> sub_ids_ok st"
    using that inv_stripe [of st now userId sid] by blast
  show "sub_ids_ok (exec now st c)" if "sub_ids_ok st \<and> keeps_id c"
    using that ids_exec [of st c now] by blast
  show "distinct (snd (run now st cs))" if "counters_below (2 ^ 53 - int (length cs)) st"
    using that by (rule run_distinct)
  show "exec now st (UpdateUserStripeInfo userId sid) = st"
    if "getUserSubscription st userId = None"
    using that by (rule stripe_none)
next
  assume a: "storage_inv st \<and> sub_ids_ok st \<and> list_all keeps_id cs
        \<and> counters_below (2 ^ 53 - int (length cs)) st"
  from a inv_run [of st cs now]
  show "storage_inv (fst (run now st cs))" and "sub_ids_ok (fst (run now st cs))" by blast+
next
  assume cr: "created now st c = Some (e, i)"
  from created_counter [OF cr] show "i = counter_of e st"
    and n: "counter_of e (exec now st c) = next_id i"
    and "row_of e (exec now st c) i \<noteq> None" by blast+
  show "counter_of e (exec now st c) = i + 1" if "i < 2 ^ 53"
    using that n by (simp add: next_id_def)
  show "row_of e st i = None" if "storage_inv st"
    using that cr by (rule created_fresh)
  fix e' k assume "(e', k) \<noteq> (e, i)"
  with cr show "row_of e' (exec now st c) k = row_of e' st k" by (rule created_frame)
next
  fix e' k assume "target c = Some (e, i)" and "(e', k) \<noteq> (e, i)"
  then show "row_of e' (exec now st c) k = row_of e' st k" by (rule target_frame)
next
  fix e' k assume "getUserSubscription st userId = Some sub"
    and "(e', k) \<noteq> (E_subscription, sub_id sub)"
  then show "row_of e' (exec now st (UpdateUserStripeInfo userId sid)) k = row_of e' st k"
    by (rule stripe_frame)
qed

theorem C10_keys_below_counter_witness:
  "storage_inv (newMemStorage 0) \<and> sub_ids_ok (newMemStorage 0)
   \<and> created 5 (newMemStorage 0) (CreateReport example_report) = Some (E_report, 1)
   \<and> \<not> is_stripe (CreateReport example_report) \<and> keeps_id (CreateReport example_report)
   \<and> storage_inv (exec 5 (newMemStorage 0) (CreateReport example_report))
   \<and> sub_ids_ok (exec 5 (newMemStorage 0) (CreateReport example_report))
   \<and> storage_inv (exec 5 (exec 5 (newMemStorage 0) (CreateSubscription example_subscription))
         (UpdateUserStripeInfo 999 ''sub_1''))
   \<and> list_all keeps_id
        [CreateSubscription example_subscription, CreateReport example_report, DeleteReport 1,
         CreateReport example_report, UpdateUserStripeInfo 999 ''sub_1'']
   \<and> counters_below (2 ^ 53 - 5) (newMemStorage 0)
   \<and> storage_inv (fst (run 5 (newMemStorage 0)
        [CreateSubscription example_subscription, CreateReport example_report, DeleteReport 1,
         CreateReport example_report, UpdateUserStripeInfo 999 ''sub_1'']))
   \<and> snd (run 5 (newMemStorage 0)
        [CreateSubscription example_subscription, CreateReport example_report, DeleteReport 1,
         CreateReport example_report, UpdateUserStripeInfo 999 ''sub_1''])
       = [(E_subscription, 1), (E_report, 1), (E_report, 2)]
   \<and> distinct (snd (run 5 (newMemStorage 0)
        [CreateSubscription example_subscription, CreateReport example_report, DeleteReport 1,
         CreateReport example_report, UpdateUserStripeInfo 999 ''sub_1'']))
   \<and> counter_of E_report (exec 5 (newMemStorage 0) (CreateReport example_report)) = 2
   \<and> row_of E_report (newMemStorage 0) 1 = None
   \<and> row_of E_report (exec 5 (newMemStorage 0) (CreateReport example_report)) 1 \<noteq> None
   \<and> row_of E_user (exec 5 (newMemStorage 0) (CreateReport example_report)) 1
       = row_of E_user (newMemStorage 0) 1
   \<and> target (UpdateUser 2 (\<lambda>u. u\<lparr>usr_role := ''user''\<rparr>)) = Some (E_user, 2)
   \<and> row_of E_user (exec 5 (newMemStorage 0) (UpdateUser 2 (\<lambda>u. u\<lparr>usr_role := ''user''\<rparr>))) 1
       = row_of E_user (newMemStorage 0) 1
   \<and> map_option sub_id
        (getUserSubscription (exec 5 (newMemStorage 0) (CreateSubscription example_subscription))
           999) = Some 1
   \<and> row_of E_user (exec 5 (exec 5 (newMemStorage 0) (CreateSubscription example_subscription))
         (UpdateUserStripeInfo 999 ''sub_1'')) 1
       = row_of E_user (exec 5 (newMemStorage 0) (CreateSubscription example_subscription)) 1
   \<and> getUserSubscription (newMemStorage 0) 999 = None
   \<and> exec 5 (newMemStorage 0) (UpdateUserStripeInfo 999 ''sub_1'') = newMemStorage 0"
proof -
  let ?st = "newMemStorage 0"
  let ?c = "CreateReport example_report"
  let ?u = "UpdateUser 2 (\<lambda>u. u\<lparr>usr_role := ''user''\<rparr>)"
  let ?s = "CreateSubscription example_subscription"
  let ?p = "UpdateUserStripeInfo 999 ''sub_1''"
  let ?cs = "[?s, ?c, DeleteReport 1, ?c, ?p]"
  let ?st1 = "exec 5 ?st ?s"
  let ?sub = "snd (createSubscription 5 ?st example_subscription)"
  have cr: "created 5 ?st ?c = Some (E_report, 1)"
    by (simp add: createReport_def Let_def newMemStorage_def createUser_def emptyStorage_def
          next_id_def)
  have lim: "\<forall>e i. created 5 ?st ?c = Some (e, i) \<longrightarrow> i < 2 ^ 53" using cr by simp
  have ns: "\<not> is_stripe ?c" and ki: "keeps_id ?c" and ks: "list_all keeps_id ?cs" by simp_all
  have tg: "target ?u = Some (E_user, 2)" by simp
  have ne: "(E_user, 1 :: int) \<noteq> (E_report, 1)" "(E_user, 1 :: int) \<noteq> (E_user, 2)"
    "(E_user, 1 :: int) \<noteq> (E_subscription, 1)" by simp_all
  have cb: "counters_below (2 ^ 53 - 5) ?st"
    by (simp add: counters_below_def newMemStorage_def createUser_def emptyStorage_def Let_def
          next_id_def)
  have cb': "counters_below (2 ^ 53 - int (length ?cs)) ?st" using cb by simp
  have ids: "snd (run 5 ?st ?cs) = [(E_subscription, 1), (E_report, 1), (E_report, 2)]"
    by (simp add: createReport_def createSubscription_def deleteReport_def Let_def
          newMemStorage_def createUser_def emptyStorage_def next_id_def)
  have gs: "getUserSubscription ?st1 999 = Some ?sub"
    by (simp add: getUserSubscription_def createSubscription_def Let_def newMemStorage_def
          createUser_def emptyStorage_def example_subscription_def)
  have sid: "sub_id ?sub = 1"
    by (simp add: createSubscription_def Let_def newMemStorage_def createUser_def
          emptyStorage_def next_id_def)
  have gn: "getUserSubscription ?st 999 = None"
    by (simp add: getUserSubscription_def newMemStorage_def createUser_def emptyStorage_def Let_def)
  have ks1: "keeps_id ?s" by simp
  note a = C10_keys_below_counter [of 0 ?st 5 ?c 999 "''sub_1''" ?cs E_report 1]
  note b = C10_keys_below_counter [of 0 ?st 5 ?u 999 "''sub_1''" ?cs E_user 2]
  note d = C10_keys_below_counter [of 0 ?st1 5 ?s 999 "''sub_1''" ?cs E_user 2 ?sub]
  note f = C10_keys_below_counter [of 0 ?st 5 ?s 999 "''sub_1''" ?cs E_user 2]
  from a have i0: "storage_inv ?st" and j0: "sub_ids_ok ?st" by blast+
  from a i0 lim ns have i1: "storage_inv (exec 5 ?st ?c)" by blast
  from a j0 ki have j1: "sub_ids_ok (exec 5 ?st ?c)" by blast
  have lims: "\<forall>e i. created 5 ?st ?s = Some (e, i) \<longrightarrow> i < 2 ^ 53"
    by (simp add: createSubscription_def Let_def newMemStorage_def createUser_def
          emptyStorage_def next_id_def)
  have nss: "\<not> is_stripe ?s" by simp
  from f i0 lims nss have i1s: "storage_inv ?st1" by blast
  from f j0 ks1 have j1s: "sub_ids_ok ?st1" by blast
  from d i1s j1s have i3: "storage_inv (exec 5 ?st1 ?p)" by blast
  from a i0 j0 ks cb' have i2: "storage_inv (fst (run 5 ?st ?cs))" by blast
  from a cb' have dd: "distinct (snd (run 5 ?st ?cs))" by blast
  have one: "(1 :: int) < 2 ^ 53" by simp
  from a cr one have c1: "counter_of E_report (exec 5 ?st ?c) = 1 + 1"
    and c3: "row_of E_report (exec 5 ?st ?c) 1 \<noteq> None"
    and c4: "\<forall>e' k. (e', k) \<noteq> (E_report, 1) \<longrightarrow> row_of e' (exec 5 ?st ?c) k = row_of e' ?st k"
    by blast+
  from a cr i0 have c2: "row_of E_report ?st 1 = None" by blast
  from c4 ne(1) have c5: "row_of E_user (exec 5 ?st ?c) 1 = row_of E_user ?st 1" by blast
  from b tg have "\<forall>e' k. (e', k) \<noteq> (E_user, 2) \<longrightarrow> row_of e' (exec 5 ?st ?u) k = row_of e' ?st k"
    by blast
  with ne(2) have u1: "row_of E_user (exec 5 ?st ?u) 1 = row_of E_user ?st 1" by blast
  from d gs have "\<forall>e' k. (e', k) \<noteq> (E_subscription, sub_id ?sub) \<longrightarrow>
      row_of e' (exec 5 ?st1 ?p) k = row_of e' ?st1 k" by blast
  moreover have "(E_user, 1 :: int) \<noteq> (E_subscription, sub_id ?sub)" by simp
  ultimately have s1: "row_of E_user (exec 5 ?st1 ?p) 1 = row_of E_user ?st1 1" by blast
  from a gn have s2: "exec 5 ?st ?p = ?st" by blast
  from c1 have c1': "counter_of E_report (exec 5 ?st ?c) = 2" by simp
  from gs sid have gs': "map_option sub_id (getUserSubscription ?st1 999) = Some 1" by simp
  show ?thesis
    using i0 j0 cr ns ki i1 j1 i3 ks cb i2 ids dd c1' c2 c3 c5 tg u1 gs' s1 gn s2
    by (intro conjI)
qed

lemma run_append:
  "run now st (xs @ ys)
     = (case run now st xs of
          (st', ids) \<Rightarrow> (case run now st' ys of (st'', ids') \<Rightarrow> (st'', ids @ ids')))"
  by (induction xs arbitrary: st) (auto split: prod.splits option.splits)

lemma replicate_report_counter:
  "reportIdCounter st + int n \<le> 2 ^ 53 \<Longrightarrow>
   reportIdCounter (fst (run now st (replicate n (CreateReport r)))) = reportIdCounter st + int n"
proof (induction n arbitrary: st)
  case 0
  then show ?case by simp
next
  case (Suc n)
  from Suc.prems have c: "reportIdCounter (exec now st (CreateReport r)) = reportIdCounter st + 1"
    by (simp add: createReport_def Let_def next_id_def)
  with Suc.prems have "reportIdCounter (exec now st (CreateReport r)) + int n \<le> 2 ^ 53" by simp
  from Suc.IH [OF this] c show ?case
    by (cases "run now (exec now st (CreateReport r)) (replicate n (CreateReport r))") simp
qed

lemma two_reports_at_the_limit:
  "reportIdCounter st = 2 ^ 53 \<Longrightarrow>
   snd (run now st [CreateReport a, CreateReport b]) = [(E_report, 2 ^ 53), (E_report, 2 ^ 53)]"
  by (simp add: createReport_def Let_def next_id_def)

text \<open>
  Where C10 as stated fails. In a store whose report counter is \<open>2^53\<close>, and which
  satisfies the invariant, createReport leaves a key that is not below the counter and
  the counter where it was; a second createReport returns the same id and overwrites the
  first report. Such a store is reached from the constructor by \<open>2^53 - 1\<close> calls of
  createReport, so the ids of \<open>2^53 + 1\<close> calls are not distinct. And after an
  updateSubscription that changes the id field to 7, updateUserStripeInfo writes the key 7
  while the counter is 2.
\<close>

theorem C10_counter_stops_and_stripe_writes_id_field:
  "storage_inv example_full_storage
   \<and> snd (run 5 example_full_storage [CreateReport example_report, CreateReport example_report_blank])
       = [(E_report, 2 ^ 53), (E_report, 2 ^ 53)]
   \<and> reportIdCounter (exec 5 example_full_storage (CreateReport example_report)) = 2 ^ 53
   \<and> reports (exec 5 example_full_storage (CreateReport example_report)) (2 ^ 53) \<noteq> None
   \<and> \<not> storage_inv (exec 5 example_full_storage (CreateReport example_report))
   \<and> map_option rep_description
        (reports (fst (run 5 example_full_storage [CreateReport example_report])) (2 ^ 53))
       = Some (Some ''tone near 3.5 kHz'')
   \<and> map_option rep_description
        (reports (fst (run 5 example_full_storage
            [CreateReport example_report, CreateReport example_report_blank])) (2 ^ 53))
       = Some None
   \<and> \<not> distinct (snd (run 5 (newMemStorage 0)
           (replicate (2 ^ 53 - 1) (CreateReport example_report)
            @ [CreateReport example_report, CreateReport example_report])))
   \<and> map_of (subscriptions (fst (run 5 (newMemStorage 0)
          [CreateSubscription example_subscription,
           UpdateSubscription 1 (\<lambda>sub. sub\<lparr>sub_id := 7\<rparr>),
           UpdateUserStripeInfo 999 ''sub_1'']))) 7 \<noteq> None
   \<and> subscriptionIdCounter (fst (run 5 (newMemStorage 0)
          [CreateSubscription example_subscription,
           UpdateSubscription 1 (\<lambda>sub. sub\<lparr>sub_id := 7\<rparr>),
           UpdateUserStripeInfo 999 ''sub_1''])) = 2
   \<and> \<not> storage_inv (fst (run 5 (newMemStorage 0)
          [CreateSubscription example_subscription,
           UpdateSubscription 1 (\<lambda>sub. sub\<lparr>sub_id := 7\<rparr>),
           UpdateUserStripeInfo 999 ''sub_1'']))"
proof -
  let ?f = example_full_storage
  let ?c = "CreateReport example_report"
  let ?b = "CreateReport example_report_blank"
  let ?ops = "[CreateSubscription example_subscription,
           UpdateSubscription 1 (\<lambda>sub. sub\<lparr>sub_id := 7\<rparr>),
           UpdateUserStripeInfo 999 ''sub_1'']"
  have fc: "reportIdCounter ?f = 2 ^ 53" by (simp add: example_full_storage_def)
  have i0: "storage_inv ?f"
    by (simp add: example_full_storage_def storage_inv_def newMemStorage_def createUser_def
          emptyStorage_def Let_def next_id_def)
  from two_reports_at_the_limit [OF fc]
  have ids: "snd (run 5 ?f [?c, ?b]) = [(E_report, 2 ^ 53), (E_report, 2 ^ 53)]" .
  have c1: "reportIdCounter (exec 5 ?f ?c) = 2 ^ 53"
    using fc by (simp add: createReport_def Let_def next_id_def)
  have k1: "reports (exec 5 ?f ?c) (2 ^ 53) \<noteq> None"
    using fc by (simp add: createReport_def Let_def)
  have n1: "\<not> storage_inv (exec 5 ?f ?c)"
  proof
    assume "storage_inv (exec 5 ?f ?c)"
    then have "\<forall>k \<in> dom (reports (exec 5 ?f ?c)). k < reportIdCounter (exec 5 ?f ?c)"
      by (simp add: storage_inv_def)
    with k1 c1 show False by (auto simp: dom_def)
  qed
  have d1: "map_option rep_description (reports (fst (run 5 ?f [?c])) (2 ^ 53))
       = Some (Some ''tone near 3.5 kHz'')"
    using fc by (simp add: createReport_def Let_def example_report_def str_or_null_def)
  have d2: "map_option rep_description (reports (fst (run 5 ?f [?c, ?b])) (2 ^ 53)) = Some None"
    using fc
    by (simp add: createReport_def Let_def example_report_def example_report_blank_def
          str_or_null_def next_id_def)
  have nd: "\<not> distinct (snd (run 5 (newMemStorage 0) (replicate (2 ^ 53 - 1) ?c @ [?c, ?c])))"
  proof -
    let ?xs = "replicate (2 ^ 53 - 1) ?c"
    obtain st1 ids1 where r1: "run 5 (newMemStorage 0) ?xs = (st1, ids1)"
      by (cases "run 5 (newMemStorage 0) ?xs")
    have n0: "reportIdCounter (newMemStorage 0) = 1"
      by (simp add: newMemStorage_def createUser_def emptyStorage_def Let_def)
    have le: "reportIdCounter (newMemStorage 0) + int (2 ^ 53 - 1) \<le> 2 ^ 53"
      unfolding n0 by simp
    from replicate_report_counter [OF le, of 5 example_report] r1 n0
    have "reportIdCounter st1 = 2 ^ 53" by simp
    from two_reports_at_the_limit [OF this, of 5 example_report example_report]
    have "snd (run 5 st1 [?c, ?c]) = [(E_report, 2 ^ 53), (E_report, 2 ^ 53)]" .
    then have "snd (run 5 (newMemStorage 0) (?xs @ [?c, ?c]))
        = ids1 @ [(E_report, 2 ^ 53), (E_report, 2 ^ 53)]"
      unfolding run_append r1 by (cases "run 5 st1 [?c, ?c]") simp
    then show ?thesis by simp
  qed
  have k7: "map_of (subscriptions (fst (run 5 (newMemStorage 0) ?ops))) 7 \<noteq> None"
    by (simp add: createSubscription_def updateSubscription_def updateUserStripeInfo_def
          getUserSubscription_def Let_def newMemStorage_def createUser_def emptyStorage_def
          next_id_def example_subscription_def)
  have c7: "subscriptionIdCounter (fst (run 5 (newMemStorage 0) ?ops)) = 2"
    by (simp add: createSubscription_def updateSubscription_def updateUserStripeInfo_def
          getUserSubscription_def Let_def newMemStorage_def createUser_def emptyStorage_def
          next_id_def example_subscription_def)
  have n7: "\<not> storage_inv (fst (run 5 (newMemStorage 0) ?ops))"
  proof
    assume "storage_inv (fst (run 5 (newMemStorage 0) ?ops))"
    then have "\<forall>k \<in> dom (map_of (subscriptions (fst (run 5 (newMemStorage 0) ?ops)))).
        k < subscriptionIdCounter (fst (run 5 (newMemStorage 0) ?ops))"
      by (simp add: storage_inv_def)
    with k7 c7 show False by (auto simp: dom_def)
  qed
  show ?thesis using i0 ids c1 k1 n1 d1 d2 nd k7 c7 n7 by (intro conjI)
qed

subsection \<open>REST handlers\<close>

lemmas route_defs = route_def isAuthenticated_def hasSubscriptionAccess_def
  forceEmergencyAuth_def denied_def defaultUser_def emergencyUser_def UserRole_ADMIN_def
  respond_def

text \<open>
  C4. For an id that is not a key of the store, GET and DELETE /api/reports/:id and PUT
  and DELETE /api/blocked-frequencies/:id answer 404 and leave the store as it was;
  updateReport and updateBlockedFrequency return undefined, deleteReport and
  deleteBlockedFrequency return false, and none of them changes the store. (The id is
  the number parseInt reads from the path; routes.ts has no PUT or PATCH for a report
  and no GET for a single blocked frequency.)
\<close>

theorem C4_missing_id_answers_404:
  assumes "reports st i = None" and "blockedFrequencies st j = None"
  shows "GET_reports_id (Some i) st req = (st, respond 404 (P_message ''Report not found''))
    \<and> DELETE_reports_id (Some i) st req = (st, respond 404 (P_message ''Report not found''))
    \<and> PUT_blocked_frequencies_id sch (Some j) b st req
        = (st, respond 404 (P_message ''Blocked frequency not found''))
    \<and> DELETE_blocked_frequencies_id (Some j) st req
        = (st, respond 404 (P_message ''Blocked frequency not found''))
    \<and> updateReport st i u = (st, None) \<and> deleteReport st i = (st, False)
    \<and> updateBlockedFrequency st j u' = (st, None)
    \<and> deleteBlockedFrequency st j = (st, False)"
proof -
  have r: "(reports st)(i := None) = reports st"
    using assms(1) by (metis fun_upd_triv)
  have f: "(blockedFrequencies st)(j := None) = blockedFrequencies st"
    using assms(2) by (metis fun_upd_triv)
  show ?thesis
    using assms r f
    by (simp add: GET_reports_id_def DELETE_reports_id_def PUT_blocked_frequencies_id_def
        DELETE_blocked_frequencies_id_def route_defs get_report_handler_def
        delete_report_handler_def put_blocked_frequency_handler_def
        delete_blocked_frequency_handler_def getReport_def getBlockedFrequency_def
        updateReport_def deleteReport_def updateBlockedFrequency_def deleteBlockedFrequency_def)
qed

theorem C4_missing_id_answers_404_witness:
  "reports (newMemStorage 0) 7 = None \<and> blockedFrequencies (newMemStorage 0) 7 = None
   \<and> GET_reports_id (Some 7) (newMemStorage 0) example_request
       = (newMemStorage 0, respond 404 (P_message ''Report not found''))
   \<and> DELETE_reports_id (Some 7) (newMemStorage 0) example_request
       = (newMemStorage 0, respond 404 (P_message ''Report not found''))
   \<and> PUT_blocked_frequencies_id (\<lambda>b. Inr (\<lambda>f. f\<lparr>bf_bandwidth := 100\<rparr>)) (Some 7) []
         (newMemStorage 0) example_request
       = (newMemStorage 0, respond 404 (P_message ''Blocked frequency not found''))
   \<and> DELETE_blocked_frequencies_id (Some 7) (newMemStorage 0) example_request
       = (newMemStorage 0, respond 404 (P_message ''Blocked frequency not found''))
   \<and> updateReport (newMemStorage 0) 7 (\<lambda>r. r\<lparr>rep_title := ''x''\<rparr>) = (newMemStorage 0, None)
   \<and> deleteReport (newMemStorage 0) 7 = (newMemStorage 0, False)
   \<and> updateBlockedFrequency (newMemStorage 0) 7 (\<lambda>f. f\<lparr>bf_bandwidth := 100\<rparr>)
       = (newMemStorage 0, None)
   \<and> deleteBlockedFrequency (newMemStorage 0) 7 = (newMemStorage 0, False)"
proof -
  have h1: "reports (newMemStorage 0) 7 = None"
    by (simp add: newMemStorage_def createUser_def emptyStorage_def Let_def)
  have h2: "blockedFrequencies (newMemStorage 0) 7 = None"
    by (simp add: newMemStorage_def createUser_def emptyStorage_def Let_def)
  show ?thesis
    using h1 h2
      C4_missing_id_answers_404 [OF h1 h2, of example_request
        "\<lambda>b. Inr (\<lambda>f. f\<lparr>bf_bandwidth := 100\<rparr>)" "[]" "\<lambda>r. r\<lparr>rep_title := ''x''\<rparr>"
        "\<lambda>f. f\<lparr>bf_bandwidth := 100\<rparr>"]
    by simp
qed


lemma createReport_lookup:
  "getReport (fst (createReport now st v)) (rep_id (snd (createReport now st v)))
     = Some (snd (createReport now st v))"
  by (simp add: createReport_def getReport_def Let_def)

lemma createBlockedFrequency_lookup:
  "getBlockedFrequency (fst (createBlockedFrequency now st f))
       (bf_id (snd (createBlockedFrequency now st f)))
     = Some (snd (createBlockedFrequency now st f))"
  by (simp add: createBlockedFrequency_def getBlockedFrequency_def Let_def)

lemma post_reports_ok:
  "sch (with_userId b 999) = Inr v \<Longrightarrow>
   POST_reports sch now b st req
     = (fst (createReport now st v), respond 201 (P_report (snd (createReport now st v))))"
  by (simp add: POST_reports_def post_reports_handler_def route_defs split: prod.splits)

lemma post_blocked_frequencies_ok:
  "sch (with_userId b 999) = Inr v \<Longrightarrow>
   POST_blocked_frequencies sch now b st req
     = (fst (createBlockedFrequency now st v),
        respond 201 (P_frequency (snd (createBlockedFrequency now st v))))"
  by (simp add: POST_blocked_frequencies_def post_blocked_frequencies_handler_def route_defs
       split: prod.splits)

lemma get_reports_found:
  "getReport st i = Some r \<Longrightarrow> GET_reports_id (Some i) st req = (st, respond 200 (P_report r))"
  by (simp add: GET_reports_id_def get_report_handler_def route_defs)

lemma createReport_fields:
  "rep_userId (snd (createReport now st v)) = nrep_userId v
   \<and> rep_title (snd (createReport now st v)) = nrep_title v
   \<and> rep_description (snd (createReport now st v)) = str_or_null (nrep_description v)
   \<and> rep_frequencyData (snd (createReport now st v)) = json_or_null (nrep_frequencyData v)
   \<and> rep_locationData (snd (createReport now st v)) = json_or_null (nrep_locationData v)
   \<and> rep_deviceData (snd (createReport now st v)) = json_or_null (nrep_deviceData v)
   \<and> rep_mlClassification (snd (createReport now st v)) = json_or_null (nrep_mlClassification v)
   \<and> rep_reportData (snd (createReport now st v)) = json_or_null (nrep_reportData v)
   \<and> rep_id (snd (createReport now st v)) = reportIdCounter st
   \<and> rep_createdAt (snd (createReport now st v)) = now
   \<and> rep_timestamp (snd (createReport now st v)) = defined_or (nrep_timestamp v) now"
  by (simp add: createReport_def Let_def defined_or_def)

lemma createBlockedFrequency_fields:
  "bf_userId (snd (createBlockedFrequency now st f)) = nbf_userId f
   \<and> bf_frequency (snd (createBlockedFrequency now st f)) = nbf_frequency f
   \<and> bf_bandwidth (snd (createBlockedFrequency now st f)) = nbf_bandwidth f
   \<and> bf_name (snd (createBlockedFrequency now st f)) = str_or_null (nbf_name f)
   \<and> bf_description (snd (createBlockedFrequency now st f)) = str_or_null (nbf_description f)
   \<and> bf_isCustom (snd (createBlockedFrequency now st f)) = bool_or_false (nbf_isCustom f)
   \<and> bf_id (snd (createBlockedFrequency now st f)) = blockedFrequencyIdCounter st
   \<and> bf_createdAt (snd (createBlockedFrequency now st f)) = now"
  by (simp add: createBlockedFrequency_def Let_def)

text \<open>
  C5. When the schema accepts the body, POST /api/reports answers 201 with the row that
  createReport built, and a following GET /api/reports/:id with that row's id answers 200
  with the same row, which is what getReport finds under that id; likewise
  getBlockedFrequency finds the row that POST /api/blocked-frequencies returned. In the
  stored row the required fields are the submitted ones, id is the counter's value,
  createdAt is the time of the call, timestamp is the submitted one or the time of the
  call, and each optional text or JSON field is the submitted value when that value is
  truthy and null otherwise (so an empty string, and a JSON 0, false or "", is stored as
  null); isCustom is the submitted flag, or false.
\<close>

theorem C5_post_then_get_same_row:
  assumes "sch (with_userId b 999) = Inr v" and "fsch (with_userId b' 999) = Inr f"
  shows "POST_reports sch now b st req
       = (fst (createReport now st v), respond 201 (P_report (snd (createReport now st v))))
   \<and> GET_reports_id (Some (rep_id (snd (createReport now st v)))) (fst (createReport now st v)) req'
       = (fst (createReport now st v), respond 200 (P_report (snd (createReport now st v))))
   \<and> getReport (fst (createReport now st v)) (rep_id (snd (createReport now st v)))
       = Some (snd (createReport now st v))
   \<and> rep_userId (snd (createReport now st v)) = nrep_userId v
   \<and> rep_title (snd (createReport now st v)) = nrep_title v
   \<and> rep_description (snd (createReport now st v)) = str_or_null (nrep_description v)
   \<and> rep_frequencyData (snd (createReport now st v)) = json_or_null (nrep_frequencyData v)
   \<and> rep_locationData (snd (createReport now st v)) = json_or_null (nrep_locationData v)
   \<and> rep_deviceData (snd (createReport now st v)) = json_or_null (nrep_deviceData v)
   \<and> rep_mlClassification (snd (createReport now st v)) = json_or_null (nrep_mlClassification v)
   \<and> rep_reportData (snd (createReport now st v)) = json_or_null (nrep_reportData v)
   \<and> rep_id (snd (createReport now st v)) = reportIdCounter st
   \<and> rep_createdAt (snd (createReport now st v)) = now
   \<and> rep_timestamp (snd (createReport now st v)) = defined_or (nrep_timestamp v) now
   \<and> POST_blocked_frequencies fsch now b' st req
       = (fst (createBlockedFrequency now st f),
          respond 201 (P_frequency (snd (createBlockedFrequency now st f))))
   \<and> getBlockedFrequency (fst (createBlockedFrequency now st f))
          (bf_id (snd (createBlockedFrequency now st f)))
       = Some (snd (createBlockedFrequency now st f))
   \<and> bf_userId (snd (createBlockedFrequency now st f)) = nbf_userId f
   \<and> bf_frequency (snd (createBlockedFrequency now st f)) = nbf_frequency f
   \<and> bf_bandwidth (snd (createBlockedFrequency now st f)) = nbf_bandwidth f
   \<and> bf_name (snd (createBlockedFrequency now st f)) = str_or_null (nbf_name f)
   \<and> bf_description (snd (createBlockedFrequency now st f)) = str_or_null (nbf_description f)
   \<and> bf_isCustom (snd (createBlockedFrequency now st f)) = bool_or_false (nbf_isCustom f)
   \<and> bf_id (snd (createBlockedFrequency now st f)) = blockedFrequencyIdCounter st
   \<and> bf_createdAt (snd (createBlockedFrequency now st f)) = now
   \<and> (\<forall>s. s \<noteq> [] \<longrightarrow> str_or_null (Some s) = Some s) \<and> str_or_null None = None
   \<and> str_or_null (Some []) = None
   \<and> (\<forall>j. truthy j \<longrightarrow> json_or_null (Some j) = j) \<and> json_or_null None = JNull
   \<and> (\<forall>j. \<not> truthy j \<longrightarrow> json_or_null (Some j) = JNull)"
proof -
  have p1: "POST_reports sch now b st req
       = (fst (createReport now st v), respond 201 (P_report (snd (createReport now st v))))"
    using assms(1) by (rule post_reports_ok)
  have p2: "POST_blocked_frequencies fsch now b' st req
       = (fst (createBlockedFrequency now st f),
          respond 201 (P_frequency (snd (createBlockedFrequency now st f))))"
    using assms(2) by (rule post_blocked_frequencies_ok)
  have g: "GET_reports_id (Some (rep_id (snd (createReport now st v))))
       (fst (createReport now st v)) req'
       = (fst (createReport now st v), respond 200 (P_report (snd (createReport now st v))))"
    using createReport_lookup by (rule get_reports_found)
  show ?thesis
    using p1 p2 g createReport_lookup [of now st v] createReport_fields [of now st v]
      createBlockedFrequency_lookup [of now st f] createBlockedFrequency_fields [of now st f]
    by (simp add: str_or_null_def json_or_null_def)
qed

theorem C5_post_then_get_same_row_witness:
  "(\<lambda>b. Inr example_report) (with_userId [(''title'', JStr ''Incident'')] 999)
       = (Inr example_report :: string + NewForensicReport)
   \<and> (\<lambda>b. Inr example_frequency) (with_userId [] 999)
       = (Inr example_frequency :: string + NewBlockedFrequency)
   \<and> status (snd (POST_reports (\<lambda>b. Inr example_report) 5 [(''title'', JStr ''Incident'')]
         (newMemStorage 0) example_request)) = 201
   \<and> rep_id (snd (createReport 5 (newMemStorage 0) example_report)) = 1
   \<and> GET_reports_id (Some 1) (fst (createReport 5 (newMemStorage 0) example_report))
         example_request
       = (fst (createReport 5 (newMemStorage 0) example_report),
          respond 200 (P_report (snd (createReport 5 (newMemStorage 0) example_report))))
   \<and> getReport (fst (createReport 5 (newMemStorage 0) example_report)) 1
       = Some (snd (createReport 5 (newMemStorage 0) example_report))
   \<and> rep_description (snd (createReport 5 (newMemStorage 0) example_report))
       = Some ''tone near 3.5 kHz''
   \<and> rep_frequencyData (snd (createReport 5 (newMemStorage 0) example_report))
       = JObj [(''hz'', JNum 3500)]
   \<and> rep_timestamp (snd (createReport 5 (newMemStorage 0) example_report)) = 5
   \<and> getBlockedFrequency (fst (createBlockedFrequency 5 (newMemStorage 0) example_frequency)) 1
       = Some (snd (createBlockedFrequency 5 (newMemStorage 0) example_frequency))
   \<and> bf_name (snd (createBlockedFrequency 5 (newMemStorage 0) example_frequency)) = Some ''hum''"
proof -
  have h1: "(\<lambda>b. Inr example_report) (with_userId [(''title'', JStr ''Incident'')] 999)
       = (Inr example_report :: string + NewForensicReport)" by simp
  have h2: "(\<lambda>b. Inr example_frequency) (with_userId [] 999)
       = (Inr example_frequency :: string + NewBlockedFrequency)" by simp
  have i1: "reportIdCounter (newMemStorage 0) = 1"
    and i2: "blockedFrequencyIdCounter (newMemStorage 0) = 1"
    by (simp_all add: newMemStorage_def createUser_def emptyStorage_def Let_def)
  note t = C5_post_then_get_same_row [OF h1 h2, where now = 5 and st = "newMemStorage 0"
      and req = example_request and req' = example_request]
  have s: "status (snd (POST_reports (\<lambda>b. Inr example_report) 5 [(''title'', JStr ''Incident'')]
         (newMemStorage 0) example_request)) = 201"
    using t by (simp add: respond_def)
  have d: "rep_description (snd (createReport 5 (newMemStorage 0) example_report))
       = Some ''tone near 3.5 kHz''"
    using t by (simp add: example_report_def str_or_null_def)
  have fd: "rep_frequencyData (snd (createReport 5 (newMemStorage 0) example_report))
       = JObj [(''hz'', JNum 3500)]"
    using t by (simp add: example_report_def json_or_null_def)
  have ts: "rep_timestamp (snd (createReport 5 (newMemStorage 0) example_report)) = 5"
    using t by (simp add: example_report_def defined_or_def)
  have n: "bf_name (snd (createBlockedFrequency 5 (newMemStorage 0) example_frequency))
       = Some ''hum''"
    using t by (simp add: example_frequency_def str_or_null_def)
  have ri: "rep_id (snd (createReport 5 (newMemStorage 0) example_report)) = 1"
    using t i1 by simp
  have bi: "bf_id (snd (createBlockedFrequency 5 (newMemStorage 0) example_frequency)) = 1"
    using t i2 by simp
  from t ri have g: "GET_reports_id (Some 1) (fst (createReport 5 (newMemStorage 0) example_report))
         example_request
       = (fst (createReport 5 (newMemStorage 0) example_report),
          respond 200 (P_report (snd (createReport 5 (newMemStorage 0) example_report))))"
    by simp
  from t ri have l: "getReport (fst (createReport 5 (newMemStorage 0) example_report)) 1
       = Some (snd (createReport 5 (newMemStorage 0) example_report))" by simp
  from t bi have lb: "getBlockedFrequency
         (fst (createBlockedFrequency 5 (newMemStorage 0) example_frequency)) 1
       = Some (snd (createBlockedFrequency 5 (newMemStorage 0) example_frequency))" by simp
  show ?thesis using h1 h2 s ri g l d fd ts lb n by (intro conjI)
qed

theorem C5_blank_description_stored_as_null:
  "nrep_description example_report_blank = Some []
   \<and> status (snd (POST_reports (\<lambda>b. Inr example_report_blank) 5 [] (newMemStorage 0)
         example_request)) = 201
   \<and> map_option rep_description
        (getReport (fst (POST_reports (\<lambda>b. Inr example_report_blank) 5 [] (newMemStorage 0)
            example_request)) 1) = Some None"
  by (simp add: example_defs POST_reports_def post_reports_handler_def route_defs
        createReport_def getReport_def Let_def str_or_null_def json_or_null_def
        newMemStorage_def createUser_def emptyStorage_def)

lemmas ownership_defs = route_defs getReport_def getBlockedFrequency_def getUser_def
  getMeshDevice_def getMobileDevice_def

lemma no_403_user: "status (snd (GET_user_id idp st req)) \<noteq> 403"
  by (auto simp: GET_user_id_def get_user_handler_def ownership_defs split: option.splits)

lemma no_403_blocked_frequencies:
  "status (snd (PUT_blocked_frequencies_id sch idp b st req)) \<noteq> 403"
  "status (snd (DELETE_blocked_frequencies_id idp st req)) \<noteq> 403"
  by (auto simp: PUT_blocked_frequencies_id_def DELETE_blocked_frequencies_id_def
        put_blocked_frequency_handler_def delete_blocked_frequency_handler_def ownership_defs
        updateBlockedFrequency_def deleteBlockedFrequency_def
        split: option.splits sum.splits prod.splits bool.splits)

lemma no_403_reports:
  "status (snd (GET_reports_id idp st req)) \<noteq> 403"
  "status (snd (DELETE_reports_id idp st req)) \<noteq> 403"
  by (auto simp: GET_reports_id_def DELETE_reports_id_def get_report_handler_def
        delete_report_handler_def ownership_defs deleteReport_def
        split: option.splits prod.splits bool.splits)

lemma no_403_mesh_devices:
  "status (snd (GET_mesh_devices_id idp st req)) \<noteq> 403"
  "status (snd (PATCH_mesh_devices_id msch now idp b st req)) \<noteq> 403"
  "status (snd (DELETE_mesh_devices_id idp st req)) \<noteq> 403"
  "status (snd (POST_mesh_devices_id_refresh fl drain now idp st req)) \<noteq> 403"
  by (auto simp: GET_mesh_devices_id_def PATCH_mesh_devices_id_def DELETE_mesh_devices_id_def
        POST_mesh_devices_id_refresh_def get_mesh_device_handler_def
        patch_mesh_device_handler_def delete_mesh_device_handler_def
        refresh_mesh_device_handler_def ownership_defs updateMeshDevice_def deleteMeshDevice_def
        Let_def split: option.splits sum.splits prod.splits bool.splits)

lemma no_403_law_enforcement_reports:
  "status (snd (GET_law_enforcement_reports_id found st req)) \<noteq> 403"
  "status (snd (PUT_law_enforcement_reports_id found update b st req)) \<noteq> 403"
  by (auto simp: GET_law_enforcement_reports_id_def PUT_law_enforcement_reports_id_def
        get_law_enforcement_report_handler_def put_law_enforcement_report_handler_def
        ownership_defs Let_def split: option.splits sum.splits)

lemma no_403_mobile_devices:
  "status (snd (GET_mobile_devices_id idp st req)) \<noteq> 403"
  "status (snd (PUT_mobile_devices_id spread now idp b st req)) \<noteq> 403"
  "status (snd (DELETE_mobile_devices_id idp st req)) \<noteq> 403"
  by (auto simp: GET_mobile_devices_id_def PUT_mobile_devices_id_def DELETE_mobile_devices_id_def
        get_mobile_device_handler_def put_mobile_device_handler_def
        delete_mobile_device_handler_def ownership_defs updateMobileDevice_def
        deleteMobileDevice_def Let_def split: option.splits prod.splits bool.splits)

lemma no_403_post_location:
  "status (snd (POST_mobile_devices_id_location toISOString now idp b st req)) \<noteq> 403"
  by (auto simp: POST_mobile_devices_id_location_def post_mobile_device_location_handler_def
        ownership_defs Let_def split: option.splits)

lemma no_403_tracking:
  "status (snd (PUT_mobile_devices_id_tracking parseInt now idp b st req)) \<noteq> 403"
  by (auto simp: PUT_mobile_devices_id_tracking_def put_mobile_device_tracking_handler_def
        ownership_defs updateMobileDevice_def Let_def split: option.splits prod.splits)

lemma location_403:
  "payload (snd (GET_mobile_devices_id_location idp st req)) \<noteq> P_error ''Access denied''"
  "(status (snd (GET_mobile_devices_id_location idp st req)) = 403)
     = (\<exists>i d. idp = Some i \<and> mobileDevices st i = Some d \<and> \<not> truthy (mob_locationSharing d))"
  by (auto simp: GET_mobile_devices_id_location_def get_mobile_device_location_handler_def
        ownership_defs split: option.splits)

text \<open>
  C6. Behind isAuthenticated or forceEmergencyAuth no ownership check of routes.ts ever
  answers. Of the seventeen handlers that have one, sixteen return no 403 for any store,
  request, id and body: GET /api/user/:id, PUT and DELETE /api/blocked-frequencies/:id,
  GET and DELETE /api/reports/:id, GET, PATCH and DELETE /api/mesh-devices/:id, POST
  /api/mesh-devices/:id/refresh, GET and PUT /api/law-enforcement-reports/:id (whatever
  the storage returns or throws), GET, PUT and DELETE /api/mobile-devices/:id, POST
  /api/mobile-devices/:id/location and PUT /api/mobile-devices/:id/tracking. The
  seventeenth, GET /api/mobile-devices/:id/location, never answers 'Access denied', but
  it does answer 403, exactly when the device exists and its locationSharing is falsy.
\<close>

theorem C6_ownership_403_unreachable:
  "status (snd (GET_user_id idp st req)) \<noteq> 403
   \<and> status (snd (PUT_blocked_frequencies_id sch idp b st req)) \<noteq> 403
   \<and> status (snd (DELETE_blocked_frequencies_id idp st req)) \<noteq> 403
   \<and> status (snd (GET_reports_id idp st req)) \<noteq> 403
   \<and> status (snd (DELETE_reports_id idp st req)) \<noteq> 403
   \<and> status (snd (GET_mesh_devices_id idp st req)) \<noteq> 403
   \<and> status (snd (PATCH_mesh_devices_id msch now idp b st req)) \<noteq> 403
   \<and> status (snd (DELETE_mesh_devices_id idp st req)) \<noteq> 403
   \<and> status (snd (POST_mesh_devices_id_refresh fl drain now idp st req)) \<noteq> 403
   \<and> status (snd (GET_law_enforcement_reports_id found st req)) \<noteq> 403
   \<and> status (snd (PUT_law_enforcement_reports_id found update b st req)) \<noteq> 403
   \<and> status (snd (GET_mobile_devices_id idp st req)) \<noteq> 403
   \<and> status (snd (PUT_mobile_devices_id spread now idp b st req)) \<noteq> 403
   \<and> status (snd (DELETE_mobile_devices_id idp st req)) \<noteq> 403
   \<and> status (snd (POST_mobile_devices_id_location toISOString now idp b st req)) \<noteq> 403
   \<and> status (snd (PUT_mobile_devices_id_tracking parseInt now idp b st req)) \<noteq> 403
   \<and> payload (snd (GET_mobile_devices_id_location idp st req)) \<noteq> P_error ''Access denied''
   \<and> (status (snd (GET_mobile_devices_id_location idp st req)) = 403)
      = (\<exists>i d. idp = Some i \<and> mobileDevices st i = Some d \<and> \<not> truthy (mob_locationSharing d))"
  using no_403_user no_403_blocked_frequencies no_403_reports no_403_mesh_devices
    no_403_law_enforcement_reports no_403_mobile_devices no_403_post_location no_403_tracking
    location_403
  by (intro conjI) blast+

text \<open>
  The same routes on stored rows that belong to another user (the demo rows are owned by
  user 1, the request is served as user 999): each answers, none with 403.
\<close>

theorem C6_ownership_403_unreachable_witness:
  "mob_userId (snd (createMobileDevice 5 (newMemStorage 0) example_foreign_device)) = 1
   \<and> eu_id defaultUser = 999
   \<and> status (snd (GET_mobile_devices_id (Some 1)
        (fst (createMobileDevice 5 (newMemStorage 0) example_foreign_device)) example_request))
       = 200
   \<and> status (snd (DELETE_mobile_devices_id (Some 1)
        (fst (createMobileDevice 5 (newMemStorage 0) example_foreign_device)) example_request))
       = 204
   \<and> status (snd (GET_law_enforcement_reports_id
        (Inr (Some \<lparr> ler_id = 1, ler_userId = 1, ler_columns = JNull \<rparr>))
        (newMemStorage 0) example_request)) = 200
   \<and> status (snd (GET_law_enforcement_reports_id MemStorage_getLawEnforcementReport
        (newMemStorage 0) example_request)) = 500
   \<and> status (snd (GET_mobile_devices_id_location (Some 1)
        (fst (createMobileDevice 5 (newMemStorage 0) example_foreign_device)) example_request))
       = 200"
proof -
  let ?st = "fst (createMobileDevice 5 (newMemStorage 0) example_foreign_device)"
  note t = C6_ownership_403_unreachable [where idp = "Some 1" and st = ?st
      and req = example_request]
  have o: "mob_userId (snd (createMobileDevice 5 (newMemStorage 0) example_foreign_device)) = 1"
    by (simp add: createMobileDevice_def Let_def example_foreign_device_def example_device_def)
  have u: "eu_id defaultUser = 999" by (simp add: defaultUser_def)
  have g: "mobileDevices ?st 1 = Some (snd (createMobileDevice 5 (newMemStorage 0)
      example_foreign_device))"
    by (simp add: createMobileDevice_def Let_def newMemStorage_def createUser_def
          emptyStorage_def)
  have sh: "truthy (mob_locationSharing (snd (createMobileDevice 5 (newMemStorage 0)
      example_foreign_device)))"
    by (simp add: createMobileDevice_def Let_def example_foreign_device_def example_device_def
          defined_or_def)
  have a: "status (snd (GET_mobile_devices_id (Some 1) ?st example_request)) = 200"
    using g by (simp add: GET_mobile_devices_id_def get_mobile_device_handler_def
          ownership_defs)
  have d: "status (snd (DELETE_mobile_devices_id (Some 1) ?st example_request)) = 204"
    using g by (simp add: DELETE_mobile_devices_id_def delete_mobile_device_handler_def
          ownership_defs deleteMobileDevice_def)
  have l: "status (snd (GET_law_enforcement_reports_id
        (Inr (Some \<lparr> ler_id = 1, ler_userId = 1, ler_columns = JNull \<rparr>))
        (newMemStorage 0) example_request)) = 200"
    by (simp add: GET_law_enforcement_reports_id_def get_law_enforcement_report_handler_def
          ownership_defs)
  have m: "status (snd (GET_law_enforcement_reports_id MemStorage_getLawEnforcementReport
        (newMemStorage 0) example_request)) = 500"
    by (simp add: GET_law_enforcement_reports_id_def get_law_enforcement_report_handler_def
          MemStorage_getLawEnforcementReport_def ownership_defs)
  from t g sh have "status (snd (GET_mobile_devices_id_location (Some 1) ?st example_request))
      \<noteq> 403" by simp
  moreover have "status (snd (GET_mobile_devices_id_location (Some 1) ?st example_request))
      \<in> {200, 403}"
    using g by (simp add: GET_mobile_devices_id_location_def
          get_mobile_device_location_handler_def ownership_defs)
  ultimately have s: "status (snd (GET_mobile_devices_id_location (Some 1) ?st
      example_request)) = 200" by simp
  show ?thesis using o u a d l m s by (intro conjI)
qed

text \<open>
  Where C6 as stated fails: a request does receive a 403. The device that
  createMobileDevice makes of a body without locationSharing has the flag false, one made
  of a body whose locationSharing is null keeps the null; for either GET
  /api/mobile-devices/:id/location answers 403 to the admin user that isAuthenticated
  installs.
\<close>

theorem C6_location_sharing_403:
  "status (snd (GET_mobile_devices_id_location (Some 1)
      (fst (createMobileDevice 5 (newMemStorage 0) example_device)) example_request)) = 403
   \<and> mob_locationSharing (snd (createMobileDevice 5 (newMemStorage 0)
        (example_device\<lparr>nmob_locationSharing := Some JNull\<rparr>))) = JNull
   \<and> status (snd (GET_mobile_devices_id_location (Some 1)
      (fst (createMobileDevice 5 (newMemStorage 0)
         (example_device\<lparr>nmob_locationSharing := Some JNull\<rparr>))) example_request)) = 403
   \<and> req_user (fst (isAuthenticated example_request)) = Some defaultUser
   \<and> eu_role defaultUser = ''admin''"
  by (simp add: example_defs GET_mobile_devices_id_location_def route_defs
        get_mobile_device_location_handler_def getMobileDevice_def createMobileDevice_def
        Let_def defined_or_def newMemStorage_def createUser_def emptyStorage_def)


subsection \<open>Double arithmetic\<close>

lemma fl_mono: "double_rounding fl \<Longrightarrow> x \<le> y \<Longrightarrow> fl x \<le> fl y"
  by (simp add: double_rounding_def)

lemma fl_int: "double_rounding fl \<Longrightarrow> \<bar>k\<bar> \<le> 2 ^ 53 \<Longrightarrow> fl (of_int k) = of_int k"
  by (simp add: double_rounding_def)

lemma fl_half: "double_rounding fl \<Longrightarrow> \<bar>k\<bar> \<le> 2 ^ 53 \<Longrightarrow> fl (of_int k / 2) = of_int k / 2"
  by (simp add: double_rounding_def)

lemma fl_round: "double_rounding fl \<Longrightarrow> fl (Math_round (fl x)) = Math_round (fl x)"
  by (simp add: double_rounding_def)

lemma double_rounding_exact: "double_rounding (\<lambda>x. x)"
  by (simp add: double_rounding_def)

lemma max_double_large: "2 ^ 60 \<le> max_double"
  by (simp add: max_double_def)

lemma max_double_int: "max_double = of_int (2 ^ 1024 - 2 ^ 971)"
  by (simp add: max_double_def)

lemma Math_round_mono: "x \<le> y \<Longrightarrow> Math_round x \<le> Math_round y"
  by (simp add: Math_round_def floor_mono)

lemma Math_round_int: "Math_round (of_int k) = of_int k"
proof -
  have "\<lfloor>(of_int k :: real) + 1 / 2\<rfloor> = k" by linarith
  then show ?thesis by (simp add: Math_round_def)
qed

lemma double_of_not_NaN [simp]: "double_of fl x \<noteq> NaN"
  by (simp add: double_of_def Let_def)

lemma double_of_exact:
  "fl x = x \<Longrightarrow> \<bar>x\<bar> \<le> max_double \<Longrightarrow> double_of fl x = Finite x"
  by (auto simp: double_of_def Let_def abs_le_iff)

lemma int_in_range:
  assumes "\<bar>k\<bar> \<le> 2 ^ 53"
  shows "\<bar>real_of_int k\<bar> \<le> max_double" and "\<bar>real_of_int k / 2\<bar> \<le> max_double"
proof -
  from assms have "real_of_int \<bar>k\<bar> \<le> real_of_int (2 ^ 53)" by (simp only: of_int_le_iff)
  then have k: "\<bar>real_of_int k\<bar> \<le> 2 ^ 53" by simp
  have "(2 :: real) ^ 53 \<le> 2 ^ 60" by simp
  with k max_double_large show "\<bar>real_of_int k\<bar> \<le> max_double" by linarith
  then show "\<bar>real_of_int k / 2\<bar> \<le> max_double" by simp
qed

lemma double_of_mono:
  "double_rounding fl \<Longrightarrow> x \<le> y \<Longrightarrow> num_le (double_of fl x) (double_of fl y)"
  using fl_mono [of fl x y] by (auto simp: double_of_def Let_def)

lemma double_of_ge:
  assumes "double_rounding fl" and "fl r = r" and "- max_double \<le> r" and "r \<le> x"
  shows "num_le (Finite r) (double_of fl x)"
  using fl_mono [OF assms(1) assms(4)] assms(2,3) by (auto simp: double_of_def Let_def)

lemma num_add_ge:
  assumes "double_rounding fl" and "num_le (Finite r) v" and "fl (r + k) = r + k"
    and "- max_double \<le> r + k"
  shows "num_le (Finite (r + k)) (num_add fl v (Finite k))"
    and "num_le (Finite (r + k)) (num_add fl (Finite k) v)"
proof -
  show "num_le (Finite (r + k)) (num_add fl v (Finite k))"
  proof (cases v)
    case (Finite y)
    with assms(2) have "r + k \<le> y + k" by simp
    from double_of_ge [OF assms(1) assms(3) assms(4) this] Finite show ?thesis by simp
  qed (use assms(2) in simp_all)
  show "num_le (Finite (r + k)) (num_add fl (Finite k) v)"
  proof (cases v)
    case (Finite y)
    with assms(2) have "r + k \<le> k + y" by simp
    from double_of_ge [OF assms(1) assms(3) assms(4) this] Finite show ?thesis by simp
  qed (use assms(2) in simp_all)
qed

lemma Math_min_ge:
  "num_le (Finite r) v \<Longrightarrow> r \<le> c \<Longrightarrow> num_le (Finite r) (Math_min (Finite c) v)"
  by (cases v) simp_all

lemma Math_min_le: "v \<noteq> NaN \<Longrightarrow> num_le (Math_min (Finite c) v) (Finite c)"
  by (cases v) simp_all

lemma Math_min_mono:
  "num_le a b \<Longrightarrow> num_le (Math_min (Finite c) a) (Math_min (Finite c) b)"
  by (cases a; cases b) (simp_all add: min_le_iff_disj)

lemma Math_round_number_le:
  "num_le v (Finite 100) \<Longrightarrow> num_le (Math_round_number v) (Finite 100)"
proof (cases v)
  case (Finite y)
  assume "num_le v (Finite 100)"
  with Finite have "y \<le> 100" by simp
  from Math_round_mono [OF this] Math_round_int [of 100] Finite show ?thesis by simp
qed simp_all

lemma Math_round_number_ge:
  "num_le (Finite (- 1 / 2)) v \<Longrightarrow> num_le (Finite 0) (Math_round_number v)"
proof (cases v)
  case (Finite y)
  assume "num_le (Finite (- 1 / 2)) v"
  with Finite have "- 1 / 2 \<le> y" by simp
  then have "0 \<le> \<lfloor>y + 1 / 2\<rfloor>" by simp
  with Finite show ?thesis by (simp add: Math_round_def)
qed simp_all

lemma num_mul_not_NaN:
  "x \<noteq> NaN \<Longrightarrow> 0 < c \<Longrightarrow> num_mul fl x (Finite c) \<noteq> NaN"
  by (cases x) simp_all

lemma num_add_not_NaN:
  "x \<noteq> NaN \<Longrightarrow> num_add fl x (Finite c) \<noteq> NaN" "x \<noteq> NaN \<Longrightarrow> num_add fl (Finite c) x \<noteq> NaN"
  by (cases x; simp)+

subsection \<open>The scores\<close>

lemma score_not_NaN:
  assumes "x \<noteq> NaN"
  shows "num_add fl (num_add fl (Finite 50) (num_mul fl x (Finite (1 / 2))))
           (Finite (if ai then 15 else 0)) \<noteq> NaN"
proof -
  from assms have "num_mul fl x (Finite (1 / 2)) \<noteq> NaN" by (rule num_mul_not_NaN) simp
  then have "num_add fl (Finite 50) (num_mul fl x (Finite (1 / 2))) \<noteq> NaN"
    by (rule num_add_not_NaN(2))
  then show ?thesis by (rule num_add_not_NaN(1))
qed

lemma score_le_100:
  "x \<noteq> NaN \<Longrightarrow> num_le (effectivenessScore_of fl x ai) (Finite 100)"
  unfolding effectivenessScore_of_def
  by (rule Math_round_number_le, rule Math_min_le, rule score_not_NaN)

lemma score_ge_0:
  assumes dr: "double_rounding fl" and i: "- 101 \<le> i"
  shows "num_le (Finite 0) (effectivenessScore_of fl (Finite i) ai)"
proof -
  have m: "- max_double \<le> - 101 / 2" "- max_double \<le> - 1 / 2" "- max_double \<le> 29 / 2"
    using max_double_large by simp_all
  have h1: "fl (- 101 / 2) = - 101 / 2" using fl_half [OF dr, of "- 101"] by simp
  have h2: "fl (- 1 / 2) = - 1 / 2" using fl_half [OF dr, of "- 1"] by simp
  have h3: "fl (29 / 2) = 29 / 2" using fl_half [OF dr, of 29] by simp
  from i have "- 101 / 2 \<le> i * (1 / 2)" by simp
  from double_of_ge [OF dr h1 m(1) this]
  have a: "num_le (Finite (- 101 / 2)) (num_mul fl (Finite i) (Finite (1 / 2)))" by simp
  have "num_le (Finite (- 101 / 2 + 50))
          (num_add fl (Finite 50) (num_mul fl (Finite i) (Finite (1 / 2))))"
    by (rule num_add_ge(2) [OF dr a]) (use h2 m in simp_all)
  then have b: "num_le (Finite (- 1 / 2))
          (num_add fl (Finite 50) (num_mul fl (Finite i) (Finite (1 / 2))))" by simp
  have c: "num_le (Finite (- 1 / 2))
          (num_add fl (num_add fl (Finite 50) (num_mul fl (Finite i) (Finite (1 / 2))))
             (Finite (if ai then 15 else 0)))"
  proof (cases ai)
    case True
    have "num_le (Finite (- 1 / 2 + 15))
          (num_add fl (num_add fl (Finite 50) (num_mul fl (Finite i) (Finite (1 / 2))))
             (Finite 15))"
      by (rule num_add_ge(1) [OF dr b]) (use h3 m in simp_all)
    then have "num_le (Finite (- 1 / 2))
          (num_add fl (num_add fl (Finite 50) (num_mul fl (Finite i) (Finite (1 / 2))))
             (Finite 15))"
      by (cases "num_add fl (num_add fl (Finite 50) (num_mul fl (Finite i) (Finite (1 / 2))))
             (Finite 15)") simp_all
    with True show ?thesis by simp
  next
    case False
    have "num_le (Finite (- 1 / 2 + 0))
          (num_add fl (num_add fl (Finite 50) (num_mul fl (Finite i) (Finite (1 / 2))))
             (Finite 0))"
      by (rule num_add_ge(1) [OF dr b]) (use h2 m in simp_all)
    with False show ?thesis by simp
  qed
  show ?thesis
    unfolding effectivenessScore_of_def
    by (rule Math_round_number_ge, rule Math_min_ge, rule c) simp
qed

text \<open>A score that is a number is \<open>-\<infinity>\<close> or a double that is at most 100.\<close>

lemma score_shape:
  assumes dr: "double_rounding fl" and x: "x \<noteq> NaN"
  shows "effectivenessScore_of fl x ai = NegInfinity
    \<or> (\<exists>s. effectivenessScore_of fl x ai = Finite s \<and> s \<le> 100 \<and> fl s = s \<and> - max_double \<le> s)"
proof -
  let ?b = "num_add fl (Finite 50) (num_mul fl x (Finite (1 / 2)))"
  let ?k = "if ai then 15 else 0 :: real"
  let ?c = "num_add fl ?b (Finite ?k)"
  have h100: "fl 100 = 100" using fl_int [OF dr, of 100] by simp
  have r100: "Math_round 100 = 100" using Math_round_int [of 100] by simp
  have nan: "?c \<noteq> NaN" using x by (rule score_not_NaN)
  have shape: "?c = NegInfinity \<or> ?c = PosInfinity
      \<or> (\<exists>w. ?c = Finite (fl w) \<and> - max_double \<le> fl w)"
  proof (cases ?b)
    case (Finite y)
    then have "?c = double_of fl (y + ?k)" by simp
    then show ?thesis by (auto simp: double_of_def Let_def)
  qed (use nan in simp_all)
  then consider "?c = NegInfinity" | "?c = PosInfinity"
    | w where "?c = Finite (fl w)" "- max_double \<le> fl w" by blast
  then show ?thesis
  proof cases
    case 1
    then show ?thesis by (simp add: effectivenessScore_of_def)
  next
    case 2
    then have "effectivenessScore_of fl x ai = Finite 100"
      by (simp add: effectivenessScore_of_def r100)
    with h100 max_double_large show ?thesis by simp
  next
    case 3
    show ?thesis
    proof (cases "fl w \<le> 100")
      case True
      with 3 have e: "effectivenessScore_of fl x ai = Finite (Math_round (fl w))"
        by (simp add: effectivenessScore_of_def min_def)
      from Math_round_mono [OF True] r100 have le: "Math_round (fl w) \<le> 100" by simp
      from Math_round_mono [OF 3(2)] Math_round_int [of "- (2 ^ 1024 - 2 ^ 971)"]
      have ge: "- max_double \<le> Math_round (fl w)" by (simp add: max_double_def)
      from e le ge fl_round [OF dr, of w] show ?thesis by simp
    next
      case False
      with 3 have "effectivenessScore_of fl x ai = Finite 100"
        by (simp add: effectivenessScore_of_def min_def r100)
      with h100 max_double_large show ?thesis by simp
    qed
  qed
qed

text \<open>The boost is a number from 0 to 20.\<close>

lemma boost_shape:
  assumes dr: "double_rounding fl"
  shows "\<exists>b. meshEffectivenessBoost_of fl tn deviceIds = Finite b \<and> 0 \<le> b \<and> b \<le> 20"
proof (cases deviceIds)
  case None
  then show ?thesis by (simp add: meshEffectivenessBoost_of_def)
next
  case (Some v)
  let ?len = "to_number tn (length_of v)"
  show ?thesis
  proof (cases "truthy v \<and> num_gt ?len (Finite 1)")
    case False
    with Some show ?thesis by (auto simp: meshEffectivenessBoost_of_def)
  next
    case True
    have h2: "fl 2 = 2" using fl_int [OF dr, of 2] by simp
    have "\<exists>b. Math_min (Finite 20) (num_mul fl ?len (Finite 2)) = Finite b \<and> 0 \<le> b \<and> b \<le> 20"
    proof (cases ?len)
      case (Finite l)
      with True have "2 \<le> l * 2" by simp
      from double_of_ge [OF dr h2 _ this] max_double_large
      have "num_le (Finite 2) (double_of fl (l * 2))" by simp
      then show ?thesis using Finite by (cases "double_of fl (l * 2)") auto
    qed (use True in simp_all)
    with Some True show ?thesis by (simp add: meshEffectivenessBoost_of_def)
  qed
qed

lemma boost_array:
  assumes dr: "double_rounding fl"
  shows "meshEffectivenessBoost_of fl tn (Some (JArr ids))
     = Finite (if length ids > 1 then min 20 (2 * real (length ids)) else 0)"
proof (cases "length ids > 1")
  case False
  then show ?thesis by (simp add: meshEffectivenessBoost_of_def to_number_def length_of_def)
next
  case True
  let ?n = "length ids"
  have h20: "fl 20 = 20" using fl_int [OF dr, of 20] by simp
  have "Math_min (Finite 20) (double_of fl (real ?n * 2)) = Finite (min 20 (2 * real ?n))"
  proof (cases "?n < 10")
    case True
    then have "\<bar>2 * int ?n\<bar> \<le> 2 ^ 53" by simp
    from fl_int [OF dr this] have "fl (real ?n * 2) = real ?n * 2" by (simp add: mult.commute)
    moreover from True max_double_large have "\<bar>real ?n * 2\<bar> \<le> max_double" by simp
    ultimately have "double_of fl (real ?n * 2) = Finite (real ?n * 2)"
      by (rule double_of_exact [of fl "real ?n * 2"])
    then show ?thesis by (simp add: mult.commute)
  next
    case False
    then have "20 \<le> real ?n * 2" by simp
    from double_of_ge [OF dr h20 _ this] max_double_large
    have "num_le (Finite 20) (double_of fl (real ?n * 2))" by simp
    with False show ?thesis by (cases "double_of fl (real ?n * 2)") (simp_all add: min_def)
  qed
  with True show ?thesis by (simp add: meshEffectivenessBoost_of_def to_number_def length_of_def)
qed

lemma mesh_ge_single:
  assumes dr: "double_rounding fl" and x: "x \<noteq> NaN"
  shows "num_le (effectivenessScore_of fl x ai) (mesh_score fl tn x ai deviceIds)"
proof -
  from boost_shape [OF dr, of tn deviceIds] obtain b
    where b: "meshEffectivenessBoost_of fl tn deviceIds = Finite b" "0 \<le> b" by blast
  from score_shape [OF dr x, of ai] show ?thesis
  proof
    assume "effectivenessScore_of fl x ai = NegInfinity"
    with b show ?thesis by (simp add: mesh_score_def meshEffectivenessScore_of_def)
  next
    assume "\<exists>s. effectivenessScore_of fl x ai = Finite s \<and> s \<le> 100 \<and> fl s = s \<and> - max_double \<le> s"
    then obtain s where s: "effectivenessScore_of fl x ai = Finite s" "s \<le> 100" "fl s = s"
      "- max_double \<le> s" by blast
    from b(2) have "s \<le> s + b" by simp
    from double_of_ge [OF dr s(3) s(4) this]
    have "num_le (Finite s) (double_of fl (s + b))" .
    from Math_min_ge [OF this s(2)] s b show ?thesis
      by (simp add: mesh_score_def meshEffectivenessScore_of_def)
  qed
qed

lemma mesh_le_100:
  assumes dr: "double_rounding fl" and x: "x \<noteq> NaN"
  shows "num_le (mesh_score fl tn x ai deviceIds) (Finite 100)"
proof -
  from boost_shape [OF dr, of tn deviceIds] obtain b
    where b: "meshEffectivenessBoost_of fl tn deviceIds = Finite b" by blast
  from score_shape [OF dr x, of ai]
  have "num_add fl (effectivenessScore_of fl x ai) (Finite b) \<noteq> NaN" by auto
  from Math_min_le [OF this] b show ?thesis
    by (simp add: mesh_score_def meshEffectivenessScore_of_def)
qed

lemma mesh_ge_0:
  assumes dr: "double_rounding fl" and i: "- 101 \<le> i"
  shows "num_le (Finite 0) (mesh_score fl tn (Finite i) ai deviceIds)"
proof -
  from score_ge_0 [OF dr i, of ai] mesh_ge_single [OF dr, of "Finite i" ai tn deviceIds]
  show ?thesis
    by (cases "effectivenessScore_of fl (Finite i) ai";
        cases "mesh_score fl tn (Finite i) ai deviceIds") simp_all
qed

lemma mesh_mono:
  assumes dr: "double_rounding fl" and n: "length ids \<le> length ids'"
  shows "num_le (mesh_score fl tn x ai (Some (JArr ids))) (mesh_score fl tn x ai (Some (JArr ids')))
    \<or> x = NaN"
proof (cases "x = NaN")
  case False
  let ?b = "\<lambda>ids :: json list. if length ids > 1 then min 20 (2 * real (length ids)) else 0"
  from n have le: "?b ids \<le> ?b ids'" by (auto simp: min_def)
  from score_shape [OF dr False, of ai]
  have "num_le (num_add fl (effectivenessScore_of fl x ai) (Finite (?b ids)))
          (num_add fl (effectivenessScore_of fl x ai) (Finite (?b ids')))"
  proof
    assume "effectivenessScore_of fl x ai = NegInfinity"
    then show ?thesis by simp
  next
    assume "\<exists>s. effectivenessScore_of fl x ai = Finite s \<and> s \<le> 100 \<and> fl s = s \<and> - max_double \<le> s"
    then obtain s where s: "effectivenessScore_of fl x ai = Finite s" by blast
    from le have "s + ?b ids \<le> s + ?b ids'" by simp
    from double_of_mono [OF dr this] s show ?thesis by simp
  qed
  from Math_min_mono [OF this] show ?thesis
    by (simp add: mesh_score_def meshEffectivenessScore_of_def boost_array [OF dr])
qed simp

text \<open>For an intensity that is an integer, the arithmetic is exact.\<close>

lemma score_of_integer:
  assumes dr: "double_rounding fl" and k: "\<bar>k\<bar> \<le> 2 ^ 52"
  shows "effectivenessScore_of fl (Finite (of_int k)) ai
     = Finite (Math_round (min 100 (50 + of_int k / 2 + (if ai then 15 else 0))))"
proof -
  let ?j = "if ai then 30 else 0 :: int"
  from k have b: "\<bar>k\<bar> \<le> 2 ^ 53" "\<bar>100 + k\<bar> \<le> 2 ^ 53" "\<bar>100 + k + ?j\<bar> \<le> 2 ^ 53" by auto
  note m = int_in_range(2) [OF b(1)] int_in_range(2) [OF b(2)] int_in_range(2) [OF b(3)]
  have a: "num_mul fl (Finite (of_int k)) (Finite (1 / 2)) = Finite (of_int k / 2)"
    using double_of_exact [of fl "of_int k / 2", OF fl_half [OF dr b(1)] m(1)] by simp
  have e1: "50 + real_of_int k / 2 = real_of_int (100 + k) / 2" by simp
  have b': "num_add fl (Finite 50) (Finite (of_int k / 2)) = Finite (of_int (100 + k) / 2)"
    using double_of_exact [of fl "of_int (100 + k) / 2", OF fl_half [OF dr b(2)] m(2)]
    unfolding num_add.simps e1 .
  have e2: "real_of_int (100 + k) / 2 + (if ai then 15 else 0) = real_of_int (100 + k + ?j) / 2"
    by simp
  have c: "num_add fl (Finite (of_int (100 + k) / 2)) (Finite (if ai then 15 else 0))
      = Finite (of_int (100 + k + ?j) / 2)"
    using double_of_exact [of fl "of_int (100 + k + ?j) / 2", OF fl_half [OF dr b(3)] m(3)]
    unfolding num_add.simps e2 .
  have e3: "real_of_int (100 + k + ?j) / 2 = 50 + of_int k / 2 + (if ai then 15 else 0)"
    by simp
  show ?thesis
    unfolding effectivenessScore_of_def a b' c e3 by simp
qed

lemma mesh_of_integers:
  assumes dr: "double_rounding fl" and z: "\<bar>z\<bar> \<le> 2 ^ 52" and j: "\<bar>j\<bar> \<le> 2 ^ 52"
  shows "meshEffectivenessScore_of fl (Finite (of_int z)) (Finite (of_int j))
     = Finite (min 100 (of_int z + of_int j))"
proof -
  from z j have b: "\<bar>z + j\<bar> \<le> 2 ^ 53" by simp
  from fl_int [OF dr this] have f: "fl (real_of_int z + real_of_int j) = real_of_int z + real_of_int j"
    by simp
  from int_in_range(1) [OF b] have "\<bar>real_of_int z + real_of_int j\<bar> \<le> max_double" by simp
  from double_of_exact [of fl "real_of_int z + real_of_int j", OF f this] show ?thesis
    by (simp add: meshEffectivenessScore_of_def)
qed

subsection \<open>The WebSocket relay\<close>

lemmas ws_example_defs = example_ws_state_def example_frequency_detected_def
  example_frequency_unprintable_def example_neutralize_def example_neutralize_default_def
  example_neutralize_no_frequency_def example_mesh_data_def example_mesh_neutralize_def
  example_mesh_neutralize_absent_def example_mesh_neutralize_no_data_def
  on_connection_def initial_ws_state_def send_def Let_def

lemmas field_defs = get_def get_opt_def or_else_def truthy_opt_def throws_def length_of_def

lemma touch_fields [simp]:
  "sent (touch now ws l st) = sent st" "clients (touch now ws l st) = clients st"
  "ready (touch now ws l st) = ready st" "timers (touch now ws l st) = timers st"
  by (simp_all add: touch_def)

lemma open_clients_touch [simp]: "open_clients (touch now ws l st) = open_clients st"
  by (simp add: open_clients_def)

lemma new_sends_broadcast:
  "sent st' = sent st \<Longrightarrow> open_clients st' = open_clients st \<Longrightarrow>
   new_sends st (broadcastMessage m st') = map (\<lambda>c. (c, m)) (open_clients st)"
  by (simp add: new_sends_def broadcastMessage_def open_clients_def)

lemma on_message_dispatch:
  "get data ''type'' = Some t \<Longrightarrow>
   on_message fl tn now ws (Some data) st
     = dispatch fl tn now ws data (touch now ws (get data ''location'') st)"
  by (cases data) (simp_all add: on_message_def get_def)

lemma on_message_frequency_detected:
  assumes "get data ''type'' = Some (JStr ''frequency_detected'')"
    and "\<not> throws (get data ''frequency'')" and "\<not> throws (get data ''confidence'')"
  shows "on_message fl tn now ws (Some data) st =
     broadcastMessage (M_frequency_alert (get data ''frequency'') (get data ''confidence'') now)
       (touch now ws (get data ''location'') st)"
  by (simp add: on_message_dispatch [OF assms(1)] dispatch_def assms)

lemma example_open_clients: "open_clients example_ws_state = [1, 2]"
  by (simp add: open_clients_def ws_example_defs)

lemma example_sent: "length (sent example_ws_state) = 4"
  by (simp add: ws_example_defs)

text \<open>
  C2. A 'frequency_detected' message whose frequency and confidence convert to strings
  makes the handler send one 'frequency_alert' to every socket of wss.clients that is
  open, in order, and to no other: the sender, when open, is among the receivers.
  MeshController's broadcastThreat, by contrast, sends its THREAT_ALERT to the open
  sockets of all registered devices other than the source device.
\<close>

theorem C2_frequency_alert_reaches_all_open_clients:
  assumes "get data ''type'' = Some (JStr ''frequency_detected'')"
    and "\<not> throws (get data ''frequency'')" and "\<not> throws (get data ''confidence'')"
  shows "new_sends st (on_message fl tn now ws (Some data) st)
      = map (\<lambda>c. (c, M_frequency_alert (get data ''frequency'') (get data ''confidence'') now))
          (open_clients st)
    \<and> (\<forall>c \<in> set (clients st). ready st c = OPEN \<longrightarrow>
          (c, M_frequency_alert (get data ''frequency'') (get data ''confidence'') now)
            \<in> set (new_sends st (on_message fl tn now ws (Some data) st)))
    \<and> (ws \<in> set (clients st) \<and> ready st ws = OPEN \<longrightarrow>
          (ws, M_frequency_alert (get data ''frequency'') (get data ''confidence'') now)
            \<in> set (new_sends st (on_message fl tn now ws (Some data) st)))
    \<and> set (broadcastThreat devices rd sourceId threat)
        = {(s, M_threat_alert sourceId threat) | d s.
             (d, s) \<in> set devices \<and> d \<noteq> sourceId \<and> rd s = OPEN}"
  unfolding on_message_frequency_detected [OF assms]
  by (auto simp: broadcastMessage_def broadcastThreat_def new_sends_def open_clients_def)

theorem C2_frequency_alert_reaches_all_open_clients_witness:
  "get example_frequency_detected ''type'' = Some (JStr ''frequency_detected'')
   \<and> \<not> throws (get example_frequency_detected ''frequency'')
   \<and> \<not> throws (get example_frequency_detected ''confidence'')
   \<and> 1 \<in> set (clients example_ws_state) \<and> ready example_ws_state 1 = OPEN
   \<and> new_sends example_ws_state
        (on_message (\<lambda>x. x) (\<lambda>v. NaN) 5 1 (Some example_frequency_detected) example_ws_state)
      = [(1, M_frequency_alert (Some (JNum 3500)) (Some (JNum 90)) 5),
         (2, M_frequency_alert (Some (JNum 3500)) (Some (JNum 90)) 5)]
   \<and> (1, M_frequency_alert (Some (JNum 3500)) (Some (JNum 90)) 5)
        \<in> set (new_sends example_ws_state
              (on_message (\<lambda>x. x) (\<lambda>v. NaN) 5 1 (Some example_frequency_detected)
                 example_ws_state))
   \<and> set (broadcastThreat [(''a'', 1), (''b'', 2), (''c'', 3)] (ready example_ws_state) ''a''
             (Some (JStr ''tone'')))
      = {(2, M_threat_alert ''a'' (Some (JStr ''tone'')))}"
proof -
  have h: "get example_frequency_detected ''type'' = Some (JStr ''frequency_detected'')"
    by (simp add: get_def example_frequency_detected_def)
  have g: "get example_frequency_detected ''frequency'' = Some (JNum 3500)"
    "get example_frequency_detected ''confidence'' = Some (JNum 90)"
    by (simp_all add: get_def example_frequency_detected_def)
  have p: "\<not> throws (get example_frequency_detected ''frequency'')"
    "\<not> throws (get example_frequency_detected ''confidence'')"
    by (simp_all add: g throws_def)
  have m: "1 \<in> set (clients example_ws_state)" "ready example_ws_state 1 = OPEN"
    by (simp_all add: ws_example_defs)
  note t = C2_frequency_alert_reaches_all_open_clients [OF h p, where st = example_ws_state
      and fl = "\<lambda>x. x" and tn = "\<lambda>v. NaN" and now = 5 and ws = 1]
  from t have a: "new_sends example_ws_state
        (on_message (\<lambda>x. x) (\<lambda>v. NaN) 5 1 (Some example_frequency_detected) example_ws_state)
      = [(1, M_frequency_alert (Some (JNum 3500)) (Some (JNum 90)) 5),
         (2, M_frequency_alert (Some (JNum 3500)) (Some (JNum 90)) 5)]"
    by (simp add: g example_open_clients)
  from t m have b: "(1, M_frequency_alert (Some (JNum 3500)) (Some (JNum 90)) 5)
        \<in> set (new_sends example_ws_state
              (on_message (\<lambda>x. x) (\<lambda>v. NaN) 5 1 (Some example_frequency_detected)
                 example_ws_state))"
    unfolding g by blast
  have c: "set (broadcastThreat [(''a'', 1), (''b'', 2), (''c'', 3)] (ready example_ws_state) ''a''
             (Some (JStr ''tone'')))
      = {(2, M_threat_alert ''a'' (Some (JStr ''tone'')))}"
    by (simp add: broadcastThreat_def ws_example_defs)
  show ?thesis using h p m a b c by (intro conjI)
qed

text \<open>
  Where C2 as stated fails: with two open clients and client 1 sending, client 1 gets the
  alert. (And a message whose frequency is the object \<^verbatim>\<open>{"toString":1}\<close> is answered
  with the error, to the sender alone, and no alert at all.)
\<close>

theorem C2_sender_receives_its_own_alert:
  "(\<forall>fl tn. new_sends example_ws_state
       (on_message fl tn 5 1 (Some example_frequency_detected) example_ws_state)
     = [(1, M_frequency_alert (Some (JNum 3500)) (Some (JNum 90)) 5),
        (2, M_frequency_alert (Some (JNum 3500)) (Some (JNum 90)) 5)])
   \<and> (\<forall>fl tn. new_sends example_ws_state
       (on_message fl tn 5 1 (Some example_frequency_unprintable) example_ws_state)
     = [(1, M_error ''Invalid message format'')])"
  by (simp add: on_message_def dispatch_def get_def broadcastMessage_def new_sends_def
        touch_def truthy_opt_def throws_def invalid_def ws_example_defs)

text \<open>
  C7. When JSON.parse throws, the handler catches: it makes exactly one send, of
  {type: 'error', message: 'Invalid message format'} to the sender, and changes nothing
  else: not wss.clients, not connectedClients, no socket's readyState, no timer.
\<close>

theorem C7_invalid_json_answers_sender_only:
  "new_sends st (on_message fl tn now ws None st) = [(ws, M_error ''Invalid message format'')]
   \<and> sent (on_message fl tn now ws None st) = sent st @ [(ws, M_error ''Invalid message format'')]
   \<and> clients (on_message fl tn now ws None st) = clients st
   \<and> connectedClients (on_message fl tn now ws None st) = connectedClients st
   \<and> ready (on_message fl tn now ws None st) = ready st
   \<and> timers (on_message fl tn now ws None st) = timers st"
  by (simp add: on_message_def invalid_def send_def new_sends_def)

lemma neutralize_sends:
  assumes t: "get data ''type'' = Some (JStr ''neutralize_frequency'')"
    and c: "nf_condition data" and n: "\<not> nf_throws data"
  shows "new_sends st (on_message fl tn now ws (Some data) st)
     = map (\<lambda>c. (c, nf_message fl tn now data)) (open_clients st)"
  using c n
  by (simp add: on_message_dispatch [OF t] dispatch_def t on_neutralize_frequency_def
        new_sends_broadcast)

lemma neutralize_silent:
  assumes t: "get data ''type'' = Some (JStr ''neutralize_frequency'')"
    and c: "\<not> nf_condition data"
  shows "new_sends st (on_message fl tn now ws (Some data) st) = []"
  using c
  by (simp add: on_message_dispatch [OF t] dispatch_def t on_neutralize_frequency_def
        new_sends_def)

lemma neutralize_invalid:
  assumes t: "get data ''type'' = Some (JStr ''neutralize_frequency'')"
    and c: "nf_condition data" and n: "nf_throws data"
  shows "new_sends st (on_message fl tn now ws (Some data) st)
     = [(ws, M_error ''Invalid message format'')]"
  using c n
  by (simp add: on_message_dispatch [OF t] dispatch_def t on_neutralize_frequency_def
        invalid_def send_def new_sends_def)

lemma dispatch_mesh:
  "get data ''type'' = Some (JStr ''mesh_neutralize_frequency'') \<Longrightarrow>
   dispatch fl tn now ws data st = on_mesh_neutralize_frequency fl tn now ws data st"
  by (simp add: dispatch_def)

lemma mesh_sends:
  assumes t: "get data ''type'' = Some (JStr ''mesh_neutralize_frequency'')"
    and c: "mnf_condition data" and n: "\<not> mnf_throws data"
  shows "new_sends st (on_message fl tn now ws (Some data) st)
     = map (\<lambda>c. (c, mnf_mesh_message fl tn now data)) (open_clients st)
       @ map (\<lambda>c. (c, mnf_standard_message fl tn now data)) (open_clients st)"
  using c n
  by (simp add: on_message_dispatch [OF t] dispatch_mesh [OF t] on_mesh_neutralize_frequency_def
        new_sends_def broadcastMessage_def open_clients_def)

lemma mesh_invalid:
  assumes t: "get data ''type'' = Some (JStr ''mesh_neutralize_frequency'')"
    and c: "mnf_condition data" and n: "mnf_throws data"
  shows "new_sends st (on_message fl tn now ws (Some data) st)
     = [(ws, M_error ''Invalid message format'')]"
  using c n
  by (simp add: on_message_dispatch [OF t] dispatch_mesh [OF t] on_mesh_neutralize_frequency_def
        invalid_def send_def new_sends_def)

lemma mesh_silent:
  assumes t: "get data ''type'' = Some (JStr ''mesh_neutralize_frequency'')"
    and c: "\<not> mnf_condition data"
  shows "new_sends st (on_message fl tn now ws (Some data) st) = []"
  using c
  by (simp add: on_message_dispatch [OF t] dispatch_mesh [OF t] on_mesh_neutralize_frequency_def
        new_sends_def)

lemma message_scores:
  "score_in (nf_message fl tn now data)
     = Some (effectivenessScore_of fl (to_number tn (nf_intensity data))
               (truthy_opt (nf_aiAssisted data)))"
  "score_in (mnf_mesh_message fl tn now data)
     = Some (mesh_score fl tn (to_number tn (mnf_field data ''intensity''))
               (truthy_opt (mnf_field data ''aiAssisted'')) (mnf_field data ''deviceIds''))"
  "score_in (mnf_standard_message fl tn now data)
     = Some (mesh_score fl tn (to_number tn (mnf_field data ''intensity''))
               (truthy_opt (mnf_field data ''aiAssisted'')) (mnf_field data ''deviceIds''))"
  by (simp_all add: score_in_def nf_message_def mnf_mesh_message_def mnf_standard_message_def
        mnf_score_def)

lemma abs_bound:
  fixes a :: int
  shows "a \<le> 101 \<Longrightarrow> - (2 ^ 51) \<le> a \<Longrightarrow> \<bar>a\<bar> \<le> 2 ^ 52"
  by simp

text \<open>The mesh score of an integer intensity and an array of device ids, exactly.\<close>

lemma mesh_score_of_integer:
  assumes dr: "double_rounding fl" and k: "\<bar>k\<bar> \<le> 2 ^ 52"
  shows "mesh_score fl tn (Finite (of_int k)) ai (Some (JArr ids))
     = Finite (min 100 (Math_round (min 100 (50 + of_int k / 2 + (if ai then 15 else 0)))
                        + (if length ids > 1 then min 20 (2 * real (length ids)) else 0)))"
proof -
  let ?x = "min 100 (50 + real_of_int k / 2 + (if ai then 15 else 0))"
  let ?z = "\<lfloor>?x + 1 / 2\<rfloor>"
  let ?j = "if length ids > 1 then min 20 (2 * int (length ids)) else 0"
  have zr: "Math_round ?x = of_int ?z" by (simp add: Math_round_def)
  have jr: "(if length ids > 1 then min 20 (2 * real (length ids)) else 0) = real_of_int ?j"
    by (simp add: min_def)
  have "?x + 1 / 2 \<le> 101" by simp
  then have zu: "?z \<le> 101" by (simp add: floor_le_iff)
  from k have "- (2 ^ 52) \<le> k" by simp
  then have "- (2 ^ 52) \<le> real_of_int k" by (metis of_int_le_iff of_int_minus of_int_numeral of_int_power)
  then have "real_of_int (- (2 ^ 51)) \<le> ?x + 1 / 2" by (simp add: min_def)
  then have zl: "- (2 ^ 51) \<le> ?z" by (simp only: le_floor_iff)
  from zu zl have z: "\<bar>?z\<bar> \<le> 2 ^ 52" by (rule abs_bound)
  have j: "\<bar>?j\<bar> \<le> 2 ^ 52" by (simp add: min_def)
  show ?thesis
    unfolding mesh_score_def Let_def score_of_integer [OF dr k] boost_array [OF dr] zr jr
      mesh_of_integers [OF dr z j] ..
qed

text \<open>
  C9. A 'neutralize_frequency' message whose condition holds (it has a truthy frequency,
  or a truthy data with one) and whose frequency, bandwidth and intensity convert to
  strings is answered with one 'frequency_neutralized' message to each open client,
  whose score is Math.round(Math.min(100, 50 + I * 0.5 + (A ? 15 : 0))) in double
  arithmetic, for I the number that data.intensity || data.data?.intensity || 75 converts
  to and A the truthiness of data.aiAssisted || data.data?.aiAssisted || false. A
  'mesh_neutralize_frequency' message whose condition holds (data.data and
  data.data.frequency are truthy) and whose frequency, deviceIds?.length || 0 and
  intensity convert is answered with two messages to each open client, both with the
  score Math.min(100, base + boost), where base is the same expression at the number that
  data.data.intensity converts to (there is no default) and the truthiness of
  data.data.aiAssisted, and the boost is Math.min(20, deviceIds.length * 2) when deviceIds
  is truthy and its length exceeds 1, and 0 otherwise. A message of either type whose
  condition holds and one of whose conversions throws is answered with the error
  'Invalid message format' to the sender alone, and one whose condition fails with
  nothing. (A score that is NaN or infinite is a number in the message sent, which
  JSON.stringify writes as null.) For an intensity that is an integer the arithmetic is
  exact: the score is round(min(100, 50 + k / 2 + (ai ? 15 : 0))), and with an array of n
  device ids the mesh score is min(100, base + (n > 1 ? min(20, 2 n) : 0)). For every
  intensity but NaN, every flag and every deviceIds whose length converts to a number, the
  mesh score is at least the single-device score of the same intensity and flag and both
  are at most 100; both are at least 0 when the intensity is a number from -101 up; and
  the mesh score does not decrease when the array of device ids grows.
\<close>

theorem C9_effectiveness_scores:
  "(get data ''type'' = Some (JStr ''neutralize_frequency'') \<and> nf_condition data
      \<and> \<not> nf_throws data \<longrightarrow>
      new_sends st (on_message fl tn now ws (Some data) st)
        = map (\<lambda>c. (c, nf_message fl tn now data)) (open_clients st)
      \<and> score_in (nf_message fl tn now data)
        = Some (effectivenessScore_of fl (to_number tn (nf_intensity data))
                  (truthy_opt (nf_aiAssisted data))))
   \<and> (get data ''type'' = Some (JStr ''neutralize_frequency'') \<and> nf_condition data
      \<and> nf_throws data \<longrightarrow>
      new_sends st (on_message fl tn now ws (Some data) st)
        = [(ws, M_error ''Invalid message format'')])
   \<and> (get data ''type'' = Some (JStr ''neutralize_frequency'') \<and> \<not> nf_condition data \<longrightarrow>
      new_sends st (on_message fl tn now ws (Some data) st) = [])
   \<and> (get mdata ''type'' = Some (JStr ''mesh_neutralize_frequency'') \<and> mnf_condition mdata
      \<and> \<not> mnf_throws mdata \<longrightarrow>
      new_sends st (on_message fl tn now ws (Some mdata) st)
        = map (\<lambda>c. (c, mnf_mesh_message fl tn now mdata)) (open_clients st)
          @ map (\<lambda>c. (c, mnf_standard_message fl tn now mdata)) (open_clients st)
      \<and> score_in (mnf_mesh_message fl tn now mdata)
        = Some (mesh_score fl tn (to_number tn (mnf_field mdata ''intensity''))
                  (truthy_opt (mnf_field mdata ''aiAssisted'')) (mnf_field mdata ''deviceIds''))
      \<and> score_in (mnf_standard_message fl tn now mdata)
        = Some (mesh_score fl tn (to_number tn (mnf_field mdata ''intensity''))
                  (truthy_opt (mnf_field mdata ''aiAssisted'')) (mnf_field mdata ''deviceIds'')))
   \<and> (get mdata ''type'' = Some (JStr ''mesh_neutralize_frequency'') \<and> mnf_condition mdata
      \<and> mnf_throws mdata \<longrightarrow>
      new_sends st (on_message fl tn now ws (Some mdata) st)
        = [(ws, M_error ''Invalid message format'')])
   \<and> (get mdata ''type'' = Some (JStr ''mesh_neutralize_frequency'') \<and> \<not> mnf_condition mdata
      \<longrightarrow> new_sends st (on_message fl tn now ws (Some mdata) st) = [])
   \<and> (double_rounding fl \<and> \<bar>k\<bar> \<le> 2 ^ 52 \<longrightarrow>
      effectivenessScore_of fl (Finite (of_int k)) ai
        = Finite (Math_round (min 100 (50 + of_int k / 2 + (if ai then 15 else 0))))
      \<and> mesh_score fl tn (Finite (of_int k)) ai (Some (JArr ids))
        = Finite (min 100 (Math_round (min 100 (50 + of_int k / 2 + (if ai then 15 else 0)))
                           + (if length ids > 1 then min 20 (2 * real (length ids)) else 0))))
   \<and> (double_rounding fl \<and> x \<noteq> NaN \<and> \<not> boost_throws deviceIds \<longrightarrow>
      num_le (effectivenessScore_of fl x ai) (mesh_score fl tn x ai deviceIds)
      \<and> num_le (effectivenessScore_of fl x ai) (Finite 100)
      \<and> num_le (mesh_score fl tn x ai deviceIds) (Finite 100))
   \<and> (double_rounding fl \<and> - 101 \<le> i \<and> \<not> boost_throws deviceIds \<longrightarrow>
      num_le (Finite 0) (effectivenessScore_of fl (Finite i) ai)
      \<and> num_le (Finite 0) (mesh_score fl tn (Finite i) ai deviceIds))
   \<and> (double_rounding fl \<and> x \<noteq> NaN \<and> length ids \<le> length ids' \<longrightarrow>
      num_le (mesh_score fl tn x ai (Some (JArr ids))) (mesh_score fl tn x ai (Some (JArr ids'))))"
proof (intro conjI impI)
  assume a: "get data ''type'' = Some (JStr ''neutralize_frequency'') \<and> nf_condition data
      \<and> \<not> nf_throws data"
  then show "new_sends st (on_message fl tn now ws (Some data) st)
        = map (\<lambda>c. (c, nf_message fl tn now data)) (open_clients st)"
    using neutralize_sends [of data st fl tn now ws] by blast
  show "score_in (nf_message fl tn now data)
        = Some (effectivenessScore_of fl (to_number tn (nf_intensity data))
                  (truthy_opt (nf_aiAssisted data)))"
    by (rule message_scores)
next
  assume "get data ''type'' = Some (JStr ''neutralize_frequency'') \<and> nf_condition data
      \<and> nf_throws data"
  then show "new_sends st (on_message fl tn now ws (Some data) st)
        = [(ws, M_error ''Invalid message format'')]"
    using neutralize_invalid [of data st fl tn now ws] by blast
next
  assume "get data ''type'' = Some (JStr ''neutralize_frequency'') \<and> \<not> nf_condition data"
  then show "new_sends st (on_message fl tn now ws (Some data) st) = []"
    using neutralize_silent [of data st fl tn now ws] by blast
next
  assume a: "get mdata ''type'' = Some (JStr ''mesh_neutralize_frequency'') \<and> mnf_condition mdata
      \<and> \<not> mnf_throws mdata"
  then show "new_sends st (on_message fl tn now ws (Some mdata) st)
        = map (\<lambda>c. (c, mnf_mesh_message fl tn now mdata)) (open_clients st)
          @ map (\<lambda>c. (c, mnf_standard_message fl tn now mdata)) (open_clients st)"
    using mesh_sends [of mdata st fl tn now ws] by blast
  show "score_in (mnf_mesh_message fl tn now mdata)
        = Some (mesh_score fl tn (to_number tn (mnf_field mdata ''intensity''))
                  (truthy_opt (mnf_field mdata ''aiAssisted'')) (mnf_field mdata ''deviceIds''))"
    by (rule message_scores)
  show "score_in (mnf_standard_message fl tn now mdata)
        = Some (mesh_score fl tn (to_number tn (mnf_field mdata ''intensity''))
                  (truthy_opt (mnf_field mdata ''aiAssisted'')) (mnf_field mdata ''deviceIds''))"
    by (rule message_scores)
next
  assume "get mdata ''type'' = Some (JStr ''mesh_neutralize_frequency'') \<and> mnf_condition mdata
      \<and> mnf_throws mdata"
  then show "new_sends st (on_message fl tn now ws (Some mdata) st)
        = [(ws, M_error ''Invalid message format'')]"
    using mesh_invalid [of mdata st fl tn now ws] by blast
next
  assume "get mdata ''type'' = Some (JStr ''mesh_neutralize_frequency'') \<and> \<not> mnf_condition mdata"
  then show "new_sends st (on_message fl tn now ws (Some mdata) st) = []"
    using mesh_silent [of mdata st fl tn now ws] by blast
next
  assume a: "double_rounding fl \<and> \<bar>k\<bar> \<le> 2 ^ 52"
  then have dr: "double_rounding fl" and k: "\<bar>k\<bar> \<le> 2 ^ 52" by simp_all
  show "effectivenessScore_of fl (Finite (of_int k)) ai
        = Finite (Math_round (min 100 (50 + of_int k / 2 + (if ai then 15 else 0))))"
    using dr k by (rule score_of_integer)
  show "mesh_score fl tn (Finite (of_int k)) ai (Some (JArr ids))
        = Finite (min 100 (Math_round (min 100 (50 + of_int k / 2 + (if ai then 15 else 0)))
                           + (if length ids > 1 then min 20 (2 * real (length ids)) else 0)))"
    using dr k by (rule mesh_score_of_integer)
next
  assume a: "double_rounding fl \<and> x \<noteq> NaN \<and> \<not> boost_throws deviceIds"
  then have dr: "double_rounding fl" and x: "x \<noteq> NaN" by simp_all
  show "num_le (effectivenessScore_of fl x ai) (mesh_score fl tn x ai deviceIds)"
    using dr x by (rule mesh_ge_single)
  show "num_le (effectivenessScore_of fl x ai) (Finite 100)" using x by (rule score_le_100)
  show "num_le (mesh_score fl tn x ai deviceIds) (Finite 100)" using dr x by (rule mesh_le_100)
next
  assume a: "double_rounding fl \<and> - 101 \<le> i \<and> \<not> boost_throws deviceIds"
  then have dr: "double_rounding fl" and i: "- 101 \<le> i" by simp_all
  show "num_le (Finite 0) (effectivenessScore_of fl (Finite i) ai)" using dr i by (rule score_ge_0)
  show "num_le (Finite 0) (mesh_score fl tn (Finite i) ai deviceIds)"
    using dr i by (rule mesh_ge_0)
next
  assume a: "double_rounding fl \<and> x \<noteq> NaN \<and> length ids \<le> length ids'"
  then have "double_rounding fl" and "x \<noteq> NaN" and "length ids \<le> length ids'" by simp_all
  with mesh_mono [of fl ids ids' tn x ai]
  show "num_le (mesh_score fl tn x ai (Some (JArr ids))) (mesh_score fl tn x ai (Some (JArr ids')))"
    by blast
qed

lemma example_neutralize_fields:
  "get (example_neutralize v) ''type'' = Some (JStr ''neutralize_frequency'')"
  "nf_condition (example_neutralize v)"
  "nf_throws (example_neutralize v) = (truthy v \<and> unprintable v)"
  "nf_intensity (example_neutralize v) = (if truthy v then Some v else Some (JNum 75))"
  "nf_aiAssisted (example_neutralize v) = Some (JBool False)"
  by (simp_all add: example_neutralize_def nf_condition_def nf_throws_def nf_frequency_def
        nf_bandwidth_def nf_intensity_def nf_aiAssisted_def field_defs)

lemma example_neutralize_no_frequency_fields:
  "get example_neutralize_no_frequency ''type'' = Some (JStr ''neutralize_frequency'')"
  "\<not> nf_condition example_neutralize_no_frequency"
  by (simp_all add: example_neutralize_no_frequency_def nf_condition_def field_defs)

lemma example_mesh_neutralize_fields:
  "get (example_mesh_neutralize v n) ''type'' = Some (JStr ''mesh_neutralize_frequency'')"
  "mnf_condition (example_mesh_neutralize v n)"
  "mnf_throws (example_mesh_neutralize v n) = unprintable v"
  "mnf_field (example_mesh_neutralize v n) ''intensity'' = Some v"
  "mnf_field (example_mesh_neutralize v n) ''aiAssisted'' = None"
  "mnf_field (example_mesh_neutralize v n) ''deviceIds'' = Some (JArr (replicate n (JStr ''node'')))"
  by (simp_all add: example_mesh_neutralize_def example_mesh_data_def mnf_condition_def
        mnf_throws_def mnf_field_def mnf_length_def field_defs)

lemma example_mesh_neutralize_absent_fields:
  "get example_mesh_neutralize_absent ''type'' = Some (JStr ''mesh_neutralize_frequency'')"
  "mnf_condition example_mesh_neutralize_absent"
  "\<not> mnf_throws example_mesh_neutralize_absent"
  "mnf_field example_mesh_neutralize_absent ''intensity'' = None"
  by (simp_all add: example_mesh_neutralize_absent_def mnf_condition_def
        mnf_throws_def mnf_field_def mnf_length_def field_defs)

lemma example_mesh_neutralize_no_data_fields:
  "get example_mesh_neutralize_no_data ''type'' = Some (JStr ''mesh_neutralize_frequency'')"
  "\<not> mnf_condition example_mesh_neutralize_no_data"
  by (simp_all add: example_mesh_neutralize_no_data_def mnf_condition_def field_defs)

lemma to_number_num [simp]: "to_number tn (Some (JNum r)) = Finite r" "to_number tn None = NaN"
  by (simp_all add: to_number_def)

lemma score_of_NaN [simp]:
  "effectivenessScore_of fl NaN ai = NaN" "mesh_score fl tn NaN ai deviceIds = NaN"
  by (simp_all add: effectivenessScore_of_def mesh_score_def meshEffectivenessScore_of_def)

lemma round_values:
  "Math_round 80 = 80" "Math_round 60 = 60" "Math_round (175 / 2) = 88"
  "Math_round (- 50) = - 50" "Math_round 50 = 50" "Math_round (- 1 / 2) = 0"
  by (simp_all add: Math_round_def)

lemma example_scores:
  assumes dr: "double_rounding fl"
  shows "effectivenessScore_of fl (Finite 60) False = Finite 80"
    "effectivenessScore_of fl (Finite 75) False = Finite 88"
    "effectivenessScore_of fl (Finite (- 200)) False = Finite (- 50)"
    "mesh_score fl tn (Finite 20) False (Some (JArr (replicate 3 v))) = Finite 66"
    "mesh_score fl tn (Finite 20) False (Some (JArr (replicate 1 v))) = Finite 60"
    "mesh_score fl tn (Finite 0) False (Some (JArr (replicate 3 v))) = Finite 56"
    "mesh_score fl tn (Finite 60) False (Some (JArr (replicate 2 v))) = Finite 84"
    "mesh_score fl tn (Finite 60) False (Some (JArr (replicate 3 v))) = Finite 86"
  using score_of_integer [OF dr, of 60 False] score_of_integer [OF dr, of 75 False]
    score_of_integer [OF dr, of "- 200" False]
    mesh_score_of_integer [OF dr, of 20 tn False "replicate 3 v"]
    mesh_score_of_integer [OF dr, of 20 tn False "replicate 1 v"]
    mesh_score_of_integer [OF dr, of 0 tn False "replicate 3 v"]
    mesh_score_of_integer [OF dr, of 60 tn False "replicate 2 v"]
    mesh_score_of_integer [OF dr, of 60 tn False "replicate 3 v"]
  by (simp_all add: round_values)

theorem C9_effectiveness_scores_witness:
  "(get (example_neutralize (JNum 60)) ''type'' = Some (JStr ''neutralize_frequency'')
      \<and> nf_condition (example_neutralize (JNum 60)) \<and> \<not> nf_throws (example_neutralize (JNum 60))
      \<and> new_sends example_ws_state
           (on_message (\<lambda>x. x) (\<lambda>v. NaN) 5 1 (Some (example_neutralize (JNum 60)))
              example_ws_state)
         = [(1, nf_message (\<lambda>x. x) (\<lambda>v. NaN) 5 (example_neutralize (JNum 60))),
            (2, nf_message (\<lambda>x. x) (\<lambda>v. NaN) 5 (example_neutralize (JNum 60)))]
      \<and> score_in (nf_message (\<lambda>x. x) (\<lambda>v. NaN) 5 (example_neutralize (JNum 60)))
         = Some (Finite 80))
   \<and> (get (example_neutralize (JObj [(''toString'', JNum 1)])) ''type''
        = Some (JStr ''neutralize_frequency'')
      \<and> nf_condition (example_neutralize (JObj [(''toString'', JNum 1)]))
      \<and> nf_throws (example_neutralize (JObj [(''toString'', JNum 1)]))
      \<and> new_sends example_ws_state
           (on_message (\<lambda>x. x) (\<lambda>v. NaN) 5 1
              (Some (example_neutralize (JObj [(''toString'', JNum 1)]))) example_ws_state)
         = [(1, M_error ''Invalid message format'')])
   \<and> (get example_neutralize_no_frequency ''type'' = Some (JStr ''neutralize_frequency'')
      \<and> \<not> nf_condition example_neutralize_no_frequency
      \<and> new_sends example_ws_state
           (on_message (\<lambda>x. x) (\<lambda>v. NaN) 5 1 (Some example_neutralize_no_frequency)
              example_ws_state) = [])
   \<and> (get (example_mesh_neutralize (JNum 20) 3) ''type'' = Some (JStr ''mesh_neutralize_frequency'')
      \<and> mnf_condition (example_mesh_neutralize (JNum 20) 3)
      \<and> \<not> mnf_throws (example_mesh_neutralize (JNum 20) 3)
      \<and> new_sends example_ws_state
           (on_message (\<lambda>x. x) (\<lambda>v. NaN) 5 1 (Some (example_mesh_neutralize (JNum 20) 3))
              example_ws_state)
         = [(1, mnf_mesh_message (\<lambda>x. x) (\<lambda>v. NaN) 5 (example_mesh_neutralize (JNum 20) 3)),
            (2, mnf_mesh_message (\<lambda>x. x) (\<lambda>v. NaN) 5 (example_mesh_neutralize (JNum 20) 3)),
            (1, mnf_standard_message (\<lambda>x. x) (\<lambda>v. NaN) 5 (example_mesh_neutralize (JNum 20) 3)),
            (2, mnf_standard_message (\<lambda>x. x) (\<lambda>v. NaN) 5 (example_mesh_neutralize (JNum 20) 3))]
      \<and> score_in (mnf_mesh_message (\<lambda>x. x) (\<lambda>v. NaN) 5 (example_mesh_neutralize (JNum 20) 3))
         = Some (Finite 66)
      \<and> score_in (mnf_standard_message (\<lambda>x. x) (\<lambda>v. NaN) 5 (example_mesh_neutralize (JNum 20) 3))
         = Some (Finite 66))
   \<and> (get (example_mesh_neutralize (JObj [(''toString'', JNum 1)]) 3) ''type''
        = Some (JStr ''mesh_neutralize_frequency'')
      \<and> mnf_condition (example_mesh_neutralize (JObj [(''toString'', JNum 1)]) 3)
      \<and> mnf_throws (example_mesh_neutralize (JObj [(''toString'', JNum 1)]) 3)
      \<and> new_sends example_ws_state
           (on_message (\<lambda>x. x) (\<lambda>v. NaN) 5 1
              (Some (example_mesh_neutralize (JObj [(''toString'', JNum 1)]) 3))
              example_ws_state)
         = [(1, M_error ''Invalid message format'')])
   \<and> (get example_mesh_neutralize_no_data ''type'' = Some (JStr ''mesh_neutralize_frequency'')
      \<and> \<not> mnf_condition example_mesh_neutralize_no_data
      \<and> new_sends example_ws_state
           (on_message (\<lambda>x. x) (\<lambda>v. NaN) 5 1 (Some example_mesh_neutralize_no_data)
              example_ws_state) = [])
   \<and> (double_rounding (\<lambda>x. x) \<and> \<bar>60 :: int\<bar> \<le> 2 ^ 52
      \<and> effectivenessScore_of (\<lambda>x. x) (Finite (of_int 60)) True = Finite 95
      \<and> mesh_score (\<lambda>x. x) (\<lambda>v. NaN) (Finite (of_int 60)) True
           (Some (JArr (replicate 3 (JStr ''node'')))) = Finite 100)
   \<and> (Finite 60 \<noteq> NaN \<and> \<not> boost_throws (Some (JArr (replicate 3 (JStr ''node''))))
      \<and> num_le (effectivenessScore_of (\<lambda>x. x) (Finite 60) False)
           (mesh_score (\<lambda>x. x) (\<lambda>v. NaN) (Finite 60) False
              (Some (JArr (replicate 3 (JStr ''node'')))))
      \<and> num_le (effectivenessScore_of (\<lambda>x. x) (Finite 60) False) (Finite 100)
      \<and> num_le (mesh_score (\<lambda>x. x) (\<lambda>v. NaN) (Finite 60) False
                  (Some (JArr (replicate 3 (JStr ''node''))))) (Finite 100))
   \<and> (- 101 \<le> (- 101 :: real)
      \<and> num_le (Finite 0) (effectivenessScore_of (\<lambda>x. x) (Finite (- 101)) False)
      \<and> num_le (Finite 0)
           (mesh_score (\<lambda>x. x) (\<lambda>v. NaN) (Finite (- 101)) False
              (Some (JArr (replicate 3 (JStr ''node''))))))
   \<and> (length (replicate 2 (JStr ''node'')) \<le> length (replicate 3 (JStr ''node''))
      \<and> num_le (mesh_score (\<lambda>x. x) (\<lambda>v. NaN) (Finite 60) False
                  (Some (JArr (replicate 2 (JStr ''node'')))))
           (mesh_score (\<lambda>x. x) (\<lambda>v. NaN) (Finite 60) False
              (Some (JArr (replicate 3 (JStr ''node''))))))"
proof -
  let ?fl = "\<lambda>x :: real. x" and ?tn = "\<lambda>v :: json. NaN"
  let ?n = "example_neutralize (JNum 60)" and ?m = "example_mesh_neutralize (JNum 20) 3"
  let ?ids = "replicate 3 (JStr ''node'')"
  note dr = double_rounding_exact
  note t = C9_effectiveness_scores [where fl = ?fl and tn = ?tn and now = 5 and ws = 1
      and st = example_ws_state and data = ?n and mdata = ?m and k = 60 and ai = True
      and ids = ?ids and x = "Finite 60" and deviceIds = "Some (JArr ?ids)" and i = "- 101"
      and ids' = ?ids]
  note u = C9_effectiveness_scores [where fl = ?fl and tn = ?tn and now = 5 and ws = 1
      and st = example_ws_state and data = example_neutralize_no_frequency
      and mdata = example_mesh_neutralize_no_data and k = 60 and ai = False
      and ids = "replicate 2 (JStr ''node'')" and x = "Finite 60"
      and deviceIds = "Some (JArr ?ids)" and i = "- 101" and ids' = ?ids]
  let ?un = "example_neutralize (JObj [(''toString'', JNum 1)])"
  let ?um = "example_mesh_neutralize (JObj [(''toString'', JNum 1)]) 3"
  note v = C9_effectiveness_scores [where fl = ?fl and tn = ?tn and now = 5 and ws = 1
      and st = example_ws_state and data = ?un and mdata = ?um and k = 60 and ai = False
      and ids = ?ids and x = "Finite 60" and deviceIds = "Some (JArr ?ids)" and i = "- 101"
      and ids' = ?ids]
  have hun: "get ?un ''type'' = Some (JStr ''neutralize_frequency'')" "nf_condition ?un"
    "nf_throws ?un"
    by (simp_all add: example_neutralize_fields)
  have hum: "get ?um ''type'' = Some (JStr ''mesh_neutralize_frequency'')" "mnf_condition ?um"
    "mnf_throws ?um"
    by (simp_all add: example_mesh_neutralize_fields)
  from v hun have cn: "new_sends example_ws_state
      (on_message ?fl ?tn 5 1 (Some ?un) example_ws_state) = [(1, M_error ''Invalid message format'')]"
    by blast
  from v hum have cm: "new_sends example_ws_state
      (on_message ?fl ?tn 5 1 (Some ?um) example_ws_state) = [(1, M_error ''Invalid message format'')]"
    by blast
  have hn: "get ?n ''type'' = Some (JStr ''neutralize_frequency'')" "nf_condition ?n"
    "\<not> nf_throws ?n"
    by (simp_all add: example_neutralize_fields)
  have hm: "get ?m ''type'' = Some (JStr ''mesh_neutralize_frequency'')" "mnf_condition ?m"
    "\<not> mnf_throws ?m"
    by (simp_all add: example_mesh_neutralize_fields)
  have hb: "\<not> boost_throws (Some (JArr ?ids))"
    by (simp add: boost_throws_def length_of_def throws_def)
  have hk: "\<bar>60 :: int\<bar> \<le> 2 ^ 52" by simp
  have hx: "Finite 60 \<noteq> NaN" by simp
  have hi: "- 101 \<le> (- 101 :: real)" by simp
  have hl: "length (replicate 2 (JStr ''node'')) \<le> length ?ids" by simp
  from t hn have c1: "new_sends example_ws_state (on_message ?fl ?tn 5 1 (Some ?n) example_ws_state)
      = map (\<lambda>c. (c, nf_message ?fl ?tn 5 ?n)) (open_clients example_ws_state)
    \<and> score_in (nf_message ?fl ?tn 5 ?n)
      = Some (effectivenessScore_of ?fl (to_number ?tn (nf_intensity ?n))
                (truthy_opt (nf_aiAssisted ?n)))"
    by blast
  from u example_neutralize_no_frequency_fields
  have c2: "new_sends example_ws_state
      (on_message ?fl ?tn 5 1 (Some example_neutralize_no_frequency) example_ws_state) = []"
    by blast
  from t hm have c3: "new_sends example_ws_state (on_message ?fl ?tn 5 1 (Some ?m) example_ws_state)
      = map (\<lambda>c. (c, mnf_mesh_message ?fl ?tn 5 ?m)) (open_clients example_ws_state)
        @ map (\<lambda>c. (c, mnf_standard_message ?fl ?tn 5 ?m)) (open_clients example_ws_state)
    \<and> score_in (mnf_mesh_message ?fl ?tn 5 ?m)
      = Some (mesh_score ?fl ?tn (to_number ?tn (mnf_field ?m ''intensity''))
                (truthy_opt (mnf_field ?m ''aiAssisted'')) (mnf_field ?m ''deviceIds''))
    \<and> score_in (mnf_standard_message ?fl ?tn 5 ?m)
      = Some (mesh_score ?fl ?tn (to_number ?tn (mnf_field ?m ''intensity''))
                (truthy_opt (mnf_field ?m ''aiAssisted'')) (mnf_field ?m ''deviceIds''))"
    by blast
  from u example_mesh_neutralize_no_data_fields
  have c4: "new_sends example_ws_state
      (on_message ?fl ?tn 5 1 (Some example_mesh_neutralize_no_data) example_ws_state) = []"
    by blast
  from t dr hk have c5: "effectivenessScore_of ?fl (Finite (of_int 60)) True
        = Finite (Math_round (min 100 (50 + of_int 60 / 2 + (if True then 15 else 0))))
      \<and> mesh_score ?fl ?tn (Finite (of_int 60)) True (Some (JArr ?ids))
        = Finite (min 100 (Math_round (min 100 (50 + of_int 60 / 2 + (if True then 15 else 0)))
                           + (if length ?ids > 1 then min 20 (2 * real (length ?ids)) else 0)))"
    by blast
  from u dr hx hb have c6: "num_le (effectivenessScore_of ?fl (Finite 60) False)
           (mesh_score ?fl ?tn (Finite 60) False (Some (JArr ?ids)))
      \<and> num_le (effectivenessScore_of ?fl (Finite 60) False) (Finite 100)
      \<and> num_le (mesh_score ?fl ?tn (Finite 60) False (Some (JArr ?ids))) (Finite 100)"
    by blast
  from u dr hi hb have c7: "num_le (Finite 0) (effectivenessScore_of ?fl (Finite (- 101)) False)
      \<and> num_le (Finite 0) (mesh_score ?fl ?tn (Finite (- 101)) False (Some (JArr ?ids)))"
    by blast
  from u dr hx hl have c8: "num_le
      (mesh_score ?fl ?tn (Finite 60) False (Some (JArr (replicate 2 (JStr ''node'')))))
      (mesh_score ?fl ?tn (Finite 60) False (Some (JArr ?ids)))"
    by blast
  have r: "Math_round 95 = 95" by (simp add: Math_round_def)
  from c1 have d1: "new_sends example_ws_state (on_message ?fl ?tn 5 1 (Some ?n) example_ws_state)
       = [(1, nf_message ?fl ?tn 5 ?n), (2, nf_message ?fl ?tn 5 ?n)]
     \<and> score_in (nf_message ?fl ?tn 5 ?n) = Some (Finite 80)"
    by (simp add: example_open_clients example_neutralize_fields truthy_opt_def
          example_scores [OF dr])
  from c3 have d3: "new_sends example_ws_state (on_message ?fl ?tn 5 1 (Some ?m) example_ws_state)
       = [(1, mnf_mesh_message ?fl ?tn 5 ?m), (2, mnf_mesh_message ?fl ?tn 5 ?m),
          (1, mnf_standard_message ?fl ?tn 5 ?m), (2, mnf_standard_message ?fl ?tn 5 ?m)]
     \<and> score_in (mnf_mesh_message ?fl ?tn 5 ?m) = Some (Finite 66)
     \<and> score_in (mnf_standard_message ?fl ?tn 5 ?m) = Some (Finite 66)"
    by (simp add: example_open_clients example_mesh_neutralize_fields truthy_opt_def
          example_scores [OF dr])
  from c5 have d5: "effectivenessScore_of ?fl (Finite (of_int 60)) True = Finite 95
      \<and> mesh_score ?fl ?tn (Finite (of_int 60)) True (Some (JArr ?ids)) = Finite 100"
    by (simp add: r)
  show ?thesis
    using hn hm hb hk hx hi hl dr d1 c2 d3 c4 d5 c6 c7 c8 hun hum cn cm
      example_neutralize_no_frequency_fields example_mesh_neutralize_no_data_fields
    by blast
qed

lemma example_neutralize_scores:
  assumes "\<not> (truthy v \<and> unprintable v)"
  shows "map (\<lambda>(c, m). (c, score_in m))
       (new_sends example_ws_state
          (on_message fl tn now 1 (Some (example_neutralize v)) example_ws_state))
     = map (\<lambda>c. (c, Some (effectivenessScore_of fl
                              (to_number tn (if truthy v then Some v else Some (JNum 75))) False)))
         [1, 2]"
  using assms
  by (simp add: neutralize_sends [OF example_neutralize_fields(1,2)] example_neutralize_fields
        message_scores example_open_clients truthy_opt_def)

lemma example_mesh_neutralize_scores:
  assumes "\<not> unprintable v"
  shows "map (\<lambda>(c, m). (c, score_in m))
       (new_sends example_ws_state
          (on_message fl tn now 1 (Some (example_mesh_neutralize v n)) example_ws_state))
     = map (\<lambda>c. (c, Some (mesh_score fl tn (to_number tn (Some v)) False
                              (Some (JArr (replicate n (JStr ''node'')))))))
         [1, 2, 1, 2]"
  using assms
  by (simp add: mesh_sends [OF example_mesh_neutralize_fields(1,2)] example_mesh_neutralize_fields
        message_scores example_open_clients truthy_opt_def)

lemma example_mesh_neutralize_absent_scores:
  "map (\<lambda>(c, m). (c, score_in m))
       (new_sends example_ws_state
          (on_message fl tn now 1 (Some example_mesh_neutralize_absent) example_ws_state))
     = map (\<lambda>c. (c, Some NaN)) [1, 2, 1, 2]"
  by (simp add: mesh_sends [OF example_mesh_neutralize_absent_fields(1,2,3)]
        example_mesh_neutralize_absent_fields message_scores example_open_clients)

lemma example_neutralize_unprintable:
  "new_sends example_ws_state
     (on_message fl tn now 1 (Some (example_neutralize (JObj [(''toString'', JNum 1)])))
        example_ws_state)
   = [(1, M_error ''Invalid message format'')]"
  by (simp add: on_message_dispatch [OF example_neutralize_fields(1)] dispatch_def
        example_neutralize_fields on_neutralize_frequency_def invalid_def new_sends_def send_def
        example_sent)

lemma example_sent_scores:
  assumes dr: "double_rounding fl"
  shows "map (\<lambda>(c, m). (c, score_in m))
            (new_sends example_ws_state
               (on_message fl tn 5 1 (Some (example_mesh_neutralize (JNum 20) 1))
                  example_ws_state))
          = [(1, Some (Finite 60)), (2, Some (Finite 60)),
              (1, Some (Finite 60)), (2, Some (Finite 60))]"
    "map (\<lambda>(c, m). (c, score_in m))
            (new_sends example_ws_state
               (on_message fl tn 5 1 (Some (example_neutralize (JNum (- 200))))
                  example_ws_state))
          = [(1, Some (Finite (- 50))), (2, Some (Finite (- 50)))]"
    "map (\<lambda>(c, m). (c, score_in m))
            (new_sends example_ws_state
               (on_message fl tn 5 1 (Some (example_neutralize (JNum 0))) example_ws_state))
          = [(1, Some (Finite 88)), (2, Some (Finite 88))]"
    "map (\<lambda>(c, m). (c, score_in m))
            (new_sends example_ws_state
               (on_message fl tn 5 1 (Some (example_mesh_neutralize (JNum 0) 3))
                  example_ws_state))
          = [(1, Some (Finite 56)), (2, Some (Finite 56)),
              (1, Some (Finite 56)), (2, Some (Finite 56))]"
proof -
  have u: "\<not> unprintable (JNum r)" "\<not> (truthy (JNum r) \<and> unprintable (JNum r))" for r
    by simp_all
  note e = example_scores [OF dr]
  show "map (\<lambda>(c, m). (c, score_in m))
            (new_sends example_ws_state
               (on_message fl tn 5 1 (Some (example_mesh_neutralize (JNum 20) 1))
                  example_ws_state))
          = [(1, Some (Finite 60)), (2, Some (Finite 60)),
              (1, Some (Finite 60)), (2, Some (Finite 60))]"
    unfolding example_mesh_neutralize_scores [OF u(1)] to_number_num e by simp
  show "map (\<lambda>(c, m). (c, score_in m))
            (new_sends example_ws_state
               (on_message fl tn 5 1 (Some (example_neutralize (JNum (- 200))))
                  example_ws_state))
          = [(1, Some (Finite (- 50))), (2, Some (Finite (- 50)))]"
    unfolding example_neutralize_scores [OF u(2)] by (simp add: e)
  show "map (\<lambda>(c, m). (c, score_in m))
            (new_sends example_ws_state
               (on_message fl tn 5 1 (Some (example_neutralize (JNum 0))) example_ws_state))
          = [(1, Some (Finite 88)), (2, Some (Finite 88))]"
    unfolding example_neutralize_scores [OF u(2)] by (simp add: e)
  show "map (\<lambda>(c, m). (c, score_in m))
            (new_sends example_ws_state
               (on_message fl tn 5 1 (Some (example_mesh_neutralize (JNum 0) 3))
                  example_ws_state))
          = [(1, Some (Finite 56)), (2, Some (Finite 56)),
              (1, Some (Finite 56)), (2, Some (Finite 56))]"
    unfolding example_mesh_neutralize_scores [OF u(1)] to_number_num e by simp
qed

text \<open>
  Where C9 as stated fails. On a mesh message with one device id the score the handler
  sends is the base score 60, where \<open>min(100, 60 + min(20, 2))\<close> is 62. On intensity
  \<open>-200\<close> the score sent is \<open>-50\<close>, below 0. Intensity 0 is replaced with 75 by the
  single-device handler and not by the mesh handler: the single-device score sent is 88,
  where the formula at intensity 0 gives 50, and the mesh score sent for the same
  intensity with three devices is 56, below it. A mesh message without intensity is
  answered with the score \<^verbatim>\<open>NaN\<close>. A message whose intensity has a property
  \<^verbatim>\<open>toString\<close> is answered with an error and no score, and a message without
  frequency with nothing.
\<close>

theorem C9_scores_depart_from_the_formulas:
  "\<not> (\<exists>fl tn. double_rounding fl
        \<and> map (\<lambda>(c, m). (c, score_in m))
            (new_sends example_ws_state
               (on_message fl tn 5 1 (Some (example_mesh_neutralize (JNum 20) 1))
                  example_ws_state))
          \<noteq> [(1, Some (Finite 60)), (2, Some (Finite 60)),
              (1, Some (Finite 60)), (2, Some (Finite 60))])
   \<and> Math_round (min 100 (50 + 1 / 2 * 20 + 0)) = 60
   \<and> min 100 (60 + min 20 (2 * 1)) = (62 :: real)
   \<and> \<not> (\<exists>fl tn. double_rounding fl
        \<and> map (\<lambda>(c, m). (c, score_in m))
            (new_sends example_ws_state
               (on_message fl tn 5 1 (Some (example_neutralize (JNum (- 200))))
                  example_ws_state))
          \<noteq> [(1, Some (Finite (- 50))), (2, Some (Finite (- 50)))])
   \<and> \<not> num_le (Finite 0) (Finite (- 50))
   \<and> \<not> (\<exists>fl tn. double_rounding fl
        \<and> map (\<lambda>(c, m). (c, score_in m))
            (new_sends example_ws_state
               (on_message fl tn 5 1 (Some (example_neutralize (JNum 0))) example_ws_state))
          \<noteq> [(1, Some (Finite 88)), (2, Some (Finite 88))])
   \<and> Math_round (min 100 (50 + 1 / 2 * 0 + 0)) = 50
   \<and> \<not> (\<exists>fl tn. double_rounding fl
        \<and> map (\<lambda>(c, m). (c, score_in m))
            (new_sends example_ws_state
               (on_message fl tn 5 1 (Some (example_mesh_neutralize (JNum 0) 3))
                  example_ws_state))
          \<noteq> [(1, Some (Finite 56)), (2, Some (Finite 56)),
              (1, Some (Finite 56)), (2, Some (Finite 56))])
   \<and> \<not> num_le (Finite 88) (Finite 56)
   \<and> (\<forall>fl tn. map (\<lambda>(c, m). (c, score_in m))
          (new_sends example_ws_state
             (on_message fl tn 5 1 (Some example_mesh_neutralize_absent) example_ws_state))
        = [(1, Some NaN), (2, Some NaN), (1, Some NaN), (2, Some NaN)])
   \<and> (\<forall>fl tn. new_sends example_ws_state
          (on_message fl tn 5 1 (Some (example_neutralize (JObj [(''toString'', JNum 1)])))
             example_ws_state)
        = [(1, M_error ''Invalid message format'')])
   \<and> (\<forall>fl tn. new_sends example_ws_state
          (on_message fl tn 5 1 (Some example_neutralize_no_frequency) example_ws_state) = [])"
proof (intro conjI allI notI)
  show "Math_round (min 100 (50 + 1 / 2 * 20 + 0)) = 60"
    "Math_round (min 100 (50 + 1 / 2 * 0 + 0)) = 50"
    by (simp_all add: Math_round_def)
  show "min 100 (60 + min 20 (2 * 1)) = (62 :: real)" by simp
next
  assume "num_le (Finite 0) (Finite (- 50))"
  then show False by simp
next
  assume "num_le (Finite 88) (Finite 56)"
  then show False by simp
next
  assume "\<exists>fl tn. double_rounding fl
        \<and> map (\<lambda>(c, m). (c, score_in m))
            (new_sends example_ws_state
               (on_message fl tn 5 1 (Some (example_mesh_neutralize (JNum 20) 1))
                  example_ws_state))
          \<noteq> [(1, Some (Finite 60)), (2, Some (Finite 60)),
              (1, Some (Finite 60)), (2, Some (Finite 60))]"
  then show False
    using example_sent_scores by blast
next
  assume "\<exists>fl tn. double_rounding fl
        \<and> map (\<lambda>(c, m). (c, score_in m))
            (new_sends example_ws_state
               (on_message fl tn 5 1 (Some (example_neutralize (JNum (- 200))))
                  example_ws_state))
          \<noteq> [(1, Some (Finite (- 50))), (2, Some (Finite (- 50)))]"
  then show False
    using example_sent_scores by blast
next
  assume "\<exists>fl tn. double_rounding fl
        \<and> map (\<lambda>(c, m). (c, score_in m))
            (new_sends example_ws_state
               (on_message fl tn 5 1 (Some (example_neutralize (JNum 0))) example_ws_state))
          \<noteq> [(1, Some (Finite 88)), (2, Some (Finite 88))]"
  then show False
    using example_sent_scores by blast
next
  assume "\<exists>fl tn. double_rounding fl
        \<and> map (\<lambda>(c, m). (c, score_in m))
            (new_sends example_ws_state
               (on_message fl tn 5 1 (Some (example_mesh_neutralize (JNum 0) 3))
                  example_ws_state))
          \<noteq> [(1, Some (Finite 56)), (2, Some (Finite 56)),
              (1, Some (Finite 56)), (2, Some (Finite 56))]"
  then show False
    using example_sent_scores by blast
next
  fix fl :: "real \<Rightarrow> real" and tn :: "json \<Rightarrow> number"
  show "map (\<lambda>(c, m). (c, score_in m))
          (new_sends example_ws_state
             (on_message fl tn 5 1 (Some example_mesh_neutralize_absent) example_ws_state))
        = [(1, Some NaN), (2, Some NaN), (1, Some NaN), (2, Some NaN)]"
    unfolding example_mesh_neutralize_absent_scores by simp
  show "new_sends example_ws_state
          (on_message fl tn 5 1 (Some (example_neutralize (JObj [(''toString'', JNum 1)])))
             example_ws_state)
        = [(1, M_error ''Invalid message format'')]"
    by (rule example_neutralize_unprintable)
  show "new_sends example_ws_state
          (on_message fl tn 5 1 (Some example_neutralize_no_frequency) example_ws_state) = []"
    by (rule neutralize_silent [OF example_neutralize_no_frequency_fields])
qed

subsection \<open>Forensic analysis\<close>

lemma analyzeRecording_cases:
  "analyzeRecording fl sha256_hex toISOString uuid now_report now_custody r = Inr rep
   \<Longrightarrow> \<exists>t u. rec_timestamp r = Some t \<and> end_of_recording fl r = Some u
         \<and> detectedFrequencies (attackMetadata rep) = [3500, 5100, 8400, 12200]
         \<and> primaryFrequency (attackMetadata rep) = Some 3500
         \<and> custody_checksums rep = [sha256_hex (recordingId r @ toISOString t)]"
  by (auto simp: analyzeRecording_def generateChecksum_def Date_toISOString_def
        analyzeFrequencies_def determinePrimaryFrequency_def custody_checksums_def
      split: option.splits sum.splits)

lemma analyzeRecording_detection:
  "analyzeRecording fl sha256_hex toISOString uuid now_report now_custody r = Inr rep
   \<Longrightarrow> analyzeRecording fl' sha256_hex' toISOString' uuid' now_report' now_custody' r' = Inr rep'
   \<Longrightarrow> detection rep = detection rep'"
  by (auto simp: analyzeRecording_def generateChecksum_def Date_toISOString_def
        analyzeFrequencies_def determinePrimaryFrequency_def detection_def Let_def
      split: option.splits sum.splits)

lemma analyzeRecording_returns:
  "(\<exists>rep. analyzeRecording fl sha256_hex toISOString uuid now_report now_custody r = Inr rep)
     = (rec_timestamp r \<noteq> None \<and> end_of_recording fl r \<noteq> None)"
  by (auto simp: analyzeRecording_def generateChecksum_def Date_toISOString_def
      split: option.splits sum.splits)

lemma analyzeRecording_throws:
  "analyzeRecording fl sha256_hex toISOString uuid now_report now_custody r = Inl e
   \<Longrightarrow> e = RangeError ''Invalid time value''"
  by (auto simp: analyzeRecording_def generateChecksum_def Date_toISOString_def
      split: option.splits sum.splits)

lemma new_Date_beyond: "num_le (Finite (2 ^ 53)) v \<Longrightarrow> new_Date v = None"
  by (cases v) (simp_all add: new_Date_def)

text \<open>A recording of a whole number of seconds that ends within the range of dates.\<close>

lemma end_of_whole_seconds:
  assumes dr: "double_rounding fl" and t: "rec_timestamp r = Some t"
    and d: "rec_duration r = Finite (of_int d)" and m: "\<bar>d * 1000\<bar> \<le> 2 ^ 53"
    and e: "\<bar>t + d * 1000\<bar> \<le> 8640000000000000"
  shows "end_of_recording fl r = Some (t + d * 1000)"
proof -
  from e have e': "\<bar>t + d * 1000\<bar> \<le> 2 ^ 53" by simp
  have a: "num_mul fl (Finite (of_int d)) (Finite 1000) = Finite (of_int (d * 1000))"
    using double_of_exact [of fl "of_int (d * 1000)", OF fl_int [OF dr m] int_in_range(1) [OF m]]
    by simp
  have b: "num_add fl (Finite (of_int t)) (Finite (of_int (d * 1000)))
      = Finite (of_int (t + d * 1000))"
    using double_of_exact [of fl "of_int (t + d * 1000)",
        OF fl_int [OF dr e'] int_in_range(1) [OF e']]
    by simp
  from e have "real_of_int \<bar>t + d * 1000\<bar> \<le> real_of_int 8640000000000000"
    by (simp only: of_int_le_iff)
  then have c: "\<bar>real_of_int (t + d * 1000)\<bar> \<le> 8640000000000000" by simp
  have w: "whole_ms (real_of_int (t + d * 1000)) = t + d * 1000"
    by (simp only: whole_ms_def floor_of_int ceiling_of_int if_cancel)
  show ?thesis
    unfolding end_of_recording_def t d getTime_def option.case a b new_Date_def number.case
    using c w by simp
qed

text \<open>
  C8. analyzeRecording returns a report exactly for a recording whose timestamp is a valid
  date and whose end, the timestamp plus a thousand times the duration in double
  arithmetic, is one too; for every other recording it throws the RangeError of
  toISOString. A recording of a whole number of seconds that ends within the range of
  dates has a report. In every report returned detectedFrequencies is [3500, 5100, 8400,
  12200] and primaryFrequency is the first of them, 3500, and the chain of custody holds
  one checksum, the SHA-256 digest of the recording id followed by the ISO timestamp. The
  reports of two recordings with the same id and timestamp have the same checksum and the
  same detection fields, whatever their audio, the generated report id and the times of
  the analysis; the detection fields are in fact the same in any two reports.
\<close>

theorem C8_detection_ignores_audio:
  "((\<exists>rep. analyzeRecording fl sha256_hex toISOString uuid now_report now_custody r = Inr rep)
      = (rec_timestamp r \<noteq> None \<and> end_of_recording fl r \<noteq> None))
   \<and> (analyzeRecording fl sha256_hex toISOString uuid now_report now_custody r = Inl e
        \<longrightarrow> e = RangeError ''Invalid time value'')
   \<and> (double_rounding fl \<and> rec_timestamp r = Some t \<and> rec_duration r = Finite (of_int d)
        \<and> \<bar>d * 1000\<bar> \<le> 2 ^ 53 \<and> \<bar>t + d * 1000\<bar> \<le> 8640000000000000
        \<longrightarrow> (\<exists>rep. analyzeRecording fl sha256_hex toISOString uuid now_report now_custody r
                    = Inr rep))
   \<and> (analyzeRecording fl sha256_hex toISOString uuid now_report now_custody r = Inr rep
        \<longrightarrow> detectedFrequencies (attackMetadata rep) = [3500, 5100, 8400, 12200]
          \<and> primaryFrequency (attackMetadata rep) = Some 3500
          \<and> (\<exists>t. rec_timestamp r = Some t
                \<and> custody_checksums rep = [sha256_hex (recordingId r @ toISOString t)]))
   \<and> (analyzeRecording fl sha256_hex toISOString uuid now_report now_custody r = Inr rep
        \<and> analyzeRecording fl sha256_hex toISOString uuid' now_report' now_custody' r' = Inr rep'
        \<and> recordingId r = recordingId r' \<and> rec_timestamp r = rec_timestamp r'
        \<longrightarrow> custody_checksums rep = custody_checksums rep' \<and> detection rep = detection rep')
   \<and> (analyzeRecording fl sha256_hex toISOString uuid now_report now_custody r = Inr rep
        \<and> analyzeRecording fl sha256_hex toISOString uuid' now_report' now_custody' r' = Inr rep'
        \<longrightarrow> detection rep = detection rep')"
proof (intro conjI impI)
  show "(\<exists>rep. analyzeRecording fl sha256_hex toISOString uuid now_report now_custody r = Inr rep)
      = (rec_timestamp r \<noteq> None \<and> end_of_recording fl r \<noteq> None)"
    by (rule analyzeRecording_returns)
next
  assume "analyzeRecording fl sha256_hex toISOString uuid now_report now_custody r = Inl e"
  then show "e = RangeError ''Invalid time value''" by (rule analyzeRecording_throws)
next
  assume a: "double_rounding fl \<and> rec_timestamp r = Some t \<and> rec_duration r = Finite (of_int d)
        \<and> \<bar>d * 1000\<bar> \<le> 2 ^ 53 \<and> \<bar>t + d * 1000\<bar> \<le> 8640000000000000"
  then have "end_of_recording fl r = Some (t + d * 1000)"
    using end_of_whole_seconds [of fl r t d] by blast
  with a have "rec_timestamp r \<noteq> None \<and> end_of_recording fl r \<noteq> None" by simp
  then show "\<exists>rep. analyzeRecording fl sha256_hex toISOString uuid now_report now_custody r
                    = Inr rep"
    by (rule analyzeRecording_returns [THEN iffD2])
next
  assume a: "analyzeRecording fl sha256_hex toISOString uuid now_report now_custody r = Inr rep"
  from analyzeRecording_cases [OF a]
  show "detectedFrequencies (attackMetadata rep) = [3500, 5100, 8400, 12200]"
    "primaryFrequency (attackMetadata rep) = Some 3500"
    "\<exists>t. rec_timestamp r = Some t
                \<and> custody_checksums rep = [sha256_hex (recordingId r @ toISOString t)]"
    by blast+
next
  assume a: "analyzeRecording fl sha256_hex toISOString uuid now_report now_custody r = Inr rep
        \<and> analyzeRecording fl sha256_hex toISOString uuid' now_report' now_custody' r' = Inr rep'
        \<and> recordingId r = recordingId r' \<and> rec_timestamp r = rec_timestamp r'"
  then have x: "analyzeRecording fl sha256_hex toISOString uuid now_report now_custody r = Inr rep"
    and y: "analyzeRecording fl sha256_hex toISOString uuid' now_report' now_custody' r' = Inr rep'"
    and z: "recordingId r = recordingId r'" "rec_timestamp r = rec_timestamp r'"
    by simp_all
  from analyzeRecording_cases [OF x] analyzeRecording_cases [OF y] z
  show "custody_checksums rep = custody_checksums rep'" by auto
  from x y show "detection rep = detection rep'" by (rule analyzeRecording_detection)
next
  assume a: "analyzeRecording fl sha256_hex toISOString uuid now_report now_custody r = Inr rep
        \<and> analyzeRecording fl sha256_hex toISOString uuid' now_report' now_custody' r' = Inr rep'"
  then show "detection rep = detection rep'" using analyzeRecording_detection by blast
qed

theorem C8_detection_ignores_audio_witness:
  "double_rounding (\<lambda>x. x)
   \<and> rec_timestamp example_recording = Some 1700000000000
   \<and> rec_duration example_recording = Finite (of_int 12)
   \<and> \<bar>12 * 1000 :: int\<bar> \<le> 2 ^ 53 \<and> \<bar>1700000000000 + 12 * 1000 :: int\<bar> \<le> 8640000000000000
   \<and> recordingId example_recording = recordingId example_recording_other_audio
   \<and> rec_timestamp example_recording = rec_timestamp example_recording_other_audio
   \<and> audioFileUrl example_recording \<noteq> audioFileUrl example_recording_other_audio
   \<and> (\<exists>rep rep'.
        analyzeRecording (\<lambda>x. x) rev example_iso ''id-1'' 5 6 example_recording = Inr rep
        \<and> analyzeRecording (\<lambda>x. x) rev example_iso ''id-2'' 8 9 example_recording_other_audio
            = Inr rep'
        \<and> detectedFrequencies (attackMetadata rep) = [3500, 5100, 8400, 12200]
        \<and> primaryFrequency (attackMetadata rep) = Some 3500
        \<and> custody_checksums rep = [''+T100-cer'']
        \<and> custody_checksums rep' = [''+T100-cer'']
        \<and> detection rep = detection rep')
   \<and> analyzeRecording (\<lambda>x. x) rev example_iso ''id-1'' 5 6 example_recording_invalid_date
        = Inl (RangeError ''Invalid time value'')"
proof -
  let ?fl = "\<lambda>x :: real. x"
  let ?r = example_recording and ?r' = example_recording_other_audio
  note dr = double_rounding_exact
  have h: "rec_timestamp ?r = Some 1700000000000" "rec_duration ?r = Finite (of_int 12)"
    "rec_timestamp ?r' = Some 1700000000000" "rec_duration ?r' = Finite (of_int 600)"
    "recordingId ?r = ''rec-001''" "recordingId ?r' = ''rec-001''"
    by (simp_all add: example_recording_def example_recording_other_audio_def)
  have n: "\<bar>12 * 1000 :: int\<bar> \<le> 2 ^ 53" "\<bar>1700000000000 + 12 * 1000 :: int\<bar> \<le> 8640000000000000"
    "\<bar>600 * 1000 :: int\<bar> \<le> 2 ^ 53" "\<bar>1700000000000 + 600 * 1000 :: int\<bar> \<le> 8640000000000000"
    by simp_all
  have d: "audioFileUrl ?r \<noteq> audioFileUrl ?r'"
    by (simp add: example_recording_other_audio_def example_recording_def)
  have "\<exists>rep. analyzeRecording ?fl rev example_iso ''id-1'' 5 6 ?r = Inr rep"
    using C8_detection_ignores_audio [where fl = ?fl and r = ?r and t = 1700000000000 and d = 12
        and sha256_hex = rev and toISOString = example_iso and uuid = "''id-1''"
        and now_report = 5 and now_custody = 6] dr h(1,2) n(1,2)
    by blast
  then obtain rep where rep: "analyzeRecording ?fl rev example_iso ''id-1'' 5 6 ?r = Inr rep" ..
  have "\<exists>rep. analyzeRecording ?fl rev example_iso ''id-2'' 8 9 ?r' = Inr rep"
    using C8_detection_ignores_audio [where fl = ?fl and r = ?r' and t = 1700000000000 and d = 600
        and sha256_hex = rev and toISOString = example_iso and uuid = "''id-2''"
        and now_report = 8 and now_custody = 9] dr h(3,4) n(3,4)
    by blast
  then obtain rep' where rep': "analyzeRecording ?fl rev example_iso ''id-2'' 8 9 ?r' = Inr rep'" ..
  note t = C8_detection_ignores_audio [where fl = ?fl and r = ?r and r' = ?r' and rep = rep
      and rep' = rep' and sha256_hex = rev and toISOString = example_iso and uuid = "''id-1''"
      and now_report = 5 and now_custody = 6 and uuid' = "''id-2''" and now_report' = 8
      and now_custody' = 9]
  note u = C8_detection_ignores_audio [where fl = ?fl and r = ?r' and rep = rep'
      and sha256_hex = rev and toISOString = example_iso and uuid = "''id-2''"
      and now_report = 8 and now_custody = 9]
  from t rep have a: "detectedFrequencies (attackMetadata rep) = [3500, 5100, 8400, 12200]"
    "primaryFrequency (attackMetadata rep) = Some 3500"
    "\<exists>t. rec_timestamp ?r = Some t \<and> custody_checksums rep = [rev (recordingId ?r @ example_iso t)]"
    by blast+
  from a(3) have c: "custody_checksums rep = [''+T100-cer'']"
    by (auto simp: h example_iso_def)
  have z: "recordingId ?r = recordingId ?r'" "rec_timestamp ?r = rec_timestamp ?r'"
    by (simp_all add: h)
  from t rep rep' z have b: "custody_checksums rep = custody_checksums rep'"
    "detection rep = detection rep'"
    by blast+
  from b(1) c have c': "custody_checksums rep' = [''+T100-cer'']" by simp
  have i: "rec_timestamp example_recording_invalid_date = None"
    "end_of_recording ?fl example_recording_invalid_date = None"
    by (simp_all add: example_recording_invalid_date_def end_of_recording_def getTime_def
          new_Date_def)
  have "\<not> (\<exists>rep. analyzeRecording ?fl rev example_iso ''id-1'' 5 6 example_recording_invalid_date
      = Inr rep)"
    using C8_detection_ignores_audio [where fl = ?fl and r = example_recording_invalid_date
        and sha256_hex = rev and toISOString = example_iso and uuid = "''id-1''"
        and now_report = 5 and now_custody = 6] i
    by blast
  then obtain e where e: "analyzeRecording ?fl rev example_iso ''id-1'' 5 6
      example_recording_invalid_date = Inl e"
    by (cases "analyzeRecording ?fl rev example_iso ''id-1'' 5 6 example_recording_invalid_date")
      auto
  with C8_detection_ignores_audio [where fl = ?fl and r = example_recording_invalid_date
        and sha256_hex = rev and toISOString = example_iso and uuid = "''id-1''"
        and now_report = 5 and now_custody = 6 and e = e]
  have f: "analyzeRecording ?fl rev example_iso ''id-1'' 5 6 example_recording_invalid_date
      = Inl (RangeError ''Invalid time value'')"
    by blast
  show ?thesis
    using dr h(1,2) n(1,2) d rep rep' a(1,2) c c' b(2) f
    by (simp add: h)
qed

text \<open>
  Where C8 as stated fails: not every recording has a report. For a recording whose
  timestamp is the invalid date toISOString throws in generateChecksum. For a recording
  whose duration is infinite, or \<open>10^13\<close> seconds, the end is beyond the range of
  dates, and toISOString throws at \<^verbatim>\<open>endTime\<close>. None of them has detection fields
  or a checksum.
\<close>

theorem C8_no_report_without_valid_dates:
  "(\<forall>fl sha256_hex toISOString uuid now_report now_custody.
      analyzeRecording fl sha256_hex toISOString uuid now_report now_custody
        example_recording_invalid_date
      = Inl (RangeError ''Invalid time value''))
   \<and> (\<forall>fl sha256_hex toISOString uuid now_report now_custody.
      analyzeRecording fl sha256_hex toISOString uuid now_report now_custody
        example_recording_endless
      = Inl (RangeError ''Invalid time value''))
   \<and> \<not> (\<exists>fl sha256_hex toISOString uuid now_report now_custody.
      double_rounding fl
      \<and> analyzeRecording fl sha256_hex toISOString uuid now_report now_custody
          example_recording_long
        \<noteq> Inl (RangeError ''Invalid time value''))"
proof (intro conjI allI notI)
  fix fl :: "real \<Rightarrow> real" and sha256_hex :: "string \<Rightarrow> string" and toISOString :: "date \<Rightarrow> string"
    and uuid :: string and now_report now_custody :: date
  show "analyzeRecording fl sha256_hex toISOString uuid now_report now_custody
        example_recording_invalid_date
      = Inl (RangeError ''Invalid time value'')"
    by (simp add: analyzeRecording_def generateChecksum_def Date_toISOString_def
          example_recording_invalid_date_def)
  show "analyzeRecording fl sha256_hex toISOString uuid now_report now_custody
        example_recording_endless
      = Inl (RangeError ''Invalid time value'')"
    by (simp add: analyzeRecording_def generateChecksum_def Date_toISOString_def
          example_recording_endless_def example_recording_def end_of_recording_def getTime_def
          new_Date_def)
next
  assume "\<exists>fl sha256_hex toISOString uuid now_report now_custody.
      double_rounding fl
      \<and> analyzeRecording fl sha256_hex toISOString uuid now_report now_custody
          example_recording_long
        \<noteq> Inl (RangeError ''Invalid time value'')"
  then obtain fl :: "real \<Rightarrow> real" and sha256_hex :: "string \<Rightarrow> string"
    and toISOString :: "date \<Rightarrow> string" and uuid :: string and now_report now_custody :: date
    where dr: "double_rounding fl"
      and ne: "analyzeRecording fl sha256_hex toISOString uuid now_report now_custody
          example_recording_long \<noteq> Inl (RangeError ''Invalid time value'')"
    by blast
  have p: "\<bar>2 ^ 53 :: int\<bar> \<le> 2 ^ 53" by simp
  have f: "fl (2 ^ 53) = 2 ^ 53" using fl_int [OF dr p] by simp
  have g: "- max_double \<le> 2 ^ 53" using max_double_large by simp
  have "num_le (Finite (2 ^ 53)) (double_of fl (10000000000000 * 1000))"
    by (rule double_of_ge [OF dr f g]) simp
  then have m: "num_le (Finite (2 ^ 53 - 1700000000000))
      (num_mul fl (Finite 10000000000000) (Finite 1000))"
    by (cases "double_of fl (10000000000000 * 1000)") simp_all
  have s: "num_le (Finite (2 ^ 53 - 1700000000000 + 1700000000000))
      (num_add fl (Finite 1700000000000) (num_mul fl (Finite 10000000000000) (Finite 1000)))"
    by (rule num_add_ge(2) [OF dr m]) (use f g in simp_all)
  have "end_of_recording fl example_recording_long = None"
    unfolding end_of_recording_def
    by (rule new_Date_beyond)
      (use s in \<open>simp add: example_recording_long_def example_recording_def getTime_def\<close>)
  then have "analyzeRecording fl sha256_hex toISOString uuid now_report now_custody
      example_recording_long = Inl (RangeError ''Invalid time value'')"
    by (simp add: analyzeRecording_def generateChecksum_def Date_toISOString_def
          example_recording_long_def example_recording_def)
  with ne show False by simp
qed

subsection \<open>The ADS controller\<close>

lemma resolve_cases [simp]:
  "resolve v (Resolved w) = Resolved w" "resolve v Pending = Resolved v"
  "resolve v (Rejected e) = Rejected e"
  by (simp_all add: resolve_def)

lemma availability_on_resolved [simp]: "availability_on (Resolved b) ev = Resolved b"
  by (cases ev) simp_all

lemma availability_stays: "foldl availability_on (Resolved b) evs = Resolved b"
  by (induction evs) simp_all

lemma availability_on_not_rejected:
  "\<forall>e. p \<noteq> Rejected e \<Longrightarrow> \<forall>e. availability_on p ev \<noteq> Rejected e"
  by (cases ev; cases p) simp_all

lemma availability_not_rejected:
  "\<forall>e. p \<noteq> Rejected e \<Longrightarrow> \<forall>e. foldl availability_on p evs \<noteq> Rejected e"
proof (induction evs arbitrary: p)
  case Nil
  then show ?case by simp
next
  case (Cons ev evs)
  from availability_on_not_rejected [OF Cons.prems]
  have "\<forall>e. availability_on p ev \<noteq> Rejected e" .
  from Cons.IH [OF this] show ?case by simp
qed

lemma availability_resolves:
  assumes "TimerFired \<in> set evs"
  shows "\<exists>b. checkJuliaAvailability evs = Resolved b"
proof -
  from assms obtain xs ys where evs: "evs = xs @ TimerFired # ys"
    by (auto simp: in_set_conv_decomp)
  have nr: "\<forall>e. foldl availability_on Pending xs \<noteq> Rejected e"
    by (rule availability_not_rejected) simp
  have "\<exists>b. availability_on (foldl availability_on Pending xs) TimerFired = Resolved b"
    using nr by (cases "foldl availability_on Pending xs") auto
  then show ?thesis
    by (auto simp: checkJuliaAvailability_def evs availability_stays)
qed

lemma fallback_ok:
  "threatType \<notin> set Object_prototype_keys \<Longrightarrow>
   \<exists>this' d. fallbackDeployment rnd now this threatType = Inr (this', d)"
  by (simp add: fallbackDeployment_def member_of_def Let_def split: option.splits)

lemma deploy_on_resolved:
  assumes "threatType \<notin> set Object_prototype_keys"
    and "dr_promise r = Resolved v" and "dr_uncaught r = None"
  shows "dr_promise (deploy_on JSON_parse rnd now threatType r ev) = Resolved v
    \<and> dr_uncaught (deploy_on JSON_parse rnd now threatType r ev) = None"
  using assms fallback_ok [OF assms(1), of rnd now "dr_this r"]
  by (cases ev) (auto simp: resolve_with_fallback_def split: option.splits)

lemma deploy_stays:
  assumes "threatType \<notin> set Object_prototype_keys"
  shows "dr_promise r = Resolved v \<Longrightarrow> dr_uncaught r = None \<Longrightarrow>
    dr_promise (foldl (deploy_on JSON_parse rnd now threatType) r evs) = Resolved v
    \<and> dr_uncaught (foldl (deploy_on JSON_parse rnd now threatType) r evs) = None"
proof (induction evs arbitrary: r)
  case Nil
  then show ?case by simp
next
  case (Cons ev evs)
  from deploy_on_resolved [OF assms Cons.prems]
  have "dr_promise (deploy_on JSON_parse rnd now threatType r ev) = Resolved v"
    and "dr_uncaught (deploy_on JSON_parse rnd now threatType r ev) = None" by blast+
  from Cons.IH [OF this] show ?case by simp
qed

lemma deploy_on_ok:
  assumes "threatType \<notin> set Object_prototype_keys"
    and "\<forall>e. dr_promise r \<noteq> Rejected e" and "dr_uncaught r = None"
  shows "(\<forall>e. dr_promise (deploy_on JSON_parse rnd now threatType r ev) \<noteq> Rejected e)
    \<and> dr_uncaught (deploy_on JSON_parse rnd now threatType r ev) = None"
  using assms fallback_ok [OF assms(1), of rnd now "dr_this r"]
  by (cases ev; cases "dr_promise r") (auto simp: resolve_with_fallback_def split: option.splits)

lemma deploy_ok:
  assumes "threatType \<notin> set Object_prototype_keys"
  shows "\<forall>e. dr_promise r \<noteq> Rejected e \<Longrightarrow> dr_uncaught r = None \<Longrightarrow>
    (\<forall>e. dr_promise (foldl (deploy_on JSON_parse rnd now threatType) r evs) \<noteq> Rejected e)
    \<and> dr_uncaught (foldl (deploy_on JSON_parse rnd now threatType) r evs) = None"
proof (induction evs arbitrary: r)
  case Nil
  then show ?case by simp
next
  case (Cons ev evs)
  from deploy_on_ok [OF assms Cons.prems]
  have "\<forall>e. dr_promise (deploy_on JSON_parse rnd now threatType r ev) \<noteq> Rejected e"
    and "dr_uncaught (deploy_on JSON_parse rnd now threatType r ev) = None" by blast+
  from Cons.IH [OF this] show ?case by simp
qed

lemma deploy_run_resolves:
  assumes k: "threatType \<notin> set Object_prototype_keys"
    and t: "TimerFired \<in> set evs"
    and p: "dr_promise r0 = Pending" and u: "dr_uncaught r0 = None"
  shows "(\<exists>v. dr_promise (foldl (deploy_on JSON_parse rnd now threatType) r0 evs) = Resolved v)
    \<and> dr_uncaught (foldl (deploy_on JSON_parse rnd now threatType) r0 evs) = None"
proof -
  from t obtain xs ys where evs: "evs = xs @ TimerFired # ys"
    by (auto simp: in_set_conv_decomp)
  let ?r = "foldl (deploy_on JSON_parse rnd now threatType) r0 xs"
  have ok: "\<forall>e. dr_promise ?r \<noteq> Rejected e" "dr_uncaught ?r = None"
    using deploy_ok [OF k, of r0 JSON_parse rnd now xs] p u by auto
  from fallback_ok [OF k, of rnd now "dr_this ?r"] obtain this' d
    where fb: "fallbackDeployment rnd now (dr_this ?r) threatType = Inr (this', d)" by blast
  have "\<exists>v. dr_promise (deploy_on JSON_parse rnd now threatType ?r TimerFired) = Resolved v"
    using ok fb by (cases "dr_promise ?r") (auto simp: resolve_with_fallback_def)
  then obtain v where v: "dr_promise (deploy_on JSON_parse rnd now threatType ?r TimerFired) = Resolved v" ..
  have u': "dr_uncaught (deploy_on JSON_parse rnd now threatType ?r TimerFired) = None"
    using ok fb by (auto simp: resolve_with_fallback_def)
  from deploy_stays [OF k v u', of JSON_parse rnd now ys] show ?thesis
    by (auto simp: evs)
qed

lemma deployCountermeasures_resolves_for_ordinary_threat_types:
  assumes "threatType \<notin> set Object_prototype_keys"
    and "TimerFired \<in> set check_events" and "TimerFired \<in> set run_events"
  shows "(\<exists>v. dr_promise (deployCountermeasures JSON_parse rnd now this threatType
                check_events run_events) = Resolved v)
    \<and> dr_uncaught (deployCountermeasures JSON_parse rnd now this threatType
                check_events run_events) = None"
proof -
  from availability_resolves [OF assms(2)] obtain b
    where b: "checkJuliaAvailability check_events = Resolved b" ..
  from fallback_ok [OF assms(1), of rnd now this] obtain this' d
    where fb: "fallbackDeployment rnd now this threatType = Inr (this', d)" by blast
  show ?thesis
  proof (cases b)
    case True
    with b show ?thesis
      using deploy_run_resolves [OF assms(1) assms(3), of
          "\<lparr> dr_this = this, dr_stdout = [], dr_stderr = [], dr_promise = Pending,
             dr_uncaught = None \<rparr>" JSON_parse rnd now]
      by (simp add: deployCountermeasures_def Let_def)
  next
    case False
    with b fb show ?thesis by (simp add: deployCountermeasures_def Let_def)
  qed
qed

text \<open>
  C3. deployCountermeasures resolves in every run whose timers fire for a threat type
  that is no member name of Object.prototype
  (deployCountermeasures_resolves_for_ordinary_threat_types). For a threat type that is
  one, fallbackDeployment throws instead of computing a fallback: with threat type
  'toString' and Julia unavailable the promise of deployCountermeasures is rejected with
  a TypeError, and with Julia available but exiting with code 1 the exception leaves the
  'close' listener uncaught and the promise stays pending.
\<close>

theorem C3_deployCountermeasures_rejects_inherited_key:
  "dr_promise (deployCountermeasures (\<lambda>_. None) (1 / 2) 5 newADSDestroyerController ''toString''
       [SpawnError, TimerFired] [])
     = Rejected (TypeError ''frequencies.flatMap is not a function'')
   \<and> dr_uncaught (deployCountermeasures (\<lambda>_. None) (1 / 2) 5 newADSDestroyerController
        ''toString'' [Close (Some 0), TimerFired] [Close (Some 1), TimerFired])
     = Some (TypeError ''frequencies.flatMap is not a function'')
   \<and> dr_promise (deployCountermeasures (\<lambda>_. None) (1 / 2) 5 newADSDestroyerController
        ''toString'' [Close (Some 0), TimerFired] [Close (Some 1), TimerFired])
     = Pending"
  by (simp add: deployCountermeasures_def checkJuliaAvailability_def resolve_def
      resolve_with_fallback_def fallbackDeployment_def member_of_def baseFrequencies_def
      Object_prototype_keys_def Let_def)

end
